theory Spec2Isabelle
  imports Complex_Main "HOL-Library.Word" "HOL-Library.Signed_Division"
begin

unbundle bit_operations_syntax

section \<open>C scalar types and formatted output\<close>

type_synonym uint8_t = "8 word"
type_synonym int16_t = "16 word"
type_synonym uint32_t = "32 word"

text \<open>
  \<^verbatim>\<open>printf("%d", n)\<close>: the decimal digits of a C \<^verbatim>\<open>int\<close>, with a leading minus sign
  for a negative value.
\<close>

definition digit_char :: "nat \<Rightarrow> char" where
  "digit_char d = ''0123456789'' ! d"

fun dec_nat :: "nat \<Rightarrow> string" where
  "dec_nat n = (if n < 10 then [digit_char n] else dec_nat (n div 10) @ [digit_char (n mod 10)])"

declare dec_nat.simps [simp del]

definition fmt_d :: "int \<Rightarrow> string" where
  "fmt_d i = (if i < 0 then CHR ''-'' # dec_nat (nat (- i)) else dec_nat (nat i))"

text \<open>\<^verbatim>\<open>snprintf(buf, size, ...)\<close> keeps at most \<open>size - 1\<close> characters.\<close>

definition snprintf :: "nat \<Rightarrow> string \<Rightarrow> string" where
  "snprintf n s = take (n - 1) s"

section \<open>Widgets of the rendering collaborator\<close>

text \<open>
  Colours are kept symbolic: the constructors stand for \<^verbatim>\<open>lv_color_hex\<close>,
  \<^verbatim>\<open>lv_color_make\<close> and for the result of the floating-point HSV conversion in
  \<^verbatim>\<open>get_slide_layer_color\<close>, whose integer hue is all that is computed here.
\<close>

datatype lv_color = lv_color_hex uint32_t | lv_color_make nat nat nat | lv_color_pastel_hue int

datatype lv_align = LV_ALIGN_DEFAULT | LV_ALIGN_BOTTOM_MID

text \<open>
  Animations started on an object: the pulse of \<^verbatim>\<open>start_pulse_anim\<close> and the scroll
  of \<^verbatim>\<open>update_layer_slide_display\<close> with its start offset in pixels.
\<close>

datatype lv_anim = Pulse_anim | Scroll_anim int

text \<open>
  The properties of an \<^verbatim>\<open>lv_obj_t\<close> that the modelled functions write: alignment and
  offsets, width, font size, label text, text colour and opacity, background colour, object
  opacity, and for a bar the indicator's opacity and colour and the value. \<open>obj_id\<close> is
  the identity (address) of the object; a pointer variable is an \<open>lv_obj option\<close>, with
  \<open>None\<close> for \<^verbatim>\<open>NULL\<close>. Text alignment, transform pivots, heights and invalidation
  requests are left to the rendering collaborator.
\<close>

record lv_obj =
  obj_id :: nat
  obj_align :: lv_align
  obj_x :: int
  obj_y :: int
  obj_width :: int
  obj_font :: nat
  obj_text :: string
  obj_text_color :: lv_color
  obj_text_opa :: nat
  obj_bg_color :: lv_color
  obj_opa :: nat
  obj_ind_opa :: nat
  obj_ind_color :: lv_color
  obj_bar_value :: int
  obj_anims :: "lv_anim list"

text \<open>A new object at address \<open>a\<close>, before any property is set.\<close>

definition lv_obj_new :: "nat \<Rightarrow> lv_obj" where
  "lv_obj_new a =
     \<lparr>obj_id = a, obj_align = LV_ALIGN_DEFAULT, obj_x = 0, obj_y = 0, obj_width = 0,
      obj_font = 14, obj_text = [], obj_text_color = lv_color_hex 0, obj_text_opa = 255,
      obj_bg_color = lv_color_hex 0, obj_opa = 255, obj_ind_opa = 255,
      obj_ind_color = lv_color_hex 0, obj_bar_value = 0, obj_anims = []\<rparr>"

text \<open>
  Two arrays of pointers hold the same objects, each changed at most as \<open>R\<close> allows;
  \<open>recolored\<close> allows another background colour, \<open>recolored_moved\<close> another
  background colour and position.
\<close>

definition same_objs :: "(lv_obj \<Rightarrow> lv_obj \<Rightarrow> bool) \<Rightarrow> lv_obj option list \<Rightarrow> lv_obj option list \<Rightarrow> bool" where
  "same_objs R olds news \<longleftrightarrow> list_all2 (rel_option R) olds news"

definition recolored :: "lv_obj \<Rightarrow> lv_obj \<Rightarrow> bool" where
  "recolored old new \<longleftrightarrow> new\<lparr>obj_bg_color := obj_bg_color old\<rparr> = old"

definition recolored_moved :: "lv_obj \<Rightarrow> lv_obj \<Rightarrow> bool" where
  "recolored_moved old new \<longleftrightarrow>
     new\<lparr>obj_bg_color := obj_bg_color old, obj_x := obj_x old, obj_y := obj_y old\<rparr> = old"

text \<open>\<^verbatim>\<open>if (p[i]) { ... }\<close> on an array of object pointers.\<close>

definition upd_obj :: "nat \<Rightarrow> (lv_obj \<Rightarrow> lv_obj) \<Rightarrow> lv_obj option list \<Rightarrow> lv_obj option list" where
  "upd_obj i f objs = (case objs ! i of None \<Rightarrow> objs | Some obj \<Rightarrow> objs[i := Some (f obj)])"

definition LV_OPA_TRANSP :: nat where "LV_OPA_TRANSP = 0"
definition LV_OPA_20 :: nat where "LV_OPA_20 = 51"
definition LV_OPA_30 :: nat where "LV_OPA_30 = 76"
definition LV_OPA_40 :: nat where "LV_OPA_40 = 102"
definition LV_OPA_70 :: nat where "LV_OPA_70 = 178"
definition LV_OPA_COVER :: nat where "LV_OPA_COVER = 255"

section \<open>Pong Wars\<close>

definition PW_CELL_SIZE :: int where "PW_CELL_SIZE = 20"
definition PW_GRID_W :: nat where "PW_GRID_W = 12"
definition PW_GRID_H :: nat where "PW_GRID_H = 9"
definition PW_NUM_CELLS :: nat where "PW_NUM_CELLS = PW_GRID_W * PW_GRID_H"
definition PW_NUM_BALLS :: nat where "PW_NUM_BALLS = 2"
definition PW_BALL_RADIUS :: int where "PW_BALL_RADIUS = 6"
definition PW_ARENA_W :: int where "PW_ARENA_W = 240"
definition PW_ARENA_H :: int where "PW_ARENA_H = 180"

definition pw_color_palettes :: "uint32_t list list" where
  "pw_color_palettes =
     [[0xFFB5E8, 0xB5DEFF, 0xFF4D6D, 0x2D8CFF],
      [0xFFDEB5, 0xB5FFD9, 0xFF8C42, 0x2ECC71],
      [0xE8B5FF, 0xFFFDB5, 0x9B59B6, 0xF1C40F],
      [0xB5FFE8, 0xFFB5C5, 0x1ABC9C, 0xE74C3C],
      [0xD5B5FF, 0xB5F0FF, 0x8E44AD, 0x3498DB],
      [0xFFE5B5, 0xC5FFB5, 0xE67E22, 0x27AE60]]"

definition PW_NUM_PALETTES :: nat where
  "PW_NUM_PALETTES = length pw_color_palettes"

record pw_ball =
  ball_x :: int16_t
  ball_y :: int16_t
  ball_dx :: int16_t
  ball_dy :: int16_t
  ball_team :: uint8_t

text \<open>
  The file-scope variables of the simulation. \<open>pw_timer\<close> holds the period of the
  running LVGL timer, \<open>pw_frame_count\<close> is the static local of \<^verbatim>\<open>pw_timer_cb\<close>.
  The two scores are C \<^verbatim>\<open>int\<close>s; they stay between 0 and 108 (lemma
  \<open>pw_inv_bounds\<close> below), so unbounded integers model them exactly.
\<close>

record pw_state =
  pw_color_team1 :: uint32_t
  pw_color_team2 :: uint32_t
  pw_color_ball1 :: uint32_t
  pw_color_ball2 :: uint32_t
  pw_timer :: "nat option"
  pw_grid :: "uint8_t list"
  pw_cell_objs :: "lv_obj option list"
  pw_arena_container :: "lv_obj option"
  pw_ball_objs :: "lv_obj option list"
  pw_score_label1 :: "lv_obj option"
  pw_score_label2 :: "lv_obj option"
  pw_initialized :: bool
  pw_rand_seed :: uint32_t
  pw_base_speed :: int16_t
  pw_balls :: "pw_ball list"
  pw_score1 :: int
  pw_score2 :: int
  pw_frame_count :: "16 word"

definition pw_rand :: "pw_state \<Rightarrow> uint32_t \<times> pw_state" where
  "pw_rand s =
     (let seed = pw_rand_seed s * 1103515245 + 12345
      in (drop_bit 16 seed AND 0x7FFF, s\<lparr>pw_rand_seed := seed\<rparr>))"

text \<open>The body of the two nested loops of \<^verbatim>\<open>pw_init_grid\<close>, for row \<open>y\<close> and column \<open>x\<close>.\<close>

definition pw_init_cell :: "nat \<Rightarrow> nat \<Rightarrow> pw_state \<Rightarrow> pw_state" where
  "pw_init_cell y x s =
     (let idx = y * PW_GRID_W + x;
          s1 = s\<lparr>pw_grid := (pw_grid s)[idx := (if x < PW_GRID_W div 2 then 0 else 1)]\<rparr>;
          s2 = (if pw_grid s1 ! idx = 0 then s1\<lparr>pw_score1 := pw_score1 s1 + 1\<rparr>
                else s1\<lparr>pw_score2 := pw_score2 s1 + 1\<rparr>);
          color = (if pw_grid s2 ! idx = 0 then pw_color_team1 s2 else pw_color_team2 s2)
      in s2\<lparr>pw_cell_objs :=
              upd_obj idx (\<lambda>obj. obj\<lparr>obj_bg_color := lv_color_hex color\<rparr>) (pw_cell_objs s2)\<rparr>)"

definition pw_init_grid :: "pw_state \<Rightarrow> pw_state" where
  "pw_init_grid s =
     fold (\<lambda>y. fold (pw_init_cell y) [0..<PW_GRID_W]) [0..<PW_GRID_H]
       (s\<lparr>pw_score1 := 0, pw_score2 := 0\<rparr>)"

definition pw_select_random_palette :: "pw_state \<Rightarrow> pw_state" where
  "pw_select_random_palette s =
     (let (r, s1) = pw_rand s;
          idx = unat r mod PW_NUM_PALETTES
      in s1\<lparr>pw_color_team1 := pw_color_palettes ! idx ! 0,
             pw_color_team2 := pw_color_palettes ! idx ! 1,
             pw_color_ball1 := pw_color_palettes ! idx ! 2,
             pw_color_ball2 := pw_color_palettes ! idx ! 3\<rparr>)"

text \<open>
  The loop body of \<^verbatim>\<open>pw_init_balls\<close> for ball \<open>i\<close>. The sum
  \<^verbatim>\<open>pw_base_speed + (pw_rand() % 10) - 5\<close> is computed in \<^verbatim>\<open>uint32_t\<close> (the usual
  arithmetic conversions) and read back as an \<^verbatim>\<open>int\<close>.
\<close>

definition pw_init_ball :: "nat \<Rightarrow> pw_state \<Rightarrow> pw_state" where
  "pw_init_ball i s =
     (let b = (pw_balls s ! i)\<lparr>ball_team := of_nat i\<rparr>;
          b = (if i = 0
               then b\<lparr>ball_x := word_of_int (PW_ARENA_W sdiv 4), ball_y := word_of_int (PW_ARENA_H sdiv 2)\<rparr>
               else b\<lparr>ball_x := word_of_int (PW_ARENA_W * 3 sdiv 4), ball_y := word_of_int (PW_ARENA_H sdiv 2)\<rparr>);
          (r0, s) = pw_rand s;
          angle_idx = uint (r0 mod 8);
          (r1, s) = pw_rand s;
          vx = sint ((scast (pw_base_speed s) :: uint32_t) + r1 mod 10 - 5);
          (r2, s) = pw_rand s;
          vy = sint ((scast (pw_base_speed s) :: uint32_t) + r2 mod 10 - 5);
          sx = (if angle_idx < 4 then 1 else - 1);
          sy = (if angle_idx smod 4 < 2 then 1 else - 1);
          b = b\<lparr>ball_dx := word_of_int (vx * sx), ball_dy := word_of_int (vy * sy)\<rparr>;
          b = (if i = 0 \<and> sint (ball_dx b) < 0 then b\<lparr>ball_dx := - ball_dx b\<rparr> else b);
          b = (if i = 1 \<and> sint (ball_dx b) > 0 then b\<lparr>ball_dx := - ball_dx b\<rparr> else b)
      in s\<lparr>pw_balls := (pw_balls s)[i := b]\<rparr>)"

text \<open>\<open>uptime\<close> is the value returned by \<^verbatim>\<open>k_uptime_get_32()\<close>.\<close>

definition pw_init_balls :: "uint32_t \<Rightarrow> pw_state \<Rightarrow> pw_state" where
  "pw_init_balls uptime s =
     (let s = s\<lparr>pw_rand_seed := uptime\<rparr>;
          s = pw_select_random_palette s;
          (r, s) = pw_rand s;
          s = s\<lparr>pw_base_speed := ucast (40 + r mod 21)\<rparr>
      in fold pw_init_ball [0..<PW_NUM_BALLS] s)"

definition pw_update_cell_color :: "int \<Rightarrow> int \<Rightarrow> uint8_t \<Rightarrow> pw_state \<Rightarrow> pw_state" where
  "pw_update_cell_color gx gy team s =
     (let idx = gy * int PW_GRID_W + gx
      in if idx < 0 \<or> idx \<ge> int PW_NUM_CELLS then s
         else let color = (if team = 0 then pw_color_team1 s else pw_color_team2 s)
              in s\<lparr>pw_cell_objs :=
                     upd_obj (nat idx) (\<lambda>obj. obj\<lparr>obj_bg_color := lv_color_hex color\<rparr>) (pw_cell_objs s)\<rparr>)"

definition pw_update_ball_display :: "nat \<Rightarrow> pw_state \<Rightarrow> pw_state" where
  "pw_update_ball_display i s =
     s\<lparr>pw_ball_objs :=
         upd_obj i (\<lambda>obj. obj\<lparr>obj_x := sint (ball_x (pw_balls s ! i)) - PW_BALL_RADIUS,
                              obj_y := sint (ball_y (pw_balls s ! i)) - PW_BALL_RADIUS\<rparr>)
           (pw_ball_objs s)\<rparr>"

definition pw_update_score :: "pw_state \<Rightarrow> pw_state" where
  "pw_update_score s =
     (let s = (case pw_score_label1 s of
                 None \<Rightarrow> s
               | Some l \<Rightarrow> s\<lparr>pw_score_label1 := Some (l\<lparr>obj_text := snprintf 8 (fmt_d (pw_score1 s))\<rparr>)\<rparr>)
      in case pw_score_label2 s of
           None \<Rightarrow> s
         | Some l \<Rightarrow> s\<lparr>pw_score_label2 := Some (l\<lparr>obj_text := snprintf 8 (fmt_d (pw_score2 s))\<rparr>)\<rparr>)"

text \<open>
  The wall bounce of \<^verbatim>\<open>pw_step\<close> along one axis: position \<open>p\<close> and velocity \<open>v\<close>
  against the upper limit \<open>hi\<close> (\<^verbatim>\<open>PW_ARENA_W\<close> or \<^verbatim>\<open>PW_ARENA_H\<close>).
\<close>

definition pw_bounce :: "int \<Rightarrow> int \<Rightarrow> int16_t \<Rightarrow> int \<times> int16_t" where
  "pw_bounce hi p v =
     (if p < PW_BALL_RADIUS then (PW_BALL_RADIUS, - v)
      else if p > hi - PW_BALL_RADIUS then (hi - PW_BALL_RADIUS, - v)
      else (p, v))"

text \<open>The conversion of cell \<open>(gx, gy)\<close> by ball \<open>b\<close>: the inner block of \<^verbatim>\<open>pw_step\<close>.\<close>

definition pw_convert_cell :: "int \<Rightarrow> int \<Rightarrow> pw_ball \<Rightarrow> pw_state \<Rightarrow> pw_ball \<times> pw_state" where
  "pw_convert_cell gx gy b s =
     (let idx = nat (gy * int PW_GRID_W + gx);
          s = s\<lparr>pw_grid := (pw_grid s)[idx := ball_team b]\<rparr>;
          s = pw_update_cell_color gx gy (ball_team b) s;
          s = (if ball_team b = 0
               then s\<lparr>pw_score1 := pw_score1 s + 1, pw_score2 := pw_score2 s - 1\<rparr>
               else s\<lparr>pw_score2 := pw_score2 s + 1, pw_score1 := pw_score1 s - 1\<rparr>);
          (r, s) = pw_rand s;
          r = r mod 3;
          b = (if r = 0 then b\<lparr>ball_dx := - ball_dx b\<rparr>
               else if r = 1 then b\<lparr>ball_dy := - ball_dy b\<rparr>
               else b\<lparr>ball_dx := - ball_dx b, ball_dy := - ball_dy b\<rparr>)
      in (b, s))"

text \<open>One iteration of the loop of \<^verbatim>\<open>pw_step\<close>, for ball \<open>i\<close>.\<close>

definition pw_step_ball :: "nat \<Rightarrow> pw_state \<Rightarrow> pw_state" where
  "pw_step_ball i s =
     (let b = pw_balls s ! i;
          new_x = sint (ball_x b) + sint (ball_dx b) sdiv 10;
          new_y = sint (ball_y b) + sint (ball_dy b) sdiv 10;
          (new_x, dx) = pw_bounce PW_ARENA_W new_x (ball_dx b);
          (new_y, dy) = pw_bounce PW_ARENA_H new_y (ball_dy b);
          b = b\<lparr>ball_dx := dx, ball_dy := dy\<rparr>;
          gx = new_x sdiv PW_CELL_SIZE;
          gy = new_y sdiv PW_CELL_SIZE;
          (b, s) = (if gx \<ge> 0 \<and> gx < int PW_GRID_W \<and> gy \<ge> 0 \<and> gy < int PW_GRID_H
                       \<and> pw_grid s ! nat (gy * int PW_GRID_W + gx) \<noteq> ball_team b
                    then pw_convert_cell gx gy b s else (b, s));
          b = b\<lparr>ball_x := word_of_int new_x, ball_y := word_of_int new_y\<rparr>;
          s = s\<lparr>pw_balls := (pw_balls s)[i := b]\<rparr>
      in pw_update_ball_display i s)"

definition pw_step :: "pw_state \<Rightarrow> pw_state" where
  "pw_step s = (if \<not> pw_initialized s then s else fold pw_step_ball [0..<PW_NUM_BALLS] s)"

definition pw_timer_cb :: "pw_state \<Rightarrow> pw_state" where
  "pw_timer_cb s =
     (if \<not> pw_initialized s then s
      else let s = s\<lparr>pw_frame_count := pw_frame_count s + 1\<rparr>;
               s = pw_step s
           in if pw_frame_count s mod 10 = 0 then pw_update_score s else s)"

definition destroy_pong_wars_widgets :: "pw_state \<Rightarrow> pw_state" where
  "destroy_pong_wars_widgets s =
     s\<lparr>pw_initialized := False, pw_timer := None,
       pw_cell_objs := replicate PW_NUM_CELLS None,
       pw_ball_objs := replicate PW_NUM_BALLS None,
       pw_arena_container := None, pw_score_label1 := None, pw_score_label2 := None\<rparr>"

text \<open>The loop bodies of \<^verbatim>\<open>pw_reset_game\<close>: recolour cell \<open>(x, y)\<close>, restyle ball \<open>i\<close>.\<close>

definition pw_reset_cell :: "nat \<Rightarrow> nat \<Rightarrow> pw_state \<Rightarrow> pw_state" where
  "pw_reset_cell y x s =
     (let idx = y * PW_GRID_W + x;
          color = (if pw_grid s ! idx = 0 then pw_color_team1 s else pw_color_team2 s)
      in s\<lparr>pw_cell_objs :=
             upd_obj idx (\<lambda>obj. obj\<lparr>obj_bg_color := lv_color_hex color\<rparr>) (pw_cell_objs s)\<rparr>)"

definition pw_reset_ball :: "nat \<Rightarrow> pw_state \<Rightarrow> pw_state" where
  "pw_reset_ball i s =
     (let ball_colors = [lv_color_hex (pw_color_ball1 s), lv_color_hex (pw_color_ball2 s)]
      in case pw_ball_objs s ! i of
           None \<Rightarrow> s
         | Some _ \<Rightarrow>
             pw_update_ball_display i
               (s\<lparr>pw_ball_objs :=
                    upd_obj i (\<lambda>obj. obj\<lparr>obj_bg_color := ball_colors ! unat (ball_team (pw_balls s ! i))\<rparr>)
                      (pw_ball_objs s)\<rparr>))"

definition pw_reset_game :: "uint32_t \<Rightarrow> pw_state \<Rightarrow> pw_state" where
  "pw_reset_game uptime s =
     (if \<not> pw_initialized s then s
      else if pw_arena_container s = None then s
      else let s = s\<lparr>pw_initialized := False\<rparr>;
               s = (if pw_timer s \<noteq> None then s\<lparr>pw_timer := None\<rparr> else s);
               s = pw_init_grid s;
               s = pw_init_balls uptime s;
               s = fold (\<lambda>y. fold (pw_reset_cell y) [0..<PW_GRID_W]) [0..<PW_GRID_H] s;
               s = fold pw_reset_ball [0..<PW_NUM_BALLS] s;
               s = s\<lparr>pw_score_label1 :=
                       map_option (\<lambda>l. l\<lparr>obj_text_color := lv_color_hex (pw_color_ball1 s),
                                           obj_bg_color := lv_color_hex (pw_color_team1 s)\<rparr>)
                         (pw_score_label1 s)\<rparr>;
               s = s\<lparr>pw_score_label2 :=
                       map_option (\<lambda>l. l\<lparr>obj_text_color := lv_color_hex (pw_color_ball2 s),
                                           obj_bg_color := lv_color_hex (pw_color_team2 s)\<rparr>)
                         (pw_score_label2 s)\<rparr>;
               s = pw_update_score s
           in s\<lparr>pw_initialized := True, pw_timer := Some 33\<rparr>)"

definition pw_tap_handler :: "uint32_t \<Rightarrow> pw_state \<Rightarrow> pw_state" where
  "pw_tap_handler uptime s = pw_reset_game uptime s"

text \<open>
  The states of the simulation: whatever \<^verbatim>\<open>pw_init_grid\<close> returns, and from there every
  state after an operation of the simulation, also between the two balls of one tick.
\<close>

inductive pw_reachable :: "pw_state \<Rightarrow> bool" where
  pw_reach_init: "pw_reachable (pw_init_grid s)"
| pw_reach_balls: "pw_reachable s \<Longrightarrow> pw_reachable (pw_init_balls uptime s)"
| pw_reach_ball: "pw_reachable s \<Longrightarrow> pw_reachable (pw_step_ball i s)"
| pw_reach_step: "pw_reachable s \<Longrightarrow> pw_reachable (pw_step s)"
| pw_reach_tick: "pw_reachable s \<Longrightarrow> pw_reachable (pw_timer_cb s)"
| pw_reach_reset: "pw_reachable s \<Longrightarrow> pw_reachable (pw_reset_game uptime s)"
| pw_reach_tap: "pw_reachable s \<Longrightarrow> pw_reachable (pw_tap_handler uptime s)"
| pw_reach_score: "pw_reachable s \<Longrightarrow> pw_reachable (pw_update_score s)"
| pw_reach_destroy: "pw_reachable s \<Longrightarrow> pw_reachable (destroy_pong_wars_widgets s)"

text \<open>
  The shape every state of the C program has: the arrays have their declared sizes and
  the cells and teams are 0 or 1.
\<close>

definition pw_wf :: "pw_state \<Rightarrow> bool" where
  "pw_wf s \<longleftrightarrow>
     length (pw_grid s) = PW_NUM_CELLS \<and> length (pw_cell_objs s) = PW_NUM_CELLS \<and>
     length (pw_ball_objs s) = PW_NUM_BALLS \<and> length (pw_balls s) = PW_NUM_BALLS"

text \<open>
  The initial values of the variables, and a running simulation on them: the arena, the
  108 cells and the two balls allocated, the timer started.
\<close>

definition pw_boot :: pw_state where
  "pw_boot =
     \<lparr>pw_color_team1 = 0xFFB5E8, pw_color_team2 = 0xB5DEFF, pw_color_ball1 = 0xFF4D6D,
      pw_color_ball2 = 0x2D8CFF, pw_timer = None, pw_grid = replicate PW_NUM_CELLS 0,
      pw_cell_objs = replicate PW_NUM_CELLS None, pw_arena_container = None,
      pw_ball_objs = replicate PW_NUM_BALLS None, pw_score_label1 = None, pw_score_label2 = None,
      pw_initialized = False, pw_rand_seed = 12345, pw_base_speed = 25,
      pw_balls = replicate PW_NUM_BALLS
        \<lparr>ball_x = 0, ball_y = 0, ball_dx = 0, ball_dy = 0, ball_team = 0\<rparr>,
      pw_score1 = 0, pw_score2 = 0, pw_frame_count = 0\<rparr>"

definition pw_running :: pw_state where
  "pw_running =
     pw_boot\<lparr>pw_initialized := True, pw_timer := Some 33,
       pw_arena_container := Some (lv_obj_new 1),
       pw_cell_objs := map (\<lambda>i. Some (lv_obj_new (2 + i))) [0..<PW_NUM_CELLS],
       pw_ball_objs := map (\<lambda>i. Some (lv_obj_new (110 + i))) [0..<PW_NUM_BALLS]\<rparr>"

text \<open>
  A simulation in play: ball 0 of team 0 moves right at x = 118, one tick away from the
  column at x = 120 where the cells of team 1 begin; ball 1 moves left inside its own half.
\<close>

definition pw_contested :: pw_state where
  "pw_contested =
     pw_running\<lparr>pw_balls :=
       [\<lparr>ball_x = 118, ball_y = 90, ball_dx = 50, ball_dy = 0, ball_team = 0\<rparr>,
        \<lparr>ball_x = 180, ball_y = 90, ball_dx = - 50, ball_dy = 0, ball_team = 1\<rparr>]\<rparr>"

text \<open>The owner of cell \<open>j\<close> after the split: the left six columns team 0, the right six team 1.\<close>

definition pw_cell_value :: "nat \<Rightarrow> uint8_t" where
  "pw_cell_value j = (if j mod PW_GRID_W < PW_GRID_W div 2 then 0 else 1)"

definition pw_cells_of :: "uint8_t \<Rightarrow> pw_state \<Rightarrow> int" where
  "pw_cells_of team s = int (length (filter (\<lambda>c. c = team) (pw_grid s)))"

definition pw_inv :: "pw_state \<Rightarrow> bool" where
  "pw_inv s \<longleftrightarrow>
     pw_wf s \<and> list_all (\<lambda>c. c = 0 \<or> c = 1) (pw_grid s) \<and>
     list_all (\<lambda>b. ball_team b = 0 \<or> ball_team b = 1) (pw_balls s) \<and>
     pw_score1 s = pw_cells_of 0 s \<and> pw_score2 s = pw_cells_of 1 s"

definition pw_ball_inside :: "pw_ball \<Rightarrow> bool" where
  "pw_ball_inside b \<longleftrightarrow>
     PW_BALL_RADIUS \<le> sint (ball_x b) \<and> sint (ball_x b) \<le> PW_ARENA_W - PW_BALL_RADIUS \<and>
     PW_BALL_RADIUS \<le> sint (ball_y b) \<and> sint (ball_y b) \<le> PW_ARENA_H - PW_BALL_RADIUS"

section \<open>Screens, swipe gestures and the transition controller\<close>

datatype screen_state =
  SCREEN_MAIN | SCREEN_DISPLAY_SETTINGS | SCREEN_SYSTEM_SETTINGS | SCREEN_KEYBOARD_SELECT | SCREEN_PONG_WARS

text \<open>
  Modelled from the spec: \<^verbatim>\<open>enum swipe_direction\<close> is declared in
  \<^verbatim>\<open>events/swipe_gesture_event.h\<close>, which is not among the sources; the data model of the
  spec gives a pending gesture as one of none, up, down, left, right.
\<close>

datatype swipe_direction =
  SWIPE_DIRECTION_NONE | SWIPE_DIRECTION_UP | SWIPE_DIRECTION_DOWN | SWIPE_DIRECTION_LEFT | SWIPE_DIRECTION_RIGHT

definition CHANNEL_ALL :: uint8_t where "CHANNEL_ALL = 10"
definition CHANNEL_MAX :: uint8_t where "CHANNEL_MAX = 10"

record screen_base =
  current_screen :: screen_state

text \<open>
  The variables read and written by the gesture listener and the swipe timer. \<open>ui\<close> is
  the rest of the program state (widgets, cached telemetry, the simulation), on which the
  widget functions of \<open>'u screen_ops\<close> work; none of them assigns a variable of this record.
\<close>

record 'u nav_state = screen_base +
  transition_in_progress :: bool
  pending_swipe :: swipe_direction
  ui_interaction_active :: bool
  lvgl_indev_registered :: bool
  ks_runtime_channel :: uint8_t
  ks_channel_initialized :: bool
  ui :: 'u

text \<open>
  The widget functions called by the transition controller, as functions on the rest of
  the state. \<open>lv_obj_clean_screen\<close> takes the background colour and stands for
  \<^verbatim>\<open>lv_obj_clean\<close>, \<^verbatim>\<open>lv_obj_set_style_bg_color\<close> and \<^verbatim>\<open>lv_obj_invalidate\<close> on
  \<^verbatim>\<open>screen_obj\<close>; \<open>touch_handler_register_lvgl_indev\<close> returns the error code of the
  touch driver. \<open>ks_channel_widgets\<close> tells whether the channel badge exists,
  \<open>ks_show_channel\<close> and \<open>ks_refresh_entries\<close> are the widget updates of
  \<^verbatim>\<open>ks_update_channel_display\<close> and \<^verbatim>\<open>ks_update_entries\<close> for a given channel.
\<close>

record 'u screen_ops =
  destroy_main_screen_widgets :: "'u \<Rightarrow> 'u"
  create_main_screen_widgets :: "'u \<Rightarrow> 'u"
  destroy_display_settings_widgets :: "'u \<Rightarrow> 'u"
  create_display_settings_widgets :: "'u \<Rightarrow> 'u"
  destroy_system_settings_widgets :: "'u \<Rightarrow> 'u"
  create_system_settings_widgets :: "'u \<Rightarrow> 'u"
  destroy_keyboard_select_objs :: "'u \<Rightarrow> 'u"
  create_keyboard_select_objs :: "'u \<Rightarrow> 'u"
  destroy_pong_wars_screen :: "'u \<Rightarrow> 'u"
  create_pong_wars_screen :: "'u \<Rightarrow> 'u"
  lv_obj_clean_screen :: "uint32_t \<Rightarrow> 'u \<Rightarrow> 'u"
  touch_handler_register_lvgl_indev :: "'u \<Rightarrow> int \<times> 'u"
  ks_close_channel_popup :: "'u \<Rightarrow> 'u"
  ks_channel_widgets :: "'u \<Rightarrow> bool"
  ks_show_channel :: "uint8_t \<Rightarrow> 'u \<Rightarrow> 'u"
  ks_refresh_entries :: "uint8_t \<Rightarrow> 'u \<Rightarrow> 'u"

definition on_ui :: "('u \<Rightarrow> 'u) \<Rightarrow> ('u, 'z) nav_state_scheme \<Rightarrow> ('u, 'z) nav_state_scheme" where
  "on_ui f s = s\<lparr>ui := f (ui s)\<rparr>"

text \<open>The weak fallbacks of the runtime channel, defined in this file.\<close>

definition scanner_get_runtime_channel ::
  "('u, 'z) nav_state_scheme \<Rightarrow> uint8_t \<times> ('u, 'z) nav_state_scheme" where
  "scanner_get_runtime_channel s =
     (let s = (if \<not> ks_channel_initialized s
               then s\<lparr>ks_runtime_channel := 10, ks_channel_initialized := True\<rparr> else s)
      in (ks_runtime_channel s, s))"

definition scanner_set_runtime_channel ::
  "uint8_t \<Rightarrow> ('u, 'z) nav_state_scheme \<Rightarrow> ('u, 'z) nav_state_scheme" where
  "scanner_set_runtime_channel channel s =
     s\<lparr>ks_runtime_channel := channel, ks_channel_initialized := True\<rparr>"

definition ks_update_channel_display ::
  "'u screen_ops \<Rightarrow> ('u, 'z) nav_state_scheme \<Rightarrow> ('u, 'z) nav_state_scheme" where
  "ks_update_channel_display ops s =
     (if \<not> ks_channel_widgets ops (ui s) then s
      else let (ch, s) = scanner_get_runtime_channel s in on_ui (ks_show_channel ops ch) s)"

definition ks_update_entries ::
  "'u screen_ops \<Rightarrow> ('u, 'z) nav_state_scheme \<Rightarrow> ('u, 'z) nav_state_scheme" where
  "ks_update_entries ops s =
     (let (scanner_ch, s) = scanner_get_runtime_channel s in on_ui (ks_refresh_entries ops scanner_ch) s)"

definition ks_channel_change ::
  "'u screen_ops \<Rightarrow> uint8_t \<Rightarrow> ('u, 'z) nav_state_scheme \<Rightarrow> ('u, 'z) nav_state_scheme" where
  "ks_channel_change ops new_channel s =
     (let new_channel = (if new_channel > CHANNEL_MAX then 0 else new_channel);
          s = scanner_set_runtime_channel new_channel s;
          s = ks_update_channel_display ops s
      in ks_update_entries ops s)"

definition ks_channel_increment ::
  "'u screen_ops \<Rightarrow> ('u, 'z) nav_state_scheme \<Rightarrow> ('u, 'z) nav_state_scheme" where
  "ks_channel_increment ops s =
     (let (ch, s) = scanner_get_runtime_channel s;
          ch = (if ch < CHANNEL_MAX then ch + 1 else 0)
      in ks_channel_change ops ch s)"

definition ks_channel_decrement ::
  "'u screen_ops \<Rightarrow> ('u, 'z) nav_state_scheme \<Rightarrow> ('u, 'z) nav_state_scheme" where
  "ks_channel_decrement ops s =
     (let (ch, s) = scanner_get_runtime_channel s;
          ch = (if ch > 0 then ch - 1 else CHANNEL_MAX)
      in ks_channel_change ops ch s)"

text \<open>
  \<^verbatim>\<open>create_keyboard_select_widgets\<close>: its widget construction, and the two calls that
  read the runtime channel.
\<close>

definition create_keyboard_select_widgets ::
  "'u screen_ops \<Rightarrow> ('u, 'z) nav_state_scheme \<Rightarrow> ('u, 'z) nav_state_scheme" where
  "create_keyboard_select_widgets ops s =
     ks_update_entries ops (ks_update_channel_display ops (on_ui (create_keyboard_select_objs ops) s))"

definition destroy_keyboard_select_widgets ::
  "'u screen_ops \<Rightarrow> ('u, 'z) nav_state_scheme \<Rightarrow> ('u, 'z) nav_state_scheme" where
  "destroy_keyboard_select_widgets ops s =
     on_ui (ks_close_channel_popup ops) (on_ui (destroy_keyboard_select_objs ops) s)"

definition ensure_lvgl_indev_registered ::
  "'u screen_ops \<Rightarrow> ('u, 'z) nav_state_scheme \<Rightarrow> ('u, 'z) nav_state_scheme" where
  "ensure_lvgl_indev_registered ops s =
     (if \<not> lvgl_indev_registered s
      then let (ret, u) = touch_handler_register_lvgl_indev ops (ui s);
               s = s\<lparr>ui := u\<rparr>
           in if ret = 0 then s\<lparr>lvgl_indev_registered := True\<rparr> else s
      else s)"

definition swipe_process_timer_cb ::
  "'u screen_ops \<Rightarrow> ('u, 'z) nav_state_scheme \<Rightarrow> ('u, 'z) nav_state_scheme" where
  "swipe_process_timer_cb ops s =
     (let dir = pending_swipe s
      in if dir = SWIPE_DIRECTION_NONE then s
         else let s = s\<lparr>pending_swipe := SWIPE_DIRECTION_NONE\<rparr>
              in if ui_interaction_active s then s
                 else if transition_in_progress s then s
                 else let s = s\<lparr>transition_in_progress := True\<rparr>;
                          s = (case dir of
                                 SWIPE_DIRECTION_DOWN \<Rightarrow>
                                   if current_screen s = SCREEN_MAIN then
                                     let s = on_ui (destroy_main_screen_widgets ops) s;
                                         s = on_ui (lv_obj_clean_screen ops 0x0A0A0A) s;
                                         s = on_ui (create_display_settings_widgets ops) s;
                                         s = ensure_lvgl_indev_registered ops s
                                     in s\<lparr>current_screen := SCREEN_DISPLAY_SETTINGS\<rparr>
                                   else if current_screen s = SCREEN_KEYBOARD_SELECT then
                                     let s = destroy_keyboard_select_widgets ops s;
                                         s = on_ui (lv_obj_clean_screen ops 0) s;
                                         s = on_ui (create_main_screen_widgets ops) s
                                     in s\<lparr>current_screen := SCREEN_MAIN\<rparr>
                                   else s
                               | SWIPE_DIRECTION_UP \<Rightarrow>
                                   if current_screen s = SCREEN_DISPLAY_SETTINGS then
                                     let s = on_ui (destroy_display_settings_widgets ops) s;
                                         s = on_ui (lv_obj_clean_screen ops 0) s;
                                         s = on_ui (create_main_screen_widgets ops) s
                                     in s\<lparr>current_screen := SCREEN_MAIN\<rparr>
                                   else if current_screen s = SCREEN_MAIN then
                                     let s = on_ui (destroy_main_screen_widgets ops) s;
                                         s = on_ui (lv_obj_clean_screen ops 0x0A0A0A) s;
                                         s = create_keyboard_select_widgets ops s;
                                         s = ensure_lvgl_indev_registered ops s
                                     in s\<lparr>current_screen := SCREEN_KEYBOARD_SELECT\<rparr>
                                   else s
                               | SWIPE_DIRECTION_LEFT \<Rightarrow>
                                   if current_screen s = SCREEN_MAIN then
                                     let s = on_ui (destroy_main_screen_widgets ops) s;
                                         s = on_ui (lv_obj_clean_screen ops 0) s;
                                         s = on_ui (create_pong_wars_screen ops) s;
                                         s = ensure_lvgl_indev_registered ops s
                                     in s\<lparr>current_screen := SCREEN_PONG_WARS\<rparr>
                                   else if current_screen s = SCREEN_SYSTEM_SETTINGS then
                                     let s = on_ui (destroy_system_settings_widgets ops) s;
                                         s = on_ui (lv_obj_clean_screen ops 0) s;
                                         s = on_ui (create_main_screen_widgets ops) s
                                     in s\<lparr>current_screen := SCREEN_MAIN\<rparr>
                                   else if current_screen s = SCREEN_KEYBOARD_SELECT then
                                     ks_channel_decrement ops (on_ui (ks_close_channel_popup ops) s)
                                   else s
                               | SWIPE_DIRECTION_RIGHT \<Rightarrow>
                                   if current_screen s = SCREEN_PONG_WARS then
                                     let s = on_ui (destroy_pong_wars_screen ops) s;
                                         s = on_ui (lv_obj_clean_screen ops 0) s;
                                         s = on_ui (create_main_screen_widgets ops) s
                                     in s\<lparr>current_screen := SCREEN_MAIN\<rparr>
                                   else if current_screen s = SCREEN_MAIN then
                                     let s = on_ui (destroy_main_screen_widgets ops) s;
                                         s = on_ui (lv_obj_clean_screen ops 0x0A0A0A) s;
                                         s = on_ui (create_system_settings_widgets ops) s;
                                         s = ensure_lvgl_indev_registered ops s
                                     in s\<lparr>current_screen := SCREEN_SYSTEM_SETTINGS\<rparr>
                                   else if current_screen s = SCREEN_KEYBOARD_SELECT then
                                     ks_channel_increment ops (on_ui (ks_close_channel_popup ops) s)
                                   else s
                               | SWIPE_DIRECTION_NONE \<Rightarrow> s)
                      in s\<lparr>transition_in_progress := False\<rparr>)"

text \<open>
  \<^verbatim>\<open>swipe_gesture_listener\<close>. The argument is the direction of the swipe event, or
  \<open>None\<close> for an event of another type (\<^verbatim>\<open>as_zmk_swipe_gesture_event\<close> returns
  \<^verbatim>\<open>NULL\<close>).
\<close>

definition swipe_gesture_listener ::
  "swipe_direction option \<Rightarrow> ('u, 'z) nav_state_scheme \<Rightarrow> ('u, 'z) nav_state_scheme" where
  "swipe_gesture_listener ev s =
     (case ev of
        None \<Rightarrow> s
      | Some direction \<Rightarrow>
          if pending_swipe s \<noteq> SWIPE_DIRECTION_NONE then s else s\<lparr>pending_swipe := direction\<rparr>)"

text \<open>
  A run of the two contexts: swipe events delivered to the listener, and ticks of the
  50 ms timer that calls \<^verbatim>\<open>swipe_process_timer_cb\<close>.
\<close>

datatype nav_event = Swipe_event swipe_direction | Timer_tick

fun nav_step :: "'u screen_ops \<Rightarrow> nav_event \<Rightarrow> ('u, 'z) nav_state_scheme \<Rightarrow> ('u, 'z) nav_state_scheme" where
  "nav_step ops (Swipe_event d) s = swipe_gesture_listener (Some d) s"
| "nav_step ops Timer_tick s = swipe_process_timer_cb ops s"

definition nav_run :: "'u screen_ops \<Rightarrow> nav_event list \<Rightarrow> ('u, 'z) nav_state_scheme \<Rightarrow> ('u, 'z) nav_state_scheme" where
  "nav_run ops evs s = fold (nav_step ops) evs s"

text \<open>
  The values of the variables at boot, and a rendering collaborator without widgets: every
  widget function leaves the rest of the state alone and the touch driver registers.
\<close>

definition nav_boot :: "unit nav_state" where
  "nav_boot =
     \<lparr>current_screen = SCREEN_MAIN, transition_in_progress = False,
      pending_swipe = SWIPE_DIRECTION_NONE, ui_interaction_active = False,
      lvgl_indev_registered = False, ks_runtime_channel = 10, ks_channel_initialized = False,
      ui = ()\<rparr>"

definition null_screen_ops :: "unit screen_ops" where
  "null_screen_ops =
     \<lparr>destroy_main_screen_widgets = id, create_main_screen_widgets = id,
      destroy_display_settings_widgets = id, create_display_settings_widgets = id,
      destroy_system_settings_widgets = id, create_system_settings_widgets = id,
      destroy_keyboard_select_objs = id, create_keyboard_select_objs = id,
      destroy_pong_wars_screen = id, create_pong_wars_screen = id,
      lv_obj_clean_screen = (\<lambda>_. id), touch_handler_register_lvgl_indev = (\<lambda>u. (0, u)),
      ks_close_channel_popup = id, ks_channel_widgets = (\<lambda>_. False),
      ks_show_channel = (\<lambda>_. id), ks_refresh_entries = (\<lambda>_. id)\<rparr>"

text \<open>
  The transition table as the specification words it: the destination of a swipe, or
  \<open>None\<close> where the table has no entry for the screen and the direction.
\<close>

fun spec_transition :: "screen_state \<Rightarrow> swipe_direction \<Rightarrow> screen_state option" where
  "spec_transition SCREEN_MAIN SWIPE_DIRECTION_DOWN = Some SCREEN_DISPLAY_SETTINGS"
| "spec_transition SCREEN_DISPLAY_SETTINGS SWIPE_DIRECTION_UP = Some SCREEN_MAIN"
| "spec_transition SCREEN_MAIN SWIPE_DIRECTION_UP = Some SCREEN_KEYBOARD_SELECT"
| "spec_transition SCREEN_KEYBOARD_SELECT SWIPE_DIRECTION_DOWN = Some SCREEN_MAIN"
| "spec_transition SCREEN_MAIN SWIPE_DIRECTION_RIGHT = Some SCREEN_SYSTEM_SETTINGS"
| "spec_transition SCREEN_SYSTEM_SETTINGS SWIPE_DIRECTION_LEFT = Some SCREEN_MAIN"
| "spec_transition SCREEN_MAIN SWIPE_DIRECTION_LEFT = Some SCREEN_PONG_WARS"
| "spec_transition SCREEN_PONG_WARS SWIPE_DIRECTION_RIGHT = Some SCREEN_MAIN"
| "spec_transition _ _ = None"

text \<open>
  The channel filter as the getter reads it, and the channel after the decrement (left)
  or increment (right) of the spec's table; both walk the cycle 0, 1, ..., 9, 10 (all).
\<close>

definition nav_channel :: "('u, 'z) nav_state_scheme \<Rightarrow> uint8_t" where
  "nav_channel s = fst (scanner_get_runtime_channel s)"

definition spec_channel :: "swipe_direction \<Rightarrow> uint8_t \<Rightarrow> uint8_t" where
  "spec_channel d ch =
     (if d = SWIPE_DIRECTION_LEFT then (if 0 < ch then ch - 1 else 10)
      else if d = SWIPE_DIRECTION_RIGHT then (if ch < 10 then ch + 1 else 0)
      else ch)"

section \<open>Main screen: layer dial, keyboard batteries, signal\<close>

text \<open>
  A C \<^verbatim>\<open>float\<close>: not-a-number, the two infinities, or a finite value. The comparisons
  follow IEEE 754: every ordered comparison with NaN is false and \<^verbatim>\<open>x != x\<close> holds for
  NaN only.
\<close>

datatype c_float = F_nan | F_neg_inf | F_pos_inf | F_fin real

fun f_less :: "c_float \<Rightarrow> real \<Rightarrow> bool" where
  "f_less F_nan c = False"
| "f_less F_neg_inf c = True"
| "f_less F_pos_inf c = False"
| "f_less (F_fin r) c = (r < c)"

fun f_greater :: "c_float \<Rightarrow> real \<Rightarrow> bool" where
  "f_greater F_nan c = False"
| "f_greater F_neg_inf c = False"
| "f_greater F_pos_inf c = True"
| "f_greater (F_fin r) c = (r > c)"

fun f_is_nan :: "c_float \<Rightarrow> bool" where
  "f_is_nan F_nan = True"
| "f_is_nan _ = False"

text \<open>The cast \<^verbatim>\<open>(int)\<close> of a floating-point value drops the fraction.\<close>

definition c_trunc :: "real \<Rightarrow> int" where
  "c_trunc r = (if r \<ge> 0 then \<lfloor>r\<rfloor> else \<lceil>r\<rceil>)"

text \<open>The \<^verbatim>\<open>float\<close> literal \<^verbatim>\<open>999.9f\<close>: the single-precision value nearest to 999.9.\<close>

definition F_999_9 :: real where
  "F_999_9 = 16382362 / 16384"

definition MAX_KB_BATTERIES :: nat where "MAX_KB_BATTERIES = 4"
definition SLIDE_VISIBLE_COUNT :: nat where "SLIDE_VISIBLE_COUNT = 9"
definition SLIDE_LARGE_ZONE_START :: int where "SLIDE_LARGE_ZONE_START = 2"
definition SLIDE_LARGE_ZONE_END :: int where "SLIDE_LARGE_ZONE_END = 6"
definition SLIDE_SLOT_SPACING :: int where "SLIDE_SLOT_SPACING = 34"
definition SLIDE_LABEL_WIDTH_SMALL :: int where "SLIDE_LABEL_WIDTH_SMALL = 22"
definition SLIDE_LABEL_WIDTH_MEDIUM :: int where "SLIDE_LABEL_WIDTH_MEDIUM = 28"
definition SLIDE_LABEL_WIDTH_LARGE :: int where "SLIDE_LABEL_WIDTH_LARGE = 34"

definition battery_names_2 :: "string option list" where
  "battery_names_2 = [Some ''L'', Some ''R'', None, None]"
definition battery_names_3 :: "string option list" where
  "battery_names_3 = [Some ''L'', Some ''R'', Some ''Aux'', None]"
definition battery_names_4 :: "string option list" where
  "battery_names_4 = [Some ''L'', Some ''R'', Some ''A1'', Some ''A2'']"

text \<open>
  The cached telemetry and the widgets of the main screen that the layer, battery and
  signal updates use. \<open>lv_next_id\<close> is the address the next \<^verbatim>\<open>lv_label_create\<close>
  returns; \<open>log_battery_reposition\<close> collects the counts logged by
  \<^verbatim>\<open>reposition_battery_widgets\<close>, one entry for each call. Layer numbers and the window
  start are C \<^verbatim>\<open>int\<close>s; \<^verbatim>\<open>display_update_layer\<close> admits layers 0 to 255 only, so the
  window arithmetic stays far from the limits of \<^verbatim>\<open>int\<close> and unbounded integers model it.
\<close>

record main_state = screen_base +
  active_layer :: int
  last_active_layer :: int
  ds_layer_slide_mode :: bool
  ds_max_layers :: uint8_t
  ds_layer_slide_max :: uint8_t
  layer_slide_labels :: "lv_obj option list"
  layer_slide_window_start :: int
  battery_values :: "int list"
  active_battery_count :: int
  kb_bat_bar :: "lv_obj option list"
  kb_bat_pct :: "lv_obj option list"
  kb_bat_name :: "lv_obj option list"
  kb_bat_nc_bar :: "lv_obj option list"
  kb_bat_nc_label :: "lv_obj option list"
  rssi :: "8 word"
  rate_hz :: c_float
  rssi_bar :: "lv_obj option"
  rssi_label :: "lv_obj option"
  rate_label :: "lv_obj option"
  lv_next_id :: nat
  log_battery_reposition :: "int list"

definition lv_label_create :: "main_state \<Rightarrow> lv_obj \<times> main_state" where
  "lv_label_create s = ((lv_obj_new (lv_next_id s))\<lparr>obj_text := ''Text''\<rparr>, s\<lparr>lv_next_id := lv_next_id s + 1\<rparr>)"

definition get_keyboard_battery_color :: "int \<Rightarrow> lv_color" where
  "get_keyboard_battery_color level =
     (if level \<ge> 80 then lv_color_hex 0x00CC66
      else if level \<ge> 60 then lv_color_hex 0x66CC00
      else if level \<ge> 40 then lv_color_hex 0xFFCC00
      else if level \<ge> 20 then lv_color_hex 0xFF8800
      else lv_color_hex 0xFF3333)"

definition rssi_to_bars :: "8 word \<Rightarrow> uint8_t" where
  "rssi_to_bars rssi_val =
     (if sint rssi_val \<ge> - 50 then 5
      else if sint rssi_val \<ge> - 60 then 4
      else if sint rssi_val \<ge> - 70 then 3
      else if sint rssi_val \<ge> - 80 then 2
      else if sint rssi_val \<ge> - 90 then 1
      else 0)"

definition get_rssi_color :: "uint8_t \<Rightarrow> lv_color" where
  "get_rssi_color bars =
     (if bars = 5 then lv_color_make 0xC0 0xC0 0xC0
      else if bars = 4 then lv_color_make 0xA0 0xA0 0xA0
      else if bars = 3 then lv_color_make 0x80 0x80 0x80
      else if bars = 2 then lv_color_make 0x60 0x60 0x60
      else if bars = 1 then lv_color_make 0x40 0x40 0x40
      else lv_color_make 0x20 0x20 0x20)"

text \<open>
  The integer part of \<^verbatim>\<open>get_slide_layer_color\<close>: the hue in degrees. The conversion of
  the hue to RGB at saturation 0.4 and value 1.0 is floating point and stays symbolic.
\<close>

definition get_slide_layer_color :: "int \<Rightarrow> int \<Rightarrow> lv_color" where
  "get_slide_layer_color layer max_layer =
     (let max_layer = (if max_layer \<le> 0 then 1 else max_layer);
          hue = (layer * 360) sdiv max_layer;
          hue = hue smod 360
      in lv_color_pastel_hue hue)"

definition get_slide_slot_font :: "nat \<Rightarrow> nat" where
  "get_slide_slot_font slot =
     (if slot = 0 \<or> slot = 8 then 16 else if slot = 1 \<or> slot = 7 then 20 else 28)"

definition get_slide_slot_opa :: "nat \<Rightarrow> nat" where
  "get_slide_slot_opa slot =
     (if slot = 0 \<or> slot = 8 then LV_OPA_20 else if slot = 1 \<or> slot = 7 then LV_OPA_40 else LV_OPA_70)"

definition get_slide_slot_y_adj :: "nat \<Rightarrow> int" where
  "get_slide_slot_y_adj slot =
     (if slot = 0 \<or> slot = 8 then 6 else if slot = 1 \<or> slot = 7 then 4 else 0)"

definition get_slide_slot_x_offset :: "nat \<Rightarrow> int" where
  "get_slide_slot_x_offset slot = (if slot = 0 then 4 else if slot = 8 then - 4 else 0)"

definition get_slide_label_width :: "nat \<Rightarrow> int" where
  "get_slide_label_width slot =
     (if slot = 0 \<or> slot = 8 then SLIDE_LABEL_WIDTH_SMALL
      else if slot = 1 \<or> slot = 7 then SLIDE_LABEL_WIDTH_MEDIUM
      else SLIDE_LABEL_WIDTH_LARGE)"

definition start_pulse_anim :: "lv_obj \<Rightarrow> lv_obj" where
  "start_pulse_anim obj = obj\<lparr>obj_anims := obj_anims obj @ [Pulse_anim]\<rparr>"

text \<open>The x position of slot \<open>i\<close>, computed alike at creation and in \<^verbatim>\<open>slide_reset_positions\<close>.\<close>

definition slide_slot_x_pos :: "nat \<Rightarrow> int" where
  "slide_slot_x_pos i =
     (let total_width = (int SLIDE_VISIBLE_COUNT - 1) * SLIDE_SLOT_SPACING;
          start_x = 140 - total_width sdiv 2
      in start_x + int i * SLIDE_SLOT_SPACING - get_slide_label_width i sdiv 2 + get_slide_slot_x_offset i)"

text \<open>
  The text and the style of one slot for layer number \<open>layer_num\<close>, as both
  \<^verbatim>\<open>create_layer_slide_widgets\<close> (buffer of 12 bytes, no pulse) and
  \<^verbatim>\<open>update_layer_slide_display\<close> (buffer of 8 bytes) set them.
\<close>

definition slide_slot_text :: "nat \<Rightarrow> int \<Rightarrow> string" where
  "slide_slot_text bufsize layer_num = (if layer_num \<ge> 0 then snprintf bufsize (fmt_d layer_num) else [])"

definition slide_slot_style :: "nat \<Rightarrow> int \<Rightarrow> bool \<Rightarrow> bool \<Rightarrow> uint8_t \<Rightarrow> lv_obj \<Rightarrow> lv_obj" where
  "slide_slot_style i layer_num is_active animate slide_max obj =
     (if layer_num < 0 then obj\<lparr>obj_text_opa := LV_OPA_TRANSP\<rparr>
      else if is_active then
        let obj = obj\<lparr>obj_text_color := get_slide_layer_color layer_num (uint slide_max),
                      obj_text_opa := LV_OPA_COVER\<rparr>
        in if animate then start_pulse_anim obj else obj
      else obj\<lparr>obj_text_color := lv_color_make 80 80 80, obj_text_opa := get_slide_slot_opa i\<rparr>)"

text \<open>The loop body of \<^verbatim>\<open>create_layer_slide_widgets\<close> for slot \<open>i\<close>.\<close>

definition create_layer_slide_slot :: "int \<Rightarrow> nat \<Rightarrow> main_state \<Rightarrow> main_state" where
  "create_layer_slide_slot y_offset i s =
     (let layer_num = layer_slide_window_start s + int i;
          is_active = (layer_num = active_layer s \<and> layer_num \<ge> 0);
          label_width = get_slide_label_width i;
          (obj, s) = lv_label_create s;
          obj = obj\<lparr>obj_font := get_slide_slot_font i, obj_width := label_width\<rparr>;
          obj = slide_slot_style i layer_num is_active False (ds_layer_slide_max s) obj;
          obj = obj\<lparr>obj_text := slide_slot_text 12 layer_num\<rparr>;
          obj = obj\<lparr>obj_x := slide_slot_x_pos i, obj_y := y_offset + get_slide_slot_y_adj i\<rparr>
      in s\<lparr>layer_slide_labels := (layer_slide_labels s)[i := Some obj]\<rparr>)"

definition create_layer_slide_widgets :: "int \<Rightarrow> main_state \<Rightarrow> main_state" where
  "create_layer_slide_widgets y_offset s =
     fold (create_layer_slide_slot y_offset) [0..<SLIDE_VISIBLE_COUNT]
       (s\<lparr>layer_slide_window_start := active_layer s - SLIDE_LARGE_ZONE_START\<rparr>)"

definition slide_reset_positions :: "main_state \<Rightarrow> main_state" where
  "slide_reset_positions s =
     s\<lparr>layer_slide_labels :=
         fold (\<lambda>i. upd_obj i (\<lambda>obj. obj\<lparr>obj_x := slide_slot_x_pos i, obj_y := 105 + get_slide_slot_y_adj i\<rparr>))
           [0..<SLIDE_VISIBLE_COUNT] (layer_slide_labels s)\<rparr>"

text \<open>
  The first loop body of \<^verbatim>\<open>update_layer_slide_display\<close>: text and style of slot \<open>i\<close>,
  for the window start and the dial maximum that the loop reads.
\<close>

definition update_layer_slide_slot ::
  "int \<Rightarrow> bool \<Rightarrow> int \<Rightarrow> uint8_t \<Rightarrow> nat \<Rightarrow> lv_obj option list \<Rightarrow> lv_obj option list" where
  "update_layer_slide_slot layer animate window_start slide_max i labels =
     (let layer_num = window_start + int i;
          is_active = (layer_num = layer \<and> layer_num \<ge> 0)
      in upd_obj i (\<lambda>obj. slide_slot_style i layer_num is_active animate slide_max
                            (obj\<lparr>obj_text := slide_slot_text 8 layer_num\<rparr>)) labels)"

text \<open>The second loop body: restart the scroll animation of slot \<open>i\<close>.\<close>

definition slide_scroll_slot :: "int \<Rightarrow> nat \<Rightarrow> lv_obj option list \<Rightarrow> lv_obj option list" where
  "slide_scroll_slot scroll_offset i labels =
     upd_obj i (\<lambda>obj. obj\<lparr>obj_anims := filter (\<lambda>a. a = Pulse_anim) (obj_anims obj) @ [Scroll_anim scroll_offset]\<rparr>)
       labels"

definition update_layer_slide_display :: "int \<Rightarrow> bool \<Rightarrow> main_state \<Rightarrow> main_state" where
  "update_layer_slide_display layer animate s =
     (let s = (if layer \<ge> uint (ds_layer_slide_max s)
               then s\<lparr>ds_layer_slide_max := word_of_int (layer + 1)\<rparr> else s);
          current_slot = layer - layer_slide_window_start s;
          (need_scroll, new_window_start) =
             (if current_slot < SLIDE_LARGE_ZONE_START then (True, layer - SLIDE_LARGE_ZONE_START)
              else if current_slot > SLIDE_LARGE_ZONE_END then (True, layer - SLIDE_LARGE_ZONE_END)
              else (False, layer_slide_window_start s));
          scroll_slots = (if need_scroll then new_window_start - layer_slide_window_start s else 0);
          s = (if need_scroll then s\<lparr>layer_slide_window_start := new_window_start\<rparr> else s);
          s = s\<lparr>layer_slide_labels :=
                  fold (update_layer_slide_slot layer animate (layer_slide_window_start s) (ds_layer_slide_max s))
                    [0..<SLIDE_VISIBLE_COUNT] (layer_slide_labels s)\<rparr>;
          s = slide_reset_positions s
      in if need_scroll \<and> animate \<and> scroll_slots \<noteq> 0
         then s\<lparr>layer_slide_labels :=
                  fold (slide_scroll_slot (scroll_slots * SLIDE_SLOT_SPACING))
                    [0..<SLIDE_VISIBLE_COUNT] (layer_slide_labels s)\<rparr>
         else s)"

text \<open>A fixed-list renderer for a screen without fixed-list widgets: nothing to draw.\<close>

definition fixed_mode_none :: "int \<Rightarrow> int \<Rightarrow> main_state \<Rightarrow> main_state" where
  "fixed_mode_none prev_layer layer s = s"

text \<open>
  The window start after an update for layer \<open>layer\<close> from the window start \<open>ws\<close>:
  the two assignments to \<^verbatim>\<open>new_window_start\<close> in \<^verbatim>\<open>update_layer_slide_display\<close>.
\<close>

definition slide_window :: "int \<Rightarrow> int \<Rightarrow> int" where
  "slide_window layer ws =
     (if layer - ws < SLIDE_LARGE_ZONE_START then layer - SLIDE_LARGE_ZONE_START
      else if layer - ws > SLIDE_LARGE_ZONE_END then layer - SLIDE_LARGE_ZONE_END
      else ws)"

text \<open>
  \<^verbatim>\<open>display_update_layer\<close>. The fixed-list rendering of its second half (list and
  over-max widgets with their slide animations) is the parameter \<open>fixed_mode\<close>, applied to
  the previous and the new layer.
\<close>

definition display_update_layer ::
  "(int \<Rightarrow> int \<Rightarrow> main_state \<Rightarrow> main_state) \<Rightarrow> int \<Rightarrow> main_state \<Rightarrow> main_state" where
  "display_update_layer fixed_mode layer s =
     (if layer < 0 \<or> layer > 255 then s
      else let prev_layer = active_layer s;
               s = s\<lparr>active_layer := layer\<rparr>
           in if current_screen s \<noteq> SCREEN_MAIN then s
              else if ds_layer_slide_mode s then
                let animate = (prev_layer \<noteq> layer);
                    s = update_layer_slide_display layer animate s
                in s\<lparr>last_active_layer := layer\<rparr>
              else (fixed_mode prev_layer layer s)\<lparr>last_active_layer := layer\<rparr>)"

text \<open>
  The layout tables of \<^verbatim>\<open>reposition_battery_widgets\<close> for a count already clamped to
  1..4: x offsets, bar width and name labels.
\<close>

definition kb_x_offsets :: "int \<Rightarrow> int list" where
  "kb_x_offsets count =
     (if count = 1 then [0, 0, 0, 0]
      else if count = 2 then [- 70, 70, 0, 0]
      else if count = 3 then [- 90, 0, 90, 0]
      else [- 100, - 35, 35, 100])"

definition kb_bar_width :: "int \<Rightarrow> int" where
  "kb_bar_width count =
     (if count = 1 then 165 else if count = 2 then 110 else if count = 3 then 70 else 52)"

definition kb_names :: "int \<Rightarrow> string option list option" where
  "kb_names count =
     (if count = 2 then Some battery_names_2
      else if count = 3 then Some battery_names_3
      else if count = 4 then Some battery_names_4
      else None)"

definition KB_BAR_Y_OFFSET_R :: int where "KB_BAR_Y_OFFSET_R = - 33"
definition KB_PCT_Y_OFFSET_R :: int where "KB_PCT_Y_OFFSET_R = - 42"
definition KB_NAME_X_OFFSET_R :: int where "KB_NAME_X_OFFSET_R = 0"

definition lv_obj_align :: "lv_align \<Rightarrow> int \<Rightarrow> int \<Rightarrow> lv_obj \<Rightarrow> lv_obj" where
  "lv_obj_align a x_ofs y_ofs obj = obj\<lparr>obj_align := a, obj_x := x_ofs, obj_y := y_ofs\<rparr>"

text \<open>The loop body of \<^verbatim>\<open>reposition_battery_widgets\<close> for slot \<open>i\<close>.\<close>

definition reposition_battery_slot :: "int \<Rightarrow> nat \<Rightarrow> main_state \<Rightarrow> main_state" where
  "reposition_battery_slot count i s =
     (let x_offsets = kb_x_offsets count;
          bar_width = kb_bar_width count;
          names = kb_names count;
          visible = (int i < count);
          x_off = x_offsets ! i;
          s = s\<lparr>kb_bat_bar :=
                  upd_obj i (\<lambda>obj. lv_obj_align LV_ALIGN_BOTTOM_MID x_off KB_BAR_Y_OFFSET_R
                                      (obj\<lparr>obj_width := bar_width\<rparr>)) (kb_bat_bar s)\<rparr>;
          s = s\<lparr>kb_bat_pct :=
                  upd_obj i (lv_obj_align LV_ALIGN_BOTTOM_MID x_off KB_PCT_Y_OFFSET_R) (kb_bat_pct s)\<rparr>;
          s = s\<lparr>kb_bat_name :=
                  upd_obj i (\<lambda>obj.
                      (lv_obj_align LV_ALIGN_BOTTOM_MID
                         (x_off - bar_width sdiv 2 + KB_NAME_X_OFFSET_R) KB_PCT_Y_OFFSET_R obj)
                      \<lparr>obj_text := (case names of
                                      None \<Rightarrow> []
                                    | Some ns \<Rightarrow>
                                        (case ns ! i of
                                           None \<Rightarrow> []
                                         | Some name \<Rightarrow> if visible then name else []))\<rparr>)
                    (kb_bat_name s)\<rparr>;
          s = s\<lparr>kb_bat_nc_bar :=
                  upd_obj i (\<lambda>obj.
                      let obj = lv_obj_align LV_ALIGN_BOTTOM_MID x_off KB_BAR_Y_OFFSET_R
                                  (obj\<lparr>obj_width := bar_width\<rparr>)
                      in if \<not> visible then obj\<lparr>obj_opa := 0\<rparr> else obj) (kb_bat_nc_bar s)\<rparr>
      in s\<lparr>kb_bat_nc_label :=
             upd_obj i (\<lambda>obj.
                 let obj = lv_obj_align LV_ALIGN_BOTTOM_MID x_off KB_PCT_Y_OFFSET_R obj
                 in if \<not> visible then obj\<lparr>obj_opa := 0\<rparr> else obj) (kb_bat_nc_label s)\<rparr>)"

definition reposition_battery_widgets :: "int \<Rightarrow> main_state \<Rightarrow> main_state" where
  "reposition_battery_widgets count s =
     (let count = (if count < 1 then 1 else count);
          count = (if count > int MAX_KB_BATTERIES then int MAX_KB_BATTERIES else count);
          s = fold (reposition_battery_slot count) [0..<MAX_KB_BATTERIES] s
      in s\<lparr>log_battery_reposition := log_battery_reposition s @ [count]\<rparr>)"

text \<open>The second loop body of \<^verbatim>\<open>display_update_keyboard_battery_4\<close> for slot \<open>i\<close>.\<close>

definition update_battery_slot :: "int list \<Rightarrow> int \<Rightarrow> nat \<Rightarrow> main_state \<Rightarrow> main_state" where
  "update_battery_slot vals count i s =
     (let slot_visible = (count > 0 \<and> int i < count);
          val = vals ! i
      in if slot_visible \<and> val > 0 then
           s\<lparr>kb_bat_nc_bar := upd_obj i (\<lambda>obj. obj\<lparr>obj_opa := 0\<rparr>) (kb_bat_nc_bar s),
             kb_bat_nc_label := upd_obj i (\<lambda>obj. obj\<lparr>obj_opa := 0\<rparr>) (kb_bat_nc_label s),
             kb_bat_bar :=
               upd_obj i (\<lambda>obj. obj\<lparr>obj_opa := 255, obj_ind_opa := 255, obj_bar_value := val,
                                    obj_ind_color := get_keyboard_battery_color val\<rparr>) (kb_bat_bar s),
             kb_bat_pct :=
               upd_obj i (\<lambda>obj. obj\<lparr>obj_opa := 255, obj_text := snprintf 16 (fmt_d val),
                                    obj_text_color := get_keyboard_battery_color val\<rparr>) (kb_bat_pct s),
             kb_bat_name := upd_obj i (\<lambda>obj. obj\<lparr>obj_opa := 255\<rparr>) (kb_bat_name s)\<rparr>
         else if slot_visible then
           s\<lparr>kb_bat_bar := upd_obj i (\<lambda>obj. obj\<lparr>obj_opa := 0, obj_ind_opa := 0\<rparr>) (kb_bat_bar s),
             kb_bat_pct := upd_obj i (\<lambda>obj. obj\<lparr>obj_opa := 0\<rparr>) (kb_bat_pct s),
             kb_bat_name := upd_obj i (\<lambda>obj. obj\<lparr>obj_opa := 255\<rparr>) (kb_bat_name s),
             kb_bat_nc_bar := upd_obj i (\<lambda>obj. obj\<lparr>obj_opa := 255\<rparr>) (kb_bat_nc_bar s),
             kb_bat_nc_label := upd_obj i (\<lambda>obj. obj\<lparr>obj_opa := 255\<rparr>) (kb_bat_nc_label s)\<rparr>
         else
           s\<lparr>kb_bat_bar := upd_obj i (\<lambda>obj. obj\<lparr>obj_opa := 0, obj_ind_opa := 0\<rparr>) (kb_bat_bar s),
             kb_bat_pct := upd_obj i (\<lambda>obj. obj\<lparr>obj_opa := 0\<rparr>) (kb_bat_pct s),
             kb_bat_name := upd_obj i (\<lambda>obj. obj\<lparr>obj_opa := 0\<rparr>) (kb_bat_name s),
             kb_bat_nc_bar := upd_obj i (\<lambda>obj. obj\<lparr>obj_opa := 0\<rparr>) (kb_bat_nc_bar s),
             kb_bat_nc_label := upd_obj i (\<lambda>obj. obj\<lparr>obj_opa := 0\<rparr>) (kb_bat_nc_label s)\<rparr>)"

text \<open>The count of the first loop: the number of values above 0.\<close>

definition count_active_batteries :: "int list \<Rightarrow> int" where
  "count_active_batteries vals = fold (\<lambda>v count. if v > 0 then count + 1 else count) vals 0"

definition display_update_keyboard_battery_4 ::
  "int \<Rightarrow> int \<Rightarrow> int \<Rightarrow> int \<Rightarrow> main_state \<Rightarrow> main_state" where
  "display_update_keyboard_battery_4 bat0 bat1 bat2 bat3 s =
     (let vals = [bat0, bat1, bat2, bat3];
          s = s\<lparr>battery_values := vals\<rparr>;
          count = count_active_batteries vals;
          s = (if count \<noteq> active_battery_count s
               then let s = s\<lparr>active_battery_count := count\<rparr>
                    in if count > 0 then reposition_battery_widgets count s else s
               else s)
      in fold (update_battery_slot vals count) [0..<MAX_KB_BATTERIES] s)"

text \<open>
  The battery layout as the specification tabulates it, one row for each of the counts
  1, 2, 3, 4: bar widths, x offsets of the four slots, and name labels.
\<close>

definition spec_battery_widths :: "int list" where
  "spec_battery_widths = [165, 110, 70, 52]"

definition spec_battery_x_offsets :: "int list list" where
  "spec_battery_x_offsets = [[0, 0, 0, 0], [- 70, 70, 0, 0], [- 90, 0, 90, 0], [- 100, - 35, 35, 100]]"

definition spec_battery_names :: "string list list" where
  "spec_battery_names = [[], [''L'', ''R''], [''L'', ''R'', ''Aux''], [''L'', ''R'', ''A1'', ''A2'']]"

text \<open>
  The rate text of the signal block of \<^verbatim>\<open>pending_update_timer_cb\<close>, from the payload
  \<^verbatim>\<open>scanner_signal_rate_x100\<close> (an \<^verbatim>\<open>int32_t\<close>, the rate times 100).
\<close>

definition rate_x100_text :: "int \<Rightarrow> string" where
  "rate_x100_text sig_rate_x100 =
     (if sig_rate_x100 < 0 then snprintf 16 ''-.--Hz''
      else let whole = sig_rate_x100 sdiv 100;
               frac = (sig_rate_x100 smod 100) sdiv 10
           in snprintf 16 (fmt_d whole @ ''.'' @ fmt_d frac @ ''Hz''))"

text \<open>
  The block of \<^verbatim>\<open>pending_update_timer_cb\<close> that runs when a signal update is pending.
  \<open>fl\<close> rounds a real number to the nearest \<^verbatim>\<open>float\<close>.
\<close>

definition pending_signal_update :: "(real \<Rightarrow> real) \<Rightarrow> 8 word \<Rightarrow> 32 word \<Rightarrow> main_state \<Rightarrow> main_state" where
  "pending_signal_update fl sig_rssi sig_rate_x100 s =
     (let s = s\<lparr>rssi := sig_rssi, rate_hz := F_fin (fl (fl (of_int (sint sig_rate_x100)) / 100))\<rparr>;
          bars = rssi_to_bars sig_rssi
      in s\<lparr>rssi_bar := map_option (\<lambda>obj. obj\<lparr>obj_bar_value := uint bars, obj_ind_color := get_rssi_color bars\<rparr>)
                          (rssi_bar s),
           rssi_label := map_option (\<lambda>obj. obj\<lparr>obj_text := snprintf 16 (fmt_d (sint sig_rssi) @ ''dBm'')\<rparr>)
                            (rssi_label s),
           rate_label := map_option (\<lambda>obj. obj\<lparr>obj_text := rate_x100_text (sint sig_rate_x100)\<rparr>)
                            (rate_label s)\<rparr>)"

text \<open>
  The rate text of \<^verbatim>\<open>display_update_signal\<close>. In the last branch the product and the sum
  are rounded to \<^verbatim>\<open>float\<close> by \<open>fl\<close> and the cast to \<^verbatim>\<open>int\<close> truncates.
\<close>

definition rate_float_text :: "(real \<Rightarrow> real) \<Rightarrow> c_float \<Rightarrow> string" where
  "rate_float_text fl rate =
     (if f_less rate 0 then snprintf 16 ''-.--Hz''
      else if f_greater rate F_999_9 \<or> f_is_nan rate then snprintf 16 ''-.--Hz''
      else let rate_int = (case rate of F_fin r \<Rightarrow> c_trunc (fl (fl (r * 10) + 1 / 2)) | _ \<Rightarrow> 0);
               rate_int = (if rate_int > 9999 then 9999 else rate_int)
           in snprintf 16 (fmt_d (rate_int sdiv 10) @ ''.'' @ fmt_d (rate_int smod 10) @ ''Hz''))"

definition display_update_signal :: "(real \<Rightarrow> real) \<Rightarrow> 8 word \<Rightarrow> c_float \<Rightarrow> main_state \<Rightarrow> main_state" where
  "display_update_signal fl rssi_val rate s =
     (let s = s\<lparr>rssi := rssi_val, rate_hz := rate\<rparr>;
          bars = rssi_to_bars rssi_val
      in s\<lparr>rssi_bar := map_option (\<lambda>obj. obj\<lparr>obj_bar_value := uint bars, obj_ind_color := get_rssi_color bars\<rparr>)
                          (rssi_bar s),
           rssi_label := map_option (\<lambda>obj. obj\<lparr>obj_text := snprintf 16 (fmt_d (sint rssi_val) @ ''dBm'')\<rparr>)
                            (rssi_label s),
           rate_label := map_option (\<lambda>obj. obj\<lparr>obj_text := rate_float_text fl rate\<rparr>) (rate_label s)\<rparr>)"

text \<open>
  The initial values of the main-screen variables, before any widget exists, and the main
  screen in dial mode with its nine slot labels, five battery widget sets and signal
  widgets allocated.
\<close>

definition main_boot :: main_state where
  "main_boot =
     \<lparr>current_screen = SCREEN_MAIN, active_layer = 0, last_active_layer = - 1,
      ds_layer_slide_mode = False, ds_max_layers = 7, ds_layer_slide_max = 7,
      layer_slide_labels = replicate SLIDE_VISIBLE_COUNT None, layer_slide_window_start = 0,
      battery_values = [0, 0, 0, 0], active_battery_count = 0,
      kb_bat_bar = replicate MAX_KB_BATTERIES None, kb_bat_pct = replicate MAX_KB_BATTERIES None,
      kb_bat_name = replicate MAX_KB_BATTERIES None, kb_bat_nc_bar = replicate MAX_KB_BATTERIES None,
      kb_bat_nc_label = replicate MAX_KB_BATTERIES None, rssi = - 100, rate_hz = F_fin (- 1),
      rssi_bar = None, rssi_label = None, rate_label = None, lv_next_id = 0,
      log_battery_reposition = []\<rparr>"

definition main_dial :: main_state where
  "main_dial =
     main_boot\<lparr>ds_layer_slide_mode := True, layer_slide_window_start := - 2,
       layer_slide_labels := map (\<lambda>i. Some (lv_obj_new i)) [0..<SLIDE_VISIBLE_COUNT],
       kb_bat_bar := map (\<lambda>i. Some (lv_obj_new (10 + i))) [0..<MAX_KB_BATTERIES],
       kb_bat_pct := map (\<lambda>i. Some (lv_obj_new (20 + i))) [0..<MAX_KB_BATTERIES],
       kb_bat_name := map (\<lambda>i. Some (lv_obj_new (30 + i))) [0..<MAX_KB_BATTERIES],
       kb_bat_nc_bar := map (\<lambda>i. Some (lv_obj_new (40 + i))) [0..<MAX_KB_BATTERIES],
       kb_bat_nc_label := map (\<lambda>i. Some (lv_obj_new (50 + i))) [0..<MAX_KB_BATTERIES],
       rssi_bar := Some (lv_obj_new 60), rssi_label := Some (lv_obj_new 61),
       rate_label := Some (lv_obj_new 62), lv_next_id := 63, active_battery_count := 2,
       battery_values := [80, 75, 0, 0]\<rparr>"

section \<open>Display settings: backlight brightness\<close>

text \<open>
  The events that the handlers of the display settings screen tell apart;
  \<open>LV_EVENT_CLICKED\<close> stands for every other event code.
\<close>

datatype lv_event_code_t =
  LV_EVENT_PRESSED | LV_EVENT_PRESSING | LV_EVENT_RELEASED | LV_EVENT_VALUE_CHANGED | LV_EVENT_CLICKED

text \<open>
  The two sliders on which \<^verbatim>\<open>ds_custom_slider_drag_cb\<close> is registered; the pointer
  \<^verbatim>\<open>slider_drag_state.active_slider\<close> is one of them or \<^verbatim>\<open>NULL\<close>.
\<close>

datatype ds_slider = Brightness_slider | Layer_slider

text \<open>
  What the handlers read and write of an LVGL slider: value, range, width in pixels, the
  disabled state and the opacity. \<^verbatim>\<open>lv_slider_set_value\<close> keeps the value inside the
  range of the slider.
\<close>

record lv_slider =
  sl_value :: int
  sl_min_value :: int
  sl_max_value :: int
  sl_width :: int
  sl_disabled :: bool
  sl_opa :: nat

definition lv_slider_set_value :: "int \<Rightarrow> lv_slider \<Rightarrow> lv_slider" where
  "lv_slider_set_value v sl = sl\<lparr>sl_value := max (sl_min_value sl) (min v (sl_max_value sl))\<rparr>"

definition LV_OPA_50 :: nat where "LV_OPA_50 = 127"
definition SLIDER_SWIPE_THRESHOLD :: int where "SLIDER_SWIPE_THRESHOLD = 30"
definition AUTO_BRIGHTNESS_INTERVAL_MS :: nat where "AUTO_BRIGHTNESS_INTERVAL_MS = 1000"

text \<open>
  The struct \<^verbatim>\<open>slider_drag_state\<close>. Its \<^verbatim>\<open>int32_t\<close> members hold touch coordinates and
  slider values, a few hundred at most, and are modelled as integers.
\<close>

record slider_drag =
  active_slider :: "ds_slider option"
  start_x :: int
  start_y :: int
  start_value :: int
  current_value :: int
  min_val :: int
  max_val :: int
  slider_width :: int
  drag_cancelled :: bool

text \<open>
  The variables of the backlight and of the brightness controls. \<open>backlight_ready\<close>
  tells whether \<^verbatim>\<open>backlight_dev\<close> is there and ready. The two traces record the calls
  across the two interfaces: \<open>brightness_requests\<close> the percentage given to
  \<^verbatim>\<open>set_pwm_brightness\<close> at every call, \<open>led_writes\<close> the value given to
  \<^verbatim>\<open>led_set_brightness\<close> on channel 0 at every call. \<open>ds_ui_interaction_active\<close> is the
  variable \<^verbatim>\<open>ui_interaction_active\<close>, and \<open>auto_brightness_timer\<close> holds the period of
  the running timer.
\<close>

record ds_state =
  backlight_ready :: bool
  brightness_requests :: "uint8_t list"
  led_writes :: "uint8_t list"
  ds_brightness_slider :: "lv_slider option"
  ds_brightness_value :: "lv_obj option"
  ds_auto_brightness_enabled :: bool
  ds_manual_brightness :: uint8_t
  auto_brightness_timer :: "nat option"
  slider_drag_state :: slider_drag
  ds_ui_interaction_active :: bool

text \<open>
  \<^verbatim>\<open>set_pwm_brightness\<close>, the set-brightness-percent function of the backlight: it takes
  the percentage the user sees and turns it into the duty of the inverted backlight
  circuit for the LED driver. With the device absent or not ready the LED driver is not
  called.
\<close>

definition set_pwm_brightness :: "uint8_t \<Rightarrow> ds_state \<Rightarrow> ds_state" where
  "set_pwm_brightness brightness s =
     (let s = s\<lparr>brightness_requests := brightness_requests s @ [brightness]\<rparr>
      in if \<not> backlight_ready s then s
         else let brightness = (if brightness < 1 then 1 else brightness);
                  pwm_value = 100 - brightness
              in s\<lparr>led_writes := led_writes s @ [pwm_value]\<rparr>)"

text \<open>
  The two brightness statements of \<^verbatim>\<open>pending_update_timer_cb\<close>: the timeout brightness
  when all keyboards have timed out, and the fixed brightness when a keyboard (another
  device name) shows up. The argument is the value of
  \<^verbatim>\<open>CONFIG_PROSPECTOR_SCANNER_TIMEOUT_BRIGHTNESS\<close>, of \<^verbatim>\<open>CONFIG_PROSPECTOR_FIXED_BRIGHTNESS\<close>,
  or \<open>None\<close> when the option is not defined.
\<close>

definition pending_update_timeout_brightness :: "int option \<Rightarrow> ds_state \<Rightarrow> ds_state" where
  "pending_update_timeout_brightness cfg s =
     (case cfg of
        None \<Rightarrow> s
      | Some c \<Rightarrow> if c > 0 then set_pwm_brightness (word_of_int c) s else s)"

definition pending_update_fixed_brightness :: "int option \<Rightarrow> ds_state \<Rightarrow> ds_state" where
  "pending_update_fixed_brightness cfg s =
     (case cfg of
        None \<Rightarrow> s
      | Some c \<Rightarrow> set_pwm_brightness (word_of_int c) s)"

text \<open>
  \<^verbatim>\<open>ds_brightness_slider_event_cb\<close>. The target of the event is the brightness slider,
  the one object the handler is registered on; without the slider there is no event.
\<close>

definition ds_brightness_slider_event_cb :: "lv_event_code_t \<Rightarrow> ds_state \<Rightarrow> ds_state" where
  "ds_brightness_slider_event_cb code s =
     (if code \<noteq> LV_EVENT_VALUE_CHANGED then s
      else case ds_brightness_slider s of
             None \<Rightarrow> s
           | Some slider \<Rightarrow>
               if active_slider (slider_drag_state s) = Some Brightness_slider then s
               else let val = sl_value slider;
                        s = s\<lparr>ds_manual_brightness := word_of_int val\<rparr>;
                        s = s\<lparr>ds_brightness_value :=
                                map_option (\<lambda>l. l\<lparr>obj_text := snprintf 8 (fmt_d val @ ''%'')\<rparr>)
                                  (ds_brightness_value s)\<rparr>
                    in if \<not> ds_auto_brightness_enabled s then set_pwm_brightness (word_of_int val) s
                       else s)"

text \<open>
  \<^verbatim>\<open>ds_custom_slider_drag_cb\<close> for an event on the brightness slider. \<open>indev\<close> is the
  point of the active input device, \<open>None\<close> without one. The slider being the brightness
  slider, the test \<^verbatim>\<open>slider == ds_brightness_slider\<close> holds and the branch of the layer
  slider is not taken; the \<^verbatim>\<open>LV_EVENT_VALUE_CHANGED\<close> sent on release runs
  \<^verbatim>\<open>ds_brightness_slider_event_cb\<close>. The quotient by the slider width is C division,
  which is undefined for the width 0.
\<close>

definition ds_custom_slider_drag_cb ::
  "lv_event_code_t \<Rightarrow> (int \<times> int) option \<Rightarrow> ds_state \<Rightarrow> ds_state" where
  "ds_custom_slider_drag_cb code indev s =
     (case indev of
        None \<Rightarrow> s
      | Some (px, py) \<Rightarrow>
          (case ds_brightness_slider s of
             None \<Rightarrow> s
           | Some slider \<Rightarrow>
               let d = slider_drag_state s
               in if code = LV_EVENT_PRESSED then
                    s\<lparr>slider_drag_state :=
                        d\<lparr>active_slider := Some Brightness_slider, start_x := px, start_y := py,
                          start_value := sl_value slider, current_value := sl_value slider,
                          min_val := sl_min_value slider, max_val := sl_max_value slider,
                          slider_width := sl_width slider, drag_cancelled := False\<rparr>,
                      ds_ui_interaction_active := True\<rparr>
                  else if code = LV_EVENT_PRESSING then
                    (if active_slider d \<noteq> Some Brightness_slider then s
                     else if drag_cancelled d then s
                     else let delta_x = px - start_x d;
                              delta_y = py - start_y d;
                              abs_delta_x = (if delta_x < 0 then - delta_x else delta_x);
                              abs_delta_y = (if delta_y < 0 then - delta_y else delta_y)
                          in if abs_delta_y > SLIDER_SWIPE_THRESHOLD \<and> abs_delta_y > abs_delta_x * 2 then
                               s\<lparr>ds_brightness_slider := Some (lv_slider_set_value (start_value d) slider),
                                 slider_drag_state := d\<lparr>current_value := start_value d, drag_cancelled := True\<rparr>,
                                 ds_ui_interaction_active := False\<rparr>
                             else let drag_delta = delta_x;
                                      value_range = max_val d - min_val d;
                                      value_delta = (drag_delta * value_range) sdiv slider_width d;
                                      new_value = start_value d + value_delta;
                                      new_value = (if new_value < min_val d then min_val d else new_value);
                                      new_value = (if new_value > max_val d then max_val d else new_value);
                                      s = s\<lparr>slider_drag_state := d\<lparr>current_value := new_value\<rparr>,
                                            ds_brightness_slider := Some (lv_slider_set_value new_value slider)\<rparr>
                                  in case ds_brightness_value s of
                                       None \<Rightarrow> s
                                     | Some l \<Rightarrow>
                                         set_pwm_brightness (word_of_int new_value)
                                           (s\<lparr>ds_brightness_value := Some (l\<lparr>obj_text := fmt_d new_value @ ''%''\<rparr>)\<rparr>))
                  else if code = LV_EVENT_RELEASED then
                    (if active_slider d = Some Brightness_slider then
                       let s = s\<lparr>ds_brightness_slider := Some (lv_slider_set_value (current_value d) slider)\<rparr>;
                           was_cancelled = drag_cancelled d;
                           s = s\<lparr>slider_drag_state := d\<lparr>active_slider := None, drag_cancelled := False\<rparr>,
                                 ds_ui_interaction_active := False\<rparr>
                       in if \<not> was_cancelled then ds_brightness_slider_event_cb LV_EVENT_VALUE_CHANGED s else s
                     else s\<lparr>slider_drag_state := d\<lparr>active_slider := None, drag_cancelled := False\<rparr>,
                            ds_ui_interaction_active := False\<rparr>)
                  else s))"

text \<open>
  The ambient light sensor module behind \<^verbatim>\<open>brightness_control.h\<close>, as the handlers use
  it: whether a sensor is there, the return code and the light value of a read, and the
  map from a light value to a brightness percentage.
\<close>

record brightness_control =
  brightness_control_sensor_available :: bool
  brightness_control_read_sensor :: "int \<times> 16 word"
  brightness_control_map_light_to_brightness :: "16 word \<Rightarrow> uint8_t"

definition auto_brightness_timer_cb :: "brightness_control \<Rightarrow> ds_state \<Rightarrow> ds_state" where
  "auto_brightness_timer_cb bc s =
     (if \<not> ds_auto_brightness_enabled s \<or> \<not> brightness_control_sensor_available bc then s
      else let (ret, light_val) = brightness_control_read_sensor bc
           in if ret \<noteq> 0 then s
              else let target_brightness = brightness_control_map_light_to_brightness bc light_val
                   in set_pwm_brightness target_brightness s)"

text \<open>
  \<^verbatim>\<open>ds_auto_switch_event_cb\<close>; \<open>checked\<close> is the state of the switch.
  \<^verbatim>\<open>brightness_control_set_auto\<close> acts inside the sensor module only.
\<close>

definition ds_auto_switch_event_cb ::
  "brightness_control \<Rightarrow> lv_event_code_t \<Rightarrow> bool \<Rightarrow> ds_state \<Rightarrow> ds_state" where
  "ds_auto_switch_event_cb bc code checked s =
     (if code \<noteq> LV_EVENT_VALUE_CHANGED then s
      else let s = s\<lparr>ds_auto_brightness_enabled := checked\<rparr>;
               s = (if checked \<and> brightness_control_sensor_available bc then
                      let s = (if auto_brightness_timer s = None
                               then s\<lparr>auto_brightness_timer := Some AUTO_BRIGHTNESS_INTERVAL_MS\<rparr> else s)
                      in auto_brightness_timer_cb bc s
                    else if auto_brightness_timer s \<noteq> None then s\<lparr>auto_brightness_timer := None\<rparr>
                    else s)
           in case ds_brightness_slider s of
                None \<Rightarrow> s
              | Some slider \<Rightarrow>
                  if checked then
                    s\<lparr>ds_brightness_slider := Some (slider\<lparr>sl_disabled := True, sl_opa := LV_OPA_50\<rparr>)\<rparr>
                  else
                    set_pwm_brightness (ds_manual_brightness s)
                      (s\<lparr>ds_brightness_slider := Some (slider\<lparr>sl_disabled := False, sl_opa := LV_OPA_COVER\<rparr>)\<rparr>))"

text \<open>
  The contract of the backlight for one brightness command that takes \<open>s\<close> to \<open>s'\<close>,
  for the percentage \<open>p\<close> as the user sees it: the set-brightness-percent function is
  called once, with the number \<open>p\<close> itself, and behind it the LED driver of a ready device
  is called once, with the inverted duty, 100 minus the percentage, where a percentage of
  0 counts as 1.
\<close>

definition issues_brightness :: "int \<Rightarrow> ds_state \<Rightarrow> ds_state \<Rightarrow> bool" where
  "issues_brightness p s s' \<longleftrightarrow>
     map uint (brightness_requests s') = map uint (brightness_requests s) @ [p] \<and>
     map uint (led_writes s') =
       (if backlight_ready s then map uint (led_writes s) @ [100 - max 1 p] else map uint (led_writes s))"

text \<open>
  The value of the brightness slider while it is dragged to the x coordinate \<open>px\<close>: the
  start value plus the share of the range that the drag covers of the width, kept inside
  the range.
\<close>

definition drag_value :: "slider_drag \<Rightarrow> int \<Rightarrow> int" where
  "drag_value d px =
     min (max_val d)
       (max (min_val d) (start_value d + ((px - start_x d) * (max_val d - min_val d)) sdiv slider_width d))"

text \<open>
  The display settings screen as it is first shown: the backlight ready, the slider at
  the manual brightness 65 in its range 1..100 on a track 180 pixels wide, the value label
  beside it, no drag going on.
\<close>

definition ds_shown :: ds_state where
  "ds_shown =
     \<lparr>backlight_ready = True, brightness_requests = [], led_writes = [],
      ds_brightness_slider =
        Some \<lparr>sl_value = 65, sl_min_value = 1, sl_max_value = 100, sl_width = 180,
              sl_disabled = False, sl_opa = LV_OPA_COVER\<rparr>,
      ds_brightness_value = Some ((lv_obj_new 70)\<lparr>obj_text := ''65%''\<rparr>),
      ds_auto_brightness_enabled = False, ds_manual_brightness = 65,
      auto_brightness_timer = None,
      slider_drag_state =
        \<lparr>active_slider = None, start_x = 0, start_y = 0, start_value = 0, current_value = 0,
         min_val = 0, max_val = 0, slider_width = 0, drag_cancelled = False\<rparr>,
      ds_ui_interaction_active = False\<rparr>"

text \<open>The same screen once the finger has come down on the brightness slider at (100, 50).\<close>

definition ds_dragging :: ds_state where
  "ds_dragging = ds_custom_slider_drag_cb LV_EVENT_PRESSED (Some (100, 50)) ds_shown"

text \<open>A sensor module whose sensor reads the light value 500 and maps every value to 40 percent.\<close>

definition sensor_40 :: brightness_control where
  "sensor_40 =
     \<lparr>brightness_control_sensor_available = True, brightness_control_read_sensor = (0, 500),
      brightness_control_map_light_to_brightness = (\<lambda>_. 40)\<rparr>"

section \<open>Properties\<close>

subsection \<open>Object arrays and loops\<close>

lemma length_upd_obj [simp]: "length (upd_obj i f objs) = length objs"
  by (simp add: upd_obj_def split: option.splits)

lemma nth_upd_obj:
  "j < length objs \<Longrightarrow> upd_obj i f objs ! j = (if i = j then map_option f (objs ! j) else objs ! j)"
  by (auto simp: upd_obj_def split: option.splits)

lemma upd_obj_ids:
  "(\<And>obj. obj_id (f obj) = obj_id obj) \<Longrightarrow> map (map_option obj_id) (upd_obj i f objs) = map (map_option obj_id) objs"
  by (cases "i < length objs") (auto simp: upd_obj_def map_update list_update_same_conv list_update_beyond split: option.splits)

lemma fold_preserve:
  assumes "\<And>x s. g (f x s) = g s"
  shows "g (fold f xs s) = g s"
  using assms by (induction xs arbitrary: s) simp_all

lemma fold_invariant:
  assumes "\<And>x s. P s \<Longrightarrow> P (f x s)" and "P s"
  shows "P (fold f xs s)"
  using assms by (induction xs arbitrary: s) simp_all

lemma nth_fold_upd_obj:
  "j < length objs \<Longrightarrow>
   fold (\<lambda>i. upd_obj i (g i)) is objs ! j
     = (fold (\<lambda>i obj. if i = j then map_option (g i) obj else obj) is (objs ! j))"
  by (induction "is" arbitrary: objs) (simp_all add: nth_upd_obj)

lemma length_fold_upd_obj [simp]: "length (fold (\<lambda>i. upd_obj i (g i)) is objs) = length objs"
  by (induction "is" arbitrary: objs) simp_all

lemma fold_if_absent:
  "j \<notin> set is \<Longrightarrow> fold (\<lambda>i obj. if i = j then h i obj else obj) is x = x"
  by (induction "is" arbitrary: x) auto

lemma fold_if_once:
  "distinct is \<Longrightarrow> j \<in> set is \<Longrightarrow> fold (\<lambda>i obj. if i = j then h i obj else obj) is x = h j x"
proof (induction "is" arbitrary: x)
  case Nil
  then show ?case by simp
next
  case (Cons i "is")
  then show ?case by (cases "i = j") (simp_all add: fold_if_absent)
qed

lemma nth_fold_upd_obj_upt:
  "j < n \<Longrightarrow> j < length objs \<Longrightarrow>
   fold (\<lambda>i. upd_obj i (g i)) [0..<n] objs ! j = map_option (g j) (objs ! j)"
  by (simp add: nth_fold_upd_obj fold_if_once)

lemma same_objs_refl: "(\<And>a. R a a) \<Longrightarrow> same_objs R objs objs"
  by (simp add: same_objs_def list_all2_conv_all_nth option.rel_refl)

lemma same_objs_upd_obj:
  assumes "same_objs R olds news" and "\<And>a b. R a b \<Longrightarrow> R a (f b)"
  shows "same_objs R olds (upd_obj i f news)"
  unfolding same_objs_def list_all2_conv_all_nth
proof (intro conjI allI impI)
  from assms(1) show "length olds = length (upd_obj i f news)"
    by (simp add: same_objs_def list_all2_lengthD)
next
  fix j assume j: "j < length olds"
  with assms(1) have r: "rel_option R (olds ! j) (news ! j)" and l: "j < length news"
    by (simp_all add: same_objs_def list_all2_conv_all_nth)
  from r assms(2) have "rel_option R (olds ! j) (map_option f (news ! j))"
    by (cases "olds ! j"; cases "news ! j") simp_all
  with r l show "rel_option R (olds ! j) (upd_obj i f news ! j)"
    by (simp add: nth_upd_obj)
qed

lemma recolored_refl [simp]: "recolored a a" "recolored_moved a a"
  by (simp_all add: recolored_def recolored_moved_def)

lemma recolored_color [simp]:
  assumes "recolored a b"
  shows "recolored a (b\<lparr>obj_bg_color := c\<rparr>)"
proof -
  have "b\<lparr>obj_bg_color := c, obj_bg_color := obj_bg_color a\<rparr> = b\<lparr>obj_bg_color := obj_bg_color a\<rparr>"
    by simp
  also from assms have "\<dots> = a" unfolding recolored_def .
  finally show ?thesis unfolding recolored_def .
qed

lemma recolored_moved_color [simp]:
  assumes "recolored_moved a b"
  shows "recolored_moved a (b\<lparr>obj_bg_color := c\<rparr>)"
proof -
  have "b\<lparr>obj_bg_color := c, obj_bg_color := obj_bg_color a, obj_x := obj_x a, obj_y := obj_y a\<rparr>
      = b\<lparr>obj_bg_color := obj_bg_color a, obj_x := obj_x a, obj_y := obj_y a\<rparr>"
    by simp
  also from assms have "\<dots> = a" unfolding recolored_moved_def .
  finally show ?thesis unfolding recolored_moved_def .
qed

lemma recolored_moved_pos [simp]:
  assumes "recolored_moved a b"
  shows "recolored_moved a (b\<lparr>obj_x := x, obj_y := y\<rparr>)"
proof -
  have "b\<lparr>obj_x := x, obj_y := y, obj_bg_color := obj_bg_color a, obj_x := obj_x a, obj_y := obj_y a\<rparr>
      = b\<lparr>obj_bg_color := obj_bg_color a, obj_x := obj_x a, obj_y := obj_y a\<rparr>"
    by simp
  also from assms have "\<dots> = a" unfolding recolored_moved_def .
  finally show ?thesis unfolding recolored_moved_def .
qed

lemma same_objs_ids:
  assumes "same_objs R olds news" and "\<And>a b. R a b \<Longrightarrow> obj_id b = obj_id a"
  shows "map (map_option obj_id) news = map (map_option obj_id) olds"
proof (rule nth_equalityI)
  from assms(1) show "length (map (map_option obj_id) news) = length (map (map_option obj_id) olds)"
    by (simp add: same_objs_def list_all2_lengthD)
next
  fix j assume "j < length (map (map_option obj_id) news)"
  with assms(1) have j: "j < length news" "j < length olds" and r: "rel_option R (olds ! j) (news ! j)"
    by (simp_all add: same_objs_def list_all2_conv_all_nth)
  from r assms(2) have "map_option obj_id (news ! j) = map_option obj_id (olds ! j)"
    by (cases "olds ! j"; cases "news ! j") simp_all
  with j show "map (map_option obj_id) news ! j = map (map_option obj_id) olds ! j"
    by simp
qed

lemma recolored_id: "recolored a b \<Longrightarrow> obj_id b = obj_id a"
  unfolding recolored_def by (drule arg_cong [where f = obj_id]) simp

lemma recolored_moved_id: "recolored_moved a b \<Longrightarrow> obj_id b = obj_id a"
  unfolding recolored_moved_def by (drule arg_cong [where f = obj_id]) simp

subsection \<open>Decimal output and C division\<close>

lemma dec_nat_digit: "n < 10 \<Longrightarrow> dec_nat n = [digit_char n]"
  by (subst dec_nat.simps) simp

lemma dec_nat_rec: "10 \<le> n \<Longrightarrow> dec_nat n = dec_nat (n div 10) @ [digit_char (n mod 10)]"
  by (subst dec_nat.simps) simp

lemmas dec_eval = dec_nat_digit dec_nat_rec digit_char_def fmt_d_def snprintf_def

lemma sdiv_nonneg: "0 \<le> a \<Longrightarrow> 0 \<le> b \<Longrightarrow> a sdiv b = a div (b::int)"
  by (cases "a = 0"; cases "b = 0") (simp_all add: signed_divide_int_def)

lemma smod_nonneg: "0 \<le> a \<Longrightarrow> 0 \<le> b \<Longrightarrow> a smod b = a mod (b::int)"
  by (cases "a = 0"; cases "b = 0") (simp_all add: signed_modulo_int_def)

lemma length_dec_nat: "0 < k \<Longrightarrow> n < 10 ^ k \<Longrightarrow> length (dec_nat n) \<le> k"
proof (induction k arbitrary: n)
  case 0
  then show ?case by simp
next
  case (Suc k)
  show ?case
  proof (cases "n < 10")
    case True
    then show ?thesis by (simp add: dec_nat_digit)
  next
    case False
    then have k: "0 < k" using Suc.prems by (cases k) simp_all
    from Suc.prems have "n div 10 < 10 ^ k" by (simp add: less_mult_imp_div_less mult.commute)
    with Suc.IH k have "length (dec_nat (n div 10)) \<le> k" by blast
    with False show ?thesis by (simp add: dec_nat_rec)
  qed
qed

subsection \<open>Backlight brightness\<close>

lemma uint8_percent: "0 \<le> p \<Longrightarrow> p \<le> 100 \<Longrightarrow> uint (word_of_int p :: uint8_t) = p"
  by (simp add: unsigned_of_int take_bit_int_eq_self)

lemma uint8_duty:
  assumes "0 \<le> p" and "p \<le> 100"
  shows "uint (100 - (if (word_of_int p :: uint8_t) < 1 then 1 else word_of_int p) :: uint8_t) = 100 - max 1 p"
proof (cases "p = 0")
  case True
  then show ?thesis by simp
next
  case False
  with assms have p: "1 \<le> p" by simp
  with assms have u: "uint (word_of_int p :: uint8_t) = p" by (simp add: uint8_percent)
  with p have nlt: "\<not> (word_of_int p :: uint8_t) < 1"
    by (simp add: word_less_def)
  from u assms have "uint (word_of_int p :: uint8_t) \<le> uint (100 :: uint8_t)" by simp
  then have "uint ((100 :: uint8_t) - word_of_int p) = uint (100 :: uint8_t) - uint (word_of_int p :: uint8_t)"
    by (simp only: uint_sub_lem)
  with u have "uint ((100 :: uint8_t) - word_of_int p) = 100 - p" by simp
  with nlt p show ?thesis by (simp add: max_def)
qed

lemma set_pwm_brightness_issues:
  assumes "0 \<le> p" and "p \<le> 100"
    and "brightness_requests t = brightness_requests s" and "led_writes t = led_writes s"
    and "backlight_ready t = backlight_ready s"
  shows "issues_brightness p s (set_pwm_brightness (word_of_int p) t)"
  using assms uint8_duty [OF assms(1,2)]
  by (simp add: issues_brightness_def set_pwm_brightness_def Let_def uint8_percent)

lemma timeout_brightness_issues:
  "0 < c \<Longrightarrow> c \<le> 100 \<Longrightarrow> issues_brightness c s (pending_update_timeout_brightness (Some c) s)"
  by (simp add: pending_update_timeout_brightness_def set_pwm_brightness_issues)

lemma fixed_brightness_issues:
  "0 \<le> c \<Longrightarrow> c \<le> 100 \<Longrightarrow> issues_brightness c s (pending_update_fixed_brightness (Some c) s)"
  by (simp add: pending_update_fixed_brightness_def set_pwm_brightness_issues)

lemma slider_event_issues:
  assumes "ds_brightness_slider s = Some sl" and "active_slider (slider_drag_state s) \<noteq> Some Brightness_slider"
    and "\<not> ds_auto_brightness_enabled s" and "0 \<le> sl_value sl" and "sl_value sl \<le> 100"
  shows "issues_brightness (sl_value sl) s (ds_brightness_slider_event_cb LV_EVENT_VALUE_CHANGED s)"
    and "uint (ds_manual_brightness (ds_brightness_slider_event_cb LV_EVENT_VALUE_CHANGED s)) = sl_value sl"
    and "map_option obj_text (ds_brightness_value (ds_brightness_slider_event_cb LV_EVENT_VALUE_CHANGED s))
           = map_option (\<lambda>_. snprintf 8 (fmt_d (sl_value sl) @ ''%'')) (ds_brightness_value s)"
proof -
  define t where "t = s\<lparr>ds_manual_brightness := word_of_int (sl_value sl),
      ds_brightness_value := map_option (\<lambda>l. l\<lparr>obj_text := snprintf 8 (fmt_d (sl_value sl) @ ''%'')\<rparr>)
                               (ds_brightness_value s)\<rparr>"
  have step: "ds_brightness_slider_event_cb LV_EVENT_VALUE_CHANGED s = set_pwm_brightness (word_of_int (sl_value sl)) t"
    using assms(1-3) by (simp add: ds_brightness_slider_event_cb_def Let_def t_def)
  have "issues_brightness (sl_value sl) s (set_pwm_brightness (word_of_int (sl_value sl)) t)"
    by (rule set_pwm_brightness_issues) (use assms in \<open>simp_all add: t_def\<close>)
  then show "issues_brightness (sl_value sl) s (ds_brightness_slider_event_cb LV_EVENT_VALUE_CHANGED s)"
    by (simp add: step)
  show "uint (ds_manual_brightness (ds_brightness_slider_event_cb LV_EVENT_VALUE_CHANGED s)) = sl_value sl"
    using assms(4,5) by (simp add: step set_pwm_brightness_def Let_def t_def uint8_percent)
  show "map_option obj_text (ds_brightness_value (ds_brightness_slider_event_cb LV_EVENT_VALUE_CHANGED s))
           = map_option (\<lambda>_. snprintf 8 (fmt_d (sl_value sl) @ ''%'')) (ds_brightness_value s)"
    by (simp add: step set_pwm_brightness_def Let_def t_def option.map_comp comp_def)
qed

lemma drag_value_c:
  "min_val d \<le> max_val d \<Longrightarrow>
   (if max_val d < (if nv < min_val d then min_val d else nv) then max_val d
    else (if nv < min_val d then min_val d else nv)) = min (max_val d) (max (min_val d) nv)"
  by (auto simp: min_def max_def)

lemma drag_issues:
  assumes sl: "ds_brightness_slider s = Some sl" and lbl: "ds_brightness_value s = Some l"
    and act: "active_slider (slider_drag_state s) = Some Brightness_slider"
    and nc: "\<not> drag_cancelled (slider_drag_state s)"
    and horiz: "\<not> (\<bar>py - start_y (slider_drag_state s)\<bar> > SLIDER_SWIPE_THRESHOLD \<and>
                   \<bar>py - start_y (slider_drag_state s)\<bar> > \<bar>px - start_x (slider_drag_state s)\<bar> * 2)"
    and rng: "0 \<le> min_val (slider_drag_state s)" "min_val (slider_drag_state s) \<le> max_val (slider_drag_state s)"
      "max_val (slider_drag_state s) \<le> 100"
    and same: "sl_min_value sl = min_val (slider_drag_state s)" "sl_max_value sl = max_val (slider_drag_state s)"
  shows "issues_brightness (drag_value (slider_drag_state s) px) s
           (ds_custom_slider_drag_cb LV_EVENT_PRESSING (Some (px, py)) s)"
    and "map_option sl_value (ds_brightness_slider (ds_custom_slider_drag_cb LV_EVENT_PRESSING (Some (px, py)) s))
           = Some (drag_value (slider_drag_state s) px)"
    and "map_option obj_text (ds_brightness_value (ds_custom_slider_drag_cb LV_EVENT_PRESSING (Some (px, py)) s))
           = Some (fmt_d (drag_value (slider_drag_state s) px) @ ''%'')"
    and "min_val (slider_drag_state s) \<le> drag_value (slider_drag_state s) px \<and>
         drag_value (slider_drag_state s) px \<le> max_val (slider_drag_state s)"
proof -
  define d where "d = slider_drag_state s"
  define v where "v = drag_value d px"
  from rng have v: "min_val d \<le> v" "v \<le> max_val d" "0 \<le> v" "v \<le> 100"
    by (simp_all add: v_def d_def drag_value_def)
  define t where "t = s\<lparr>slider_drag_state := d\<lparr>current_value := v\<rparr>,
                         ds_brightness_slider := Some (lv_slider_set_value v sl),
                         ds_brightness_value := Some (l\<lparr>obj_text := fmt_d v @ ''%''\<rparr>)\<rparr>"
  have step: "ds_custom_slider_drag_cb LV_EVENT_PRESSING (Some (px, py)) s = set_pwm_brightness (word_of_int v) t"
    using sl lbl act nc horiz rng(2)
    unfolding ds_custom_slider_drag_cb_def Let_def abs_if [symmetric]
    by (auto simp add: d_def [symmetric] v_def t_def drag_value_def min_def max_def)
  have "issues_brightness v s (set_pwm_brightness (word_of_int v) t)"
    by (rule set_pwm_brightness_issues) (use v in \<open>simp_all add: t_def\<close>)
  then show "issues_brightness (drag_value (slider_drag_state s) px) s
           (ds_custom_slider_drag_cb LV_EVENT_PRESSING (Some (px, py)) s)"
    by (simp add: step v_def d_def)
  show "map_option sl_value (ds_brightness_slider (ds_custom_slider_drag_cb LV_EVENT_PRESSING (Some (px, py)) s))
           = Some (drag_value (slider_drag_state s) px)"
    using v same
    by (simp add: step set_pwm_brightness_def Let_def t_def lv_slider_set_value_def d_def v_def)
  show "map_option obj_text (ds_brightness_value (ds_custom_slider_drag_cb LV_EVENT_PRESSING (Some (px, py)) s))
           = Some (fmt_d (drag_value (slider_drag_state s) px) @ ''%'')"
    by (simp add: step set_pwm_brightness_def Let_def t_def d_def v_def)
  from v show "min_val (slider_drag_state s) \<le> drag_value (slider_drag_state s) px \<and>
         drag_value (slider_drag_state s) px \<le> max_val (slider_drag_state s)"
    by (simp add: v_def d_def)
qed

lemma auto_timer_issues:
  assumes "ds_auto_brightness_enabled s" and "brightness_control_sensor_available bc"
    and "brightness_control_read_sensor bc = (0, light)"
    and "uint (brightness_control_map_light_to_brightness bc light) \<le> 100"
  shows "issues_brightness (uint (brightness_control_map_light_to_brightness bc light)) s
           (auto_brightness_timer_cb bc s)"
  using assms set_pwm_brightness_issues [of "uint (brightness_control_map_light_to_brightness bc light)" s s]
  by (simp add: auto_brightness_timer_cb_def Let_def)

lemma auto_switch_off_issues:
  assumes "ds_brightness_slider s \<noteq> None" and "uint (ds_manual_brightness s) \<le> 100"
  shows "issues_brightness (uint (ds_manual_brightness s)) s
           (ds_auto_switch_event_cb bc LV_EVENT_VALUE_CHANGED False s)"
proof -
  from assms(1) obtain sl where sl: "ds_brightness_slider s = Some sl" by auto
  define t where "t = (if auto_brightness_timer s \<noteq> None
      then s\<lparr>ds_auto_brightness_enabled := False, auto_brightness_timer := None\<rparr>
      else s\<lparr>ds_auto_brightness_enabled := False\<rparr>)"
  have f: "ds_brightness_slider t = Some sl" "ds_manual_brightness t = ds_manual_brightness s"
    "brightness_requests t = brightness_requests s" "led_writes t = led_writes s"
    "backlight_ready t = backlight_ready s"
    by (simp_all add: t_def sl)
  have step: "ds_auto_switch_event_cb bc LV_EVENT_VALUE_CHANGED False s
      = set_pwm_brightness (ds_manual_brightness s)
          (t\<lparr>ds_brightness_slider := Some (sl\<lparr>sl_disabled := False, sl_opa := LV_OPA_COVER\<rparr>)\<rparr>)"
    using sl by (auto simp: ds_auto_switch_event_cb_def Let_def t_def)
  from set_pwm_brightness_issues [of "uint (ds_manual_brightness s)" 
      "t\<lparr>ds_brightness_slider := Some (sl\<lparr>sl_disabled := False, sl_opa := LV_OPA_COVER\<rparr>)\<rparr>" s] assms(2) f
  show ?thesis by (simp add: step)
qed


text \<open>
  Claim C8. The backlight driver with its set-brightness-percent interface is
  \<^verbatim>\<open>set_pwm_brightness\<close>. For every percentage from 0 to 100, each of the six brightness
  commands of the engine hands that function the percentage itself, not inverted: the
  timeout and the fixed brightness of \<^verbatim>\<open>pending_update_timer_cb\<close>, the value of the
  brightness slider on its value-changed event (which also becomes the manual brightness),
  the value under the finger while the slider is dragged (the same number that goes to the
  slider and to its label), the percentage that the sensor module maps the light to, and
  the manual brightness when the automatic mode is switched off. The inversion for the
  backlight circuit is done behind that interface: the LED driver of a ready device gets
  100 minus the percentage, with 0 raised to 1, and is not called when the device is
  absent or not ready.
\<close>

theorem backlight_logical_percentage:
  "(0 \<le> p \<and> p \<le> 100 \<longrightarrow> issues_brightness p s (set_pwm_brightness (word_of_int p) s)) \<and>
   (\<not> backlight_ready s \<longrightarrow> led_writes (set_pwm_brightness b s) = led_writes s) \<and>
   (0 < c \<and> c \<le> 100 \<longrightarrow> issues_brightness c s (pending_update_timeout_brightness (Some c) s)) \<and>
   (0 \<le> c \<and> c \<le> 100 \<longrightarrow> issues_brightness c s (pending_update_fixed_brightness (Some c) s)) \<and>
   (ds_brightness_slider s = Some sl \<and> active_slider (slider_drag_state s) \<noteq> Some Brightness_slider \<and>
    \<not> ds_auto_brightness_enabled s \<and> 0 \<le> sl_value sl \<and> sl_value sl \<le> 100 \<longrightarrow>
      issues_brightness (sl_value sl) s (ds_brightness_slider_event_cb LV_EVENT_VALUE_CHANGED s) \<and>
      uint (ds_manual_brightness (ds_brightness_slider_event_cb LV_EVENT_VALUE_CHANGED s)) = sl_value sl) \<and>
   (ds_brightness_slider s = Some sl \<and> ds_brightness_value s = Some l \<and>
    active_slider (slider_drag_state s) = Some Brightness_slider \<and> \<not> drag_cancelled (slider_drag_state s) \<and>
    \<not> (\<bar>py - start_y (slider_drag_state s)\<bar> > SLIDER_SWIPE_THRESHOLD \<and>
       \<bar>py - start_y (slider_drag_state s)\<bar> > \<bar>px - start_x (slider_drag_state s)\<bar> * 2) \<and>
    0 \<le> min_val (slider_drag_state s) \<and> min_val (slider_drag_state s) \<le> max_val (slider_drag_state s) \<and>
    max_val (slider_drag_state s) \<le> 100 \<and> 0 < slider_width (slider_drag_state s) \<and>
    sl_min_value sl = min_val (slider_drag_state s) \<and> sl_max_value sl = max_val (slider_drag_state s) \<longrightarrow>
      issues_brightness (drag_value (slider_drag_state s) px) s
        (ds_custom_slider_drag_cb LV_EVENT_PRESSING (Some (px, py)) s) \<and>
      map_option sl_value (ds_brightness_slider (ds_custom_slider_drag_cb LV_EVENT_PRESSING (Some (px, py)) s))
        = Some (drag_value (slider_drag_state s) px) \<and>
      map_option obj_text (ds_brightness_value (ds_custom_slider_drag_cb LV_EVENT_PRESSING (Some (px, py)) s))
        = Some (fmt_d (drag_value (slider_drag_state s) px) @ ''%'')) \<and>
   (ds_auto_brightness_enabled s \<and> brightness_control_sensor_available bc \<and>
    brightness_control_read_sensor bc = (0, light) \<and>
    uint (brightness_control_map_light_to_brightness bc light) \<le> 100 \<longrightarrow>
      issues_brightness (uint (brightness_control_map_light_to_brightness bc light)) s
        (auto_brightness_timer_cb bc s)) \<and>
   (ds_brightness_slider s \<noteq> None \<and> uint (ds_manual_brightness s) \<le> 100 \<longrightarrow>
      issues_brightness (uint (ds_manual_brightness s)) s
        (ds_auto_switch_event_cb bc LV_EVENT_VALUE_CHANGED False s))"
proof (intro conjI impI)
  show "issues_brightness p s (set_pwm_brightness (word_of_int p) s)" if "0 \<le> p \<and> p \<le> 100"
    using that by (simp add: set_pwm_brightness_issues)
  show "led_writes (set_pwm_brightness b s) = led_writes s" if "\<not> backlight_ready s"
    using that by (simp add: set_pwm_brightness_def Let_def)
  show "issues_brightness c s (pending_update_timeout_brightness (Some c) s)" if "0 < c \<and> c \<le> 100"
    using that by (simp add: timeout_brightness_issues)
  show "issues_brightness c s (pending_update_fixed_brightness (Some c) s)" if "0 \<le> c \<and> c \<le> 100"
    using that by (simp add: fixed_brightness_issues)
next
  assume "ds_brightness_slider s = Some sl \<and> active_slider (slider_drag_state s) \<noteq> Some Brightness_slider \<and>
    \<not> ds_auto_brightness_enabled s \<and> 0 \<le> sl_value sl \<and> sl_value sl \<le> 100"
  then have h: "ds_brightness_slider s = Some sl" "active_slider (slider_drag_state s) \<noteq> Some Brightness_slider"
    "\<not> ds_auto_brightness_enabled s" "0 \<le> sl_value sl" "sl_value sl \<le> 100"
    by simp_all
  show "issues_brightness (sl_value sl) s (ds_brightness_slider_event_cb LV_EVENT_VALUE_CHANGED s)"
    by (rule slider_event_issues(1) [OF h])
  show "uint (ds_manual_brightness (ds_brightness_slider_event_cb LV_EVENT_VALUE_CHANGED s)) = sl_value sl"
    by (rule slider_event_issues(2) [OF h])
next
  assume "ds_brightness_slider s = Some sl \<and> ds_brightness_value s = Some l \<and>
    active_slider (slider_drag_state s) = Some Brightness_slider \<and> \<not> drag_cancelled (slider_drag_state s) \<and>
    \<not> (\<bar>py - start_y (slider_drag_state s)\<bar> > SLIDER_SWIPE_THRESHOLD \<and>
       \<bar>py - start_y (slider_drag_state s)\<bar> > \<bar>px - start_x (slider_drag_state s)\<bar> * 2) \<and>
    0 \<le> min_val (slider_drag_state s) \<and> min_val (slider_drag_state s) \<le> max_val (slider_drag_state s) \<and>
    max_val (slider_drag_state s) \<le> 100 \<and> 0 < slider_width (slider_drag_state s) \<and>
    sl_min_value sl = min_val (slider_drag_state s) \<and> sl_max_value sl = max_val (slider_drag_state s)"
  then have h: "ds_brightness_slider s = Some sl" "ds_brightness_value s = Some l"
    "active_slider (slider_drag_state s) = Some Brightness_slider" "\<not> drag_cancelled (slider_drag_state s)"
    "\<not> (\<bar>py - start_y (slider_drag_state s)\<bar> > SLIDER_SWIPE_THRESHOLD \<and>
       \<bar>py - start_y (slider_drag_state s)\<bar> > \<bar>px - start_x (slider_drag_state s)\<bar> * 2)"
    "0 \<le> min_val (slider_drag_state s)" "min_val (slider_drag_state s) \<le> max_val (slider_drag_state s)"
    "max_val (slider_drag_state s) \<le> 100"
    "sl_min_value sl = min_val (slider_drag_state s)" "sl_max_value sl = max_val (slider_drag_state s)"
    by blast+
  show "issues_brightness (drag_value (slider_drag_state s) px) s
        (ds_custom_slider_drag_cb LV_EVENT_PRESSING (Some (px, py)) s)"
    by (rule drag_issues(1) [OF h])
  show "map_option sl_value (ds_brightness_slider (ds_custom_slider_drag_cb LV_EVENT_PRESSING (Some (px, py)) s))
        = Some (drag_value (slider_drag_state s) px)"
    by (rule drag_issues(2) [OF h])
  show "map_option obj_text (ds_brightness_value (ds_custom_slider_drag_cb LV_EVENT_PRESSING (Some (px, py)) s))
        = Some (fmt_d (drag_value (slider_drag_state s) px) @ ''%'')"
    by (rule drag_issues(3) [OF h])
next
  assume "ds_auto_brightness_enabled s \<and> brightness_control_sensor_available bc \<and>
    brightness_control_read_sensor bc = (0, light) \<and>
    uint (brightness_control_map_light_to_brightness bc light) \<le> 100"
  then show "issues_brightness (uint (brightness_control_map_light_to_brightness bc light)) s
        (auto_brightness_timer_cb bc s)"
    by (simp add: auto_timer_issues)
next
  assume "ds_brightness_slider s \<noteq> None \<and> uint (ds_manual_brightness s) \<le> 100"
  then show "issues_brightness (uint (ds_manual_brightness s)) s
        (ds_auto_switch_event_cb bc LV_EVENT_VALUE_CHANGED False s)"
    by (simp add: auto_switch_off_issues)
qed

text \<open>
  On the display settings screen as first shown: the slider event for the value 65 gives
  the backlight function 65 and the LED driver 35; the timeout brightness 10 gives 10 and
  90; dragging the slider from x = 100 to x = 136 gives 84 and 16, with 84 on the slider
  and on its label; the sensor at 40 percent gives 40 and 60; switching the automatic
  mode off gives the manual brightness 65 and 35; the fixed brightness 100 gives 100 and
  0; the percentage 0 gives 0 and the duty 99; and with the device not ready the LED
  driver is not called.
\<close>

theorem backlight_logical_percentage_witness:
  "map uint (brightness_requests (ds_brightness_slider_event_cb LV_EVENT_VALUE_CHANGED ds_shown)) = [65] \<and>
   map uint (led_writes (ds_brightness_slider_event_cb LV_EVENT_VALUE_CHANGED ds_shown)) = [35] \<and>
   map uint (brightness_requests (pending_update_timeout_brightness (Some 10) ds_shown)) = [10] \<and>
   map uint (led_writes (pending_update_timeout_brightness (Some 10) ds_shown)) = [90] \<and>
   map uint (brightness_requests (ds_custom_slider_drag_cb LV_EVENT_PRESSING (Some (136, 52)) ds_dragging)) = [84] \<and>
   map uint (led_writes (ds_custom_slider_drag_cb LV_EVENT_PRESSING (Some (136, 52)) ds_dragging)) = [16] \<and>
   map_option obj_text (ds_brightness_value (ds_custom_slider_drag_cb LV_EVENT_PRESSING (Some (136, 52)) ds_dragging))
     = Some ''84%'' \<and>
   map uint (brightness_requests (auto_brightness_timer_cb sensor_40 (ds_shown\<lparr>ds_auto_brightness_enabled := True\<rparr>)))
     = [40] \<and>
   map uint (led_writes (auto_brightness_timer_cb sensor_40 (ds_shown\<lparr>ds_auto_brightness_enabled := True\<rparr>)))
     = [60] \<and>
   map uint (brightness_requests (ds_auto_switch_event_cb sensor_40 LV_EVENT_VALUE_CHANGED False ds_shown)) = [65] \<and>
   map uint (led_writes (ds_auto_switch_event_cb sensor_40 LV_EVENT_VALUE_CHANGED False ds_shown)) = [35] \<and>
   map uint (brightness_requests (pending_update_fixed_brightness (Some 100) ds_shown)) = [100] \<and>
   map uint (led_writes (pending_update_fixed_brightness (Some 100) ds_shown)) = [0] \<and>
   map uint (brightness_requests (set_pwm_brightness 0 ds_shown)) = [0] \<and>
   map uint (led_writes (set_pwm_brightness 0 ds_shown)) = [99] \<and>
   led_writes (set_pwm_brightness 65 (ds_shown\<lparr>backlight_ready := False\<rparr>)) = []"
proof -
  have drag: "ds_dragging = ds_shown\<lparr>slider_drag_state :=
      \<lparr>active_slider = Some Brightness_slider, start_x = 100, start_y = 50, start_value = 65,
       current_value = 65, min_val = 1, max_val = 100, slider_width = 180, drag_cancelled = False\<rparr>,
      ds_ui_interaction_active := True\<rparr>"
    by (simp add: ds_dragging_def ds_custom_slider_drag_cb_def ds_shown_def Let_def)
  have dv: "drag_value (slider_drag_state ds_dragging) 136 = 84"
    by (simp add: drag ds_shown_def drag_value_def sdiv_nonneg)
  have f84: "fmt_d 84 = ''84''"
    by (simp add: dec_eval)
  from backlight_logical_percentage [of _ ds_shown _ _
      "\<lparr>sl_value = 65, sl_min_value = 1, sl_max_value = 100, sl_width = 180,
        sl_disabled = False, sl_opa = LV_OPA_COVER\<rparr>"]
  have a: "issues_brightness 65 ds_shown (ds_brightness_slider_event_cb LV_EVENT_VALUE_CHANGED ds_shown)"
    by (simp add: ds_shown_def)
  from backlight_logical_percentage [of _ ds_shown _ 10]
  have b: "issues_brightness 10 ds_shown (pending_update_timeout_brightness (Some 10) ds_shown)"
    by simp
  from backlight_logical_percentage [of _ ds_dragging _ _
      "\<lparr>sl_value = 65, sl_min_value = 1, sl_max_value = 100, sl_width = 180,
        sl_disabled = False, sl_opa = LV_OPA_COVER\<rparr>" "(lv_obj_new 70)\<lparr>obj_text := ''65%''\<rparr>" 52 136]
  have c: "issues_brightness 84 ds_dragging (ds_custom_slider_drag_cb LV_EVENT_PRESSING (Some (136, 52)) ds_dragging)"
    "map_option obj_text (ds_brightness_value (ds_custom_slider_drag_cb LV_EVENT_PRESSING (Some (136, 52)) ds_dragging))
       = Some ''84%''"
    unfolding dv f84
    by (simp_all add: drag ds_shown_def SLIDER_SWIPE_THRESHOLD_def)
  from backlight_logical_percentage [of _ "ds_shown\<lparr>ds_auto_brightness_enabled := True\<rparr>" _ _ _ _ _ _ sensor_40 500]
  have d: "issues_brightness 40 (ds_shown\<lparr>ds_auto_brightness_enabled := True\<rparr>)
             (auto_brightness_timer_cb sensor_40 (ds_shown\<lparr>ds_auto_brightness_enabled := True\<rparr>))"
    by (simp add: sensor_40_def)
  from backlight_logical_percentage [of _ ds_shown _ _ _ _ _ _ sensor_40]
  have e: "issues_brightness 65 ds_shown (ds_auto_switch_event_cb sensor_40 LV_EVENT_VALUE_CHANGED False ds_shown)"
    by (simp add: ds_shown_def)
  from backlight_logical_percentage [of _ ds_shown _ 100]
  have f: "issues_brightness 100 ds_shown (pending_update_fixed_brightness (Some 100) ds_shown)"
    by simp
  from backlight_logical_percentage [of 0 ds_shown]
  have g: "issues_brightness 0 ds_shown (set_pwm_brightness 0 ds_shown)"
    by simp
  from backlight_logical_percentage [of _ "ds_shown\<lparr>backlight_ready := False\<rparr>" 65]
  have h: "led_writes (set_pwm_brightness 65 (ds_shown\<lparr>backlight_ready := False\<rparr>)) = []"
    by (simp add: ds_shown_def)
  from a b c d e f g h show ?thesis
    by (simp add: issues_brightness_def drag ds_shown_def)
qed

subsection \<open>Signal rate text\<close>

text \<open>
  Claim C6. The signal block of \<^verbatim>\<open>pending_update_timer_cb\<close> formats the payload, the
  rate times 100 as an \<^verbatim>\<open>int32_t\<close>: the payload 1234 gives \<open>12.3Hz\<close>; every negative
  payload, the sentinel -1 among them, gives \<open>-.--Hz\<close>; every other payload gives the
  whole part \<open>payload div 100\<close>, a dot, the single digit \<open>payload mod 100 div 10\<close> and
  \<open>Hz\<close>, which the 16-byte buffer never truncates; and that text is what the rate label
  shows when the label exists.
\<close>

theorem rate_x100_text_format:
  "rate_x100_text 1234 = ''12.3Hz'' \<and>
   (p < 0 \<longrightarrow> rate_x100_text p = ''-.--Hz'') \<and>
   (0 \<le> p \<and> p < 2 ^ 31 \<longrightarrow>
      rate_x100_text p = fmt_d (p div 100) @ ''.'' @ fmt_d (p mod 100 div 10) @ ''Hz'') \<and>
   (rate_label s = Some l \<longrightarrow>
      rate_label (pending_signal_update fl sig_rssi x s) = Some (l\<lparr>obj_text := rate_x100_text (sint x)\<rparr>))"
proof -
  have a: "rate_x100_text 1234 = ''12.3Hz''"
    by (simp add: rate_x100_text_def dec_eval sdiv_nonneg smod_nonneg)
  have b: "rate_x100_text p = ''-.--Hz''" if "p < 0"
    using that by (simp add: rate_x100_text_def snprintf_def)
  have c: "rate_x100_text p = fmt_d (p div 100) @ ''.'' @ fmt_d (p mod 100 div 10) @ ''Hz''"
    if "0 \<le> p \<and> p < 2 ^ 31"
  proof -
    from that have "p < 2147483648" by simp
    then have "p div 100 < 100000000" by arith
    with that have "nat (p div 100) < 10 ^ 8" by simp
    then have w: "length (dec_nat (nat (p div 100))) \<le> 8"
      by (rule length_dec_nat [rotated]) simp
    have "nat (p mod 100 div 10) < 10" by simp
    then have f: "length (dec_nat (nat (p mod 100 div 10))) = 1"
      by (simp add: dec_nat_digit)
    from that have nn: "\<not> p div 100 < 0" "\<not> p mod 100 div 10 < 0"
      by (simp_all add: pos_imp_zdiv_neg_iff)
    let ?str = "fmt_d (p div 100) @ ''.'' @ fmt_d (p mod 100 div 10) @ ''Hz''"
    from w f nn have len: "length ?str \<le> 15"
      by (simp add: fmt_d_def)
    from that have "rate_x100_text p = snprintf 16 ?str"
      by (simp add: rate_x100_text_def sdiv_nonneg smod_nonneg Let_def)
    also from len have "\<dots> = ?str"
      unfolding snprintf_def by (simp del: append.simps)
    finally show ?thesis .
  qed
  have d: "rate_label (pending_signal_update fl sig_rssi x s) = Some (l\<lparr>obj_text := rate_x100_text (sint x)\<rparr>)"
    if "rate_label s = Some l"
    using that by (simp add: pending_signal_update_def Let_def)
  from a b c d show ?thesis by blast
qed

text \<open>The format at the sentinel -1 and at the payload 1234.\<close>

theorem rate_x100_text_format_witness:
  "rate_x100_text (sint (- 1 :: 32 word)) = ''-.--Hz'' \<and>
   rate_x100_text 1234 = ''12.3Hz''"
  using rate_x100_text_format [of "- 1"] rate_x100_text_format [of 1234] by simp

subsection \<open>Transition table\<close>

text \<open>What the channel functions and the widget functions leave unchanged.\<close>

lemma on_ui_fields [simp]:
  "current_screen (on_ui f s) = current_screen s"
  "transition_in_progress (on_ui f s) = transition_in_progress s"
  "pending_swipe (on_ui f s) = pending_swipe s"
  "ui_interaction_active (on_ui f s) = ui_interaction_active s"
  "ks_runtime_channel (on_ui f s) = ks_runtime_channel s"
  "ks_channel_initialized (on_ui f s) = ks_channel_initialized s"
  by (simp_all add: on_ui_def)

lemma nav_channel_on_ui [simp]: "nav_channel (on_ui f s) = nav_channel s"
  by (simp add: nav_channel_def scanner_get_runtime_channel_def)

lemma scanner_get_runtime_channel_fields [simp]:
  "fst (scanner_get_runtime_channel s) = nav_channel s"
  "current_screen (snd (scanner_get_runtime_channel s)) = current_screen s"
  "transition_in_progress (snd (scanner_get_runtime_channel s)) = transition_in_progress s"
  "pending_swipe (snd (scanner_get_runtime_channel s)) = pending_swipe s"
  "ui_interaction_active (snd (scanner_get_runtime_channel s)) = ui_interaction_active s"
  "nav_channel (snd (scanner_get_runtime_channel s)) = nav_channel s"
  by (simp_all add: nav_channel_def scanner_get_runtime_channel_def)

lemma scanner_set_runtime_channel_fields [simp]:
  "current_screen (scanner_set_runtime_channel c s) = current_screen s"
  "transition_in_progress (scanner_set_runtime_channel c s) = transition_in_progress s"
  "pending_swipe (scanner_set_runtime_channel c s) = pending_swipe s"
  "ui_interaction_active (scanner_set_runtime_channel c s) = ui_interaction_active s"
  "nav_channel (scanner_set_runtime_channel c s) = c"
  by (simp_all add: nav_channel_def scanner_get_runtime_channel_def scanner_set_runtime_channel_def)

lemma ks_update_channel_display_fields [simp]:
  "current_screen (ks_update_channel_display ops s) = current_screen s"
  "transition_in_progress (ks_update_channel_display ops s) = transition_in_progress s"
  "pending_swipe (ks_update_channel_display ops s) = pending_swipe s"
  "ui_interaction_active (ks_update_channel_display ops s) = ui_interaction_active s"
  "nav_channel (ks_update_channel_display ops s) = nav_channel s"
  by (simp_all add: ks_update_channel_display_def split_beta)

lemma ks_update_entries_fields [simp]:
  "current_screen (ks_update_entries ops s) = current_screen s"
  "transition_in_progress (ks_update_entries ops s) = transition_in_progress s"
  "pending_swipe (ks_update_entries ops s) = pending_swipe s"
  "ui_interaction_active (ks_update_entries ops s) = ui_interaction_active s"
  "nav_channel (ks_update_entries ops s) = nav_channel s"
  by (simp_all add: ks_update_entries_def split_beta)

lemma ks_channel_change_fields [simp]:
  "current_screen (ks_channel_change ops c s) = current_screen s"
  "transition_in_progress (ks_channel_change ops c s) = transition_in_progress s"
  "pending_swipe (ks_channel_change ops c s) = pending_swipe s"
  "ui_interaction_active (ks_channel_change ops c s) = ui_interaction_active s"
  "nav_channel (ks_channel_change ops c s) = (if c > CHANNEL_MAX then 0 else c)"
  by (simp_all add: ks_channel_change_def Let_def)

lemma ensure_lvgl_indev_registered_fields [simp]:
  "current_screen (ensure_lvgl_indev_registered ops s) = current_screen s"
  "transition_in_progress (ensure_lvgl_indev_registered ops s) = transition_in_progress s"
  "pending_swipe (ensure_lvgl_indev_registered ops s) = pending_swipe s"
  "ui_interaction_active (ensure_lvgl_indev_registered ops s) = ui_interaction_active s"
  "nav_channel (ensure_lvgl_indev_registered ops s) = nav_channel s"
  by (simp_all add: ensure_lvgl_indev_registered_def split_beta Let_def nav_channel_def scanner_get_runtime_channel_def)

lemma nav_channel_update [simp]:
  "nav_channel (s\<lparr>current_screen := c\<rparr>) = nav_channel s"
  "nav_channel (s\<lparr>transition_in_progress := b\<rparr>) = nav_channel s"
  "nav_channel (s\<lparr>pending_swipe := d\<rparr>) = nav_channel s"
  by (simp_all add: nav_channel_def scanner_get_runtime_channel_def)

lemma channel_incr_le: "(ch :: uint8_t) < 10 \<Longrightarrow> \<not> ch + 1 > 10"
  by (simp add: word_less_nat_alt unat_word_ariths)

lemma channel_decr_le: "(ch :: uint8_t) \<le> 10 \<Longrightarrow> 0 < ch \<Longrightarrow> \<not> ch - 1 > 10"
  by (simp add: word_less_nat_alt word_le_nat_alt unat_sub word_le_nat_alt unat_gt_0 Suc_le_eq)

lemma ks_channel_increment_fields [simp]:
  "current_screen (ks_channel_increment ops s) = current_screen s"
  "transition_in_progress (ks_channel_increment ops s) = transition_in_progress s"
  "pending_swipe (ks_channel_increment ops s) = pending_swipe s"
  "ui_interaction_active (ks_channel_increment ops s) = ui_interaction_active s"
  by (simp_all add: ks_channel_increment_def split_beta Let_def)

lemma ks_channel_decrement_fields [simp]:
  "current_screen (ks_channel_decrement ops s) = current_screen s"
  "transition_in_progress (ks_channel_decrement ops s) = transition_in_progress s"
  "pending_swipe (ks_channel_decrement ops s) = pending_swipe s"
  "ui_interaction_active (ks_channel_decrement ops s) = ui_interaction_active s"
  by (simp_all add: ks_channel_decrement_def split_beta Let_def)

lemma nav_channel_increment:
  "nav_channel (ks_channel_increment ops s) = spec_channel SWIPE_DIRECTION_RIGHT (nav_channel s)"
  by (simp add: ks_channel_increment_def split_beta Let_def spec_channel_def CHANNEL_MAX_def channel_incr_le)

lemma nav_channel_decrement:
  "nav_channel s \<le> CHANNEL_MAX \<Longrightarrow>
   nav_channel (ks_channel_decrement ops s) = spec_channel SWIPE_DIRECTION_LEFT (nav_channel s)"
  by (simp add: ks_channel_decrement_def split_beta Let_def spec_channel_def CHANNEL_MAX_def channel_decr_le)

lemma create_keyboard_select_widgets_fields [simp]:
  "current_screen (create_keyboard_select_widgets ops s) = current_screen s"
  "transition_in_progress (create_keyboard_select_widgets ops s) = transition_in_progress s"
  "pending_swipe (create_keyboard_select_widgets ops s) = pending_swipe s"
  "ui_interaction_active (create_keyboard_select_widgets ops s) = ui_interaction_active s"
  "nav_channel (create_keyboard_select_widgets ops s) = nav_channel s"
  by (simp_all add: create_keyboard_select_widgets_def)

lemma destroy_keyboard_select_widgets_fields [simp]:
  "current_screen (destroy_keyboard_select_widgets ops s) = current_screen s"
  "transition_in_progress (destroy_keyboard_select_widgets ops s) = transition_in_progress s"
  "pending_swipe (destroy_keyboard_select_widgets ops s) = pending_swipe s"
  "ui_interaction_active (destroy_keyboard_select_widgets ops s) = ui_interaction_active s"
  "nav_channel (destroy_keyboard_select_widgets ops s) = nav_channel s"
  by (simp_all add: destroy_keyboard_select_widgets_def)

lemma spec_channel_le:
  "ch \<le> CHANNEL_MAX \<Longrightarrow> spec_channel d ch \<le> CHANNEL_MAX"
  using channel_incr_le [of ch] channel_decr_le [of ch]
  by (auto simp: spec_channel_def CHANNEL_MAX_def intro: leI)

text \<open>
  Claim C3. When the swipe timer finds a pending direction and neither a UI interaction nor
  a transition is in progress, the screen it leaves current is the one the transition
  table of the specification gives for the current screen and the direction (Main to
  DisplaySettings, KeyboardSelect, SystemSettings and PongWars by down, up, right and left,
  and each of them back to Main by the opposite direction), and the current screen itself
  for every pair that is not in the table. On KeyboardSelect, left and right keep the
  screen and move the channel filter one step down or up through 0, ..., 9, all; no other
  swipe changes the channel filter. The channel filter is a channel of the data model
  (at most \<^verbatim>\<open>CHANNEL_MAX\<close>) before and after.
\<close>

theorem swipe_transition_table:
  assumes "pending_swipe s = d" and "d \<noteq> SWIPE_DIRECTION_NONE"
    and "\<not> ui_interaction_active s" and "\<not> transition_in_progress s"
    and "nav_channel s \<le> CHANNEL_MAX"
  shows "current_screen (swipe_process_timer_cb ops s) =
           (case spec_transition (current_screen s) d of Some t \<Rightarrow> t | None \<Rightarrow> current_screen s) \<and>
         nav_channel (swipe_process_timer_cb ops s) =
           (if current_screen s = SCREEN_KEYBOARD_SELECT then spec_channel d (nav_channel s)
            else nav_channel s) \<and>
         nav_channel (swipe_process_timer_cb ops s) \<le> CHANNEL_MAX"
proof -
  have scr: "current_screen (swipe_process_timer_cb ops s) =
           (case spec_transition (current_screen s) d of Some t \<Rightarrow> t | None \<Rightarrow> current_screen s)"
    using assms(1-4)
    by (cases d; cases "current_screen s") (simp_all add: swipe_process_timer_cb_def Let_def)
  have ch: "nav_channel (swipe_process_timer_cb ops s) =
           (if current_screen s = SCREEN_KEYBOARD_SELECT then spec_channel d (nav_channel s)
            else nav_channel s)"
    using assms
    by (cases d; cases "current_screen s")
       (simp_all add: swipe_process_timer_cb_def Let_def nav_channel_increment nav_channel_decrement
          spec_channel_def)
  from ch assms(5) have "nav_channel (swipe_process_timer_cb ops s) \<le> CHANNEL_MAX"
    by (simp add: spec_channel_le)
  with scr ch show ?thesis by blast
qed

text \<open>
  From Main at boot a left swipe leads to PongWars, and on KeyboardSelect a left swipe
  moves the channel filter from all (10) to 9.
\<close>

theorem swipe_transition_table_witness:
  "current_screen (swipe_process_timer_cb null_screen_ops (nav_boot\<lparr>pending_swipe := SWIPE_DIRECTION_LEFT\<rparr>))
     = SCREEN_PONG_WARS \<and>
   nav_channel (swipe_process_timer_cb null_screen_ops
      (nav_boot\<lparr>current_screen := SCREEN_KEYBOARD_SELECT, pending_swipe := SWIPE_DIRECTION_LEFT\<rparr>)) = 9"
  using swipe_transition_table [of "nav_boot\<lparr>pending_swipe := SWIPE_DIRECTION_LEFT\<rparr>"
          SWIPE_DIRECTION_LEFT null_screen_ops]
        swipe_transition_table [of "nav_boot\<lparr>current_screen := SCREEN_KEYBOARD_SELECT,
             pending_swipe := SWIPE_DIRECTION_LEFT\<rparr>" SWIPE_DIRECTION_LEFT null_screen_ops]
  by (simp add: nav_boot_def nav_channel_def scanner_get_runtime_channel_def CHANNEL_MAX_def
        spec_channel_def)

subsection \<open>Gesture debounce\<close>

lemma swipe_gesture_listener_pending:
  "pending_swipe s \<noteq> SWIPE_DIRECTION_NONE \<Longrightarrow> swipe_gesture_listener ev s = s"
  by (simp add: swipe_gesture_listener_def split: option.splits)

lemma swipe_process_timer_cb_idle:
  "pending_swipe s = SWIPE_DIRECTION_NONE \<Longrightarrow> swipe_process_timer_cb ops s = s"
  by (simp add: swipe_process_timer_cb_def)

lemma swipe_process_timer_cb_clears:
  "pending_swipe (swipe_process_timer_cb ops s) = SWIPE_DIRECTION_NONE"
  by (cases "pending_swipe s"; cases "current_screen s")
     (simp_all add: swipe_process_timer_cb_def Let_def)

lemma swipe_process_timer_cb_busy:
  "ui_interaction_active s \<or> transition_in_progress s \<Longrightarrow>
   swipe_process_timer_cb ops s = s\<lparr>pending_swipe := SWIPE_DIRECTION_NONE\<rparr>"
  by (cases "pending_swipe s = SWIPE_DIRECTION_NONE") (auto simp: swipe_process_timer_cb_def Let_def)

lemma nav_run_swipes_pending:
  "pending_swipe s \<noteq> SWIPE_DIRECTION_NONE \<Longrightarrow> nav_run ops (map Swipe_event ds) s = s"
  by (induction ds) (simp_all add: nav_run_def swipe_gesture_listener_pending)

lemma nav_run_append: "nav_run ops (xs @ ys) s = nav_run ops ys (nav_run ops xs s)"
  by (simp add: nav_run_def)

text \<open>
  Claim C4. A swipe event that arrives while a direction is pending leaves the state as it
  is. Every tick of the swipe timer leaves the pending cell empty, so a second tick with
  no new event does nothing more: no gesture is processed twice. A tick that finds a UI
  interaction or a transition in progress only empties the cell: the gesture is dropped
  with the screen unchanged, and nothing is kept for a later tick. For a run of swipe
  events followed by a tick, the tick acts on one direction only: the one already pending
  or, with the cell empty, the first event of the run.
\<close>

theorem gesture_debounce:
  "(pending_swipe s \<noteq> SWIPE_DIRECTION_NONE \<longrightarrow> swipe_gesture_listener ev s = s) \<and>
   pending_swipe (swipe_process_timer_cb ops s) = SWIPE_DIRECTION_NONE \<and>
   swipe_process_timer_cb ops (swipe_process_timer_cb ops s) = swipe_process_timer_cb ops s \<and>
   (ui_interaction_active s \<or> transition_in_progress s \<longrightarrow>
      swipe_process_timer_cb ops s = s\<lparr>pending_swipe := SWIPE_DIRECTION_NONE\<rparr>) \<and>
   (pending_swipe s \<noteq> SWIPE_DIRECTION_NONE \<longrightarrow>
      nav_run ops (map Swipe_event ds @ [Timer_tick]) s = swipe_process_timer_cb ops s) \<and>
   (pending_swipe s = SWIPE_DIRECTION_NONE \<and> d \<noteq> SWIPE_DIRECTION_NONE \<longrightarrow>
      nav_run ops (Swipe_event d # map Swipe_event ds @ [Timer_tick]) s =
        swipe_process_timer_cb ops (s\<lparr>pending_swipe := d\<rparr>))"
proof -
  have twice: "swipe_process_timer_cb ops (swipe_process_timer_cb ops s) = swipe_process_timer_cb ops s"
    by (rule swipe_process_timer_cb_idle) (rule swipe_process_timer_cb_clears)
  have seq1: "nav_run ops (map Swipe_event ds @ [Timer_tick]) s = swipe_process_timer_cb ops s"
    if "pending_swipe s \<noteq> SWIPE_DIRECTION_NONE"
    using that by (simp add: nav_run_append nav_run_swipes_pending) (simp add: nav_run_def)
  have seq2: "nav_run ops (Swipe_event d # map Swipe_event ds @ [Timer_tick]) s =
        swipe_process_timer_cb ops (s\<lparr>pending_swipe := d\<rparr>)"
    if "pending_swipe s = SWIPE_DIRECTION_NONE \<and> d \<noteq> SWIPE_DIRECTION_NONE"
  proof -
    from that have "nav_run ops [Swipe_event d] s = s\<lparr>pending_swipe := d\<rparr>"
      by (simp add: nav_run_def swipe_gesture_listener_def)
    moreover from that have "pending_swipe (s\<lparr>pending_swipe := d\<rparr>) \<noteq> SWIPE_DIRECTION_NONE"
      by simp
    ultimately show ?thesis
      using nav_run_append [of ops "[Swipe_event d]" "map Swipe_event ds @ [Timer_tick]" s]
        nav_run_append [of ops "map Swipe_event ds" "[Timer_tick]" "s\<lparr>pending_swipe := d\<rparr>"]
        nav_run_swipes_pending [of "s\<lparr>pending_swipe := d\<rparr>" ops ds]
      by (simp add: nav_run_def)
  qed
  from twice seq1 seq2 show ?thesis
    by (simp add: swipe_gesture_listener_pending swipe_process_timer_cb_clears swipe_process_timer_cb_busy)
qed

text \<open>
  At boot, a down swipe and a left swipe before the tick lead to DisplaySettings, the left
  swipe being dropped; a swipe read during a UI interaction changes nothing but the cell.
\<close>

theorem gesture_debounce_witness:
  "nav_run null_screen_ops [Swipe_event SWIPE_DIRECTION_DOWN, Swipe_event SWIPE_DIRECTION_LEFT, Timer_tick] nav_boot
     = nav_boot\<lparr>current_screen := SCREEN_DISPLAY_SETTINGS, lvgl_indev_registered := True\<rparr> \<and>
   swipe_process_timer_cb null_screen_ops
     (nav_boot\<lparr>pending_swipe := SWIPE_DIRECTION_DOWN, ui_interaction_active := True\<rparr>)
     = nav_boot\<lparr>ui_interaction_active := True\<rparr>"
  using gesture_debounce [of nav_boot _ null_screen_ops "[SWIPE_DIRECTION_LEFT]" SWIPE_DIRECTION_DOWN]
    gesture_debounce [of "nav_boot\<lparr>pending_swipe := SWIPE_DIRECTION_DOWN, ui_interaction_active := True\<rparr>"
       _ null_screen_ops]
  by (simp add: nav_boot_def null_screen_ops_def swipe_process_timer_cb_def Let_def on_ui_def
        ensure_lvgl_indev_registered_def)

subsection \<open>Balls stay inside the arena\<close>

lemma upt_balls: "[0..<PW_NUM_BALLS] = [0, 1]"
  by (simp add: PW_NUM_BALLS_def upt_rec)

lemma sint_word_of_int_16: "- 32768 \<le> k \<Longrightarrow> k < 32768 \<Longrightarrow> sint (word_of_int k :: int16_t) = k"
  by (simp add: signed_of_int signed_take_bit_int_eq_self)

lemma pw_rand_snd: "snd (pw_rand s) = s\<lparr>pw_rand_seed := pw_rand_seed s * 1103515245 + 12345\<rparr>"
  by (simp add: pw_rand_def Let_def)

lemma pw_bounce_range:
  "2 * PW_BALL_RADIUS \<le> hi \<Longrightarrow>
   PW_BALL_RADIUS \<le> fst (pw_bounce hi p v) \<and> fst (pw_bounce hi p v) \<le> hi - PW_BALL_RADIUS"
  by (simp add: pw_bounce_def)

lemma pw_update_cell_color_fields [simp]:
  "pw_balls (pw_update_cell_color gx gy t s) = pw_balls s"
  "pw_score1 (pw_update_cell_color gx gy t s) = pw_score1 s"
  "pw_score2 (pw_update_cell_color gx gy t s) = pw_score2 s"
  "pw_grid (pw_update_cell_color gx gy t s) = pw_grid s"
  "pw_rand_seed (pw_update_cell_color gx gy t s) = pw_rand_seed s"
  "pw_ball_objs (pw_update_cell_color gx gy t s) = pw_ball_objs s"
  by (simp_all add: pw_update_cell_color_def Let_def)

lemma pw_update_ball_display_fields [simp]:
  "pw_balls (pw_update_ball_display i s) = pw_balls s"
  "pw_score1 (pw_update_ball_display i s) = pw_score1 s"
  "pw_score2 (pw_update_ball_display i s) = pw_score2 s"
  "pw_grid (pw_update_ball_display i s) = pw_grid s"
  "pw_cell_objs (pw_update_ball_display i s) = pw_cell_objs s"
  by (simp_all add: pw_update_ball_display_def)

lemma pw_convert_cell_fields [simp]:
  "pw_balls (snd (pw_convert_cell gx gy b s)) = pw_balls s"
  "pw_score1 (snd (pw_convert_cell gx gy b s)) + pw_score2 (snd (pw_convert_cell gx gy b s))
     = pw_score1 s + pw_score2 s"
  "ball_x (fst (pw_convert_cell gx gy b s)) = ball_x b"
  "ball_y (fst (pw_convert_cell gx gy b s)) = ball_y b"
  "ball_team (fst (pw_convert_cell gx gy b s)) = ball_team b"
  by (simp_all add: pw_convert_cell_def Let_def split_beta pw_rand_snd)

lemma pw_step_ball_sum:
  "pw_score1 (pw_step_ball i s) + pw_score2 (pw_step_ball i s) = pw_score1 s + pw_score2 s"
  by (simp add: pw_step_ball_def Let_def split_beta)

lemma pw_step_ball_length [simp]: "length (pw_balls (pw_step_ball i s)) = length (pw_balls s)"
  by (simp add: pw_step_ball_def Let_def split_beta)

lemma pw_step_ball_other: "j \<noteq> i \<Longrightarrow> pw_balls (pw_step_ball i s) ! j = pw_balls s ! j"
  by (simp add: pw_step_ball_def Let_def split_beta)

lemma pw_step_ball_inside:
  assumes "i < length (pw_balls s)"
  shows "pw_ball_inside (pw_balls (pw_step_ball i s) ! i)"
proof -
  define b where "b = pw_balls s ! i"
  define nx where "nx = fst (pw_bounce PW_ARENA_W (sint (ball_x b) + sint (ball_dx b) sdiv 10) (ball_dx b))"
  define ny where "ny = fst (pw_bounce PW_ARENA_H (sint (ball_y b) + sint (ball_dy b) sdiv 10) (ball_dy b))"
  have x: "6 \<le> nx \<and> nx \<le> 234"
    using pw_bounce_range [of PW_ARENA_W] by (simp add: nx_def PW_ARENA_W_def PW_BALL_RADIUS_def)
  have y: "6 \<le> ny \<and> ny \<le> 174"
    using pw_bounce_range [of PW_ARENA_H] by (simp add: ny_def PW_ARENA_H_def PW_BALL_RADIUS_def)
  have "ball_x (pw_balls (pw_step_ball i s) ! i) = word_of_int nx"
    "ball_y (pw_balls (pw_step_ball i s) ! i) = word_of_int ny"
    using assms by (simp_all add: pw_step_ball_def Let_def split_beta nx_def ny_def b_def)
  with x y show ?thesis
    by (simp add: pw_ball_inside_def sint_word_of_int_16 PW_ARENA_W_def PW_ARENA_H_def PW_BALL_RADIUS_def)
qed

text \<open>
  Claim C10. After \<^verbatim>\<open>pw_step\<close> in a running simulation, whatever the positions and
  velocities before, each of the two balls has
  \<^verbatim>\<open>PW_BALL_RADIUS\<close> \<open>\<le> x \<le>\<close> \<^verbatim>\<open>PW_ARENA_W - PW_BALL_RADIUS\<close> and
  \<^verbatim>\<open>PW_BALL_RADIUS\<close> \<open>\<le> y \<le>\<close> \<^verbatim>\<open>PW_ARENA_H - PW_BALL_RADIUS\<close>. When the simulation is
  not running \<^verbatim>\<open>pw_step\<close> returns at once, and a ball that satisfies the bounds keeps them.
\<close>

theorem pw_step_keeps_balls_inside:
  assumes "pw_initialized s \<or> pw_ball_inside (pw_balls s ! i)"
    and "length (pw_balls s) = PW_NUM_BALLS" and "i < PW_NUM_BALLS"
  shows "pw_ball_inside (pw_balls (pw_step s) ! i)"
proof (cases "pw_initialized s")
  case False
  with assms show ?thesis by (simp add: pw_step_def)
next
  case True
  from assms(3) have "i = 0 \<or> i = 1" by (auto simp: PW_NUM_BALLS_def)
  then show ?thesis
  proof
    assume i: "i = 0"
    have "pw_ball_inside (pw_balls (pw_step_ball 0 s) ! 0)"
      using assms(2) by (intro pw_step_ball_inside) (simp add: PW_NUM_BALLS_def)
    with True i show ?thesis
      by (simp add: pw_step_def upt_balls pw_step_ball_other)
  next
    assume i: "i = 1"
    have "pw_ball_inside (pw_balls (pw_step_ball 1 (pw_step_ball 0 s)) ! 1)"
      using assms(2) by (intro pw_step_ball_inside) (simp add: PW_NUM_BALLS_def)
    with True i show ?thesis
      by (simp add: pw_step_def upt_balls)
  qed
qed

text \<open>The first tick of a simulation started from the boot values, for ball 0.\<close>

theorem pw_step_keeps_balls_inside_witness:
  "pw_ball_inside (pw_balls (pw_step pw_running) ! 0)"
  using pw_step_keeps_balls_inside [of pw_running 0]
  by (simp add: pw_running_def pw_boot_def PW_NUM_BALLS_def)

subsection \<open>Score sum\<close>

lemma pw_init_cell_sum:
  "pw_score1 (pw_init_cell y x s) + pw_score2 (pw_init_cell y x s) = pw_score1 s + pw_score2 s + 1"
  by (simp add: pw_init_cell_def Let_def)

lemma pw_init_row_sum:
  "pw_score1 (fold (pw_init_cell y) xs s) + pw_score2 (fold (pw_init_cell y) xs s)
     = pw_score1 s + pw_score2 s + int (length xs)"
  by (induction xs arbitrary: s) (simp_all add: pw_init_cell_sum)

lemma pw_init_rows_sum:
  "pw_score1 (fold (\<lambda>y. fold (pw_init_cell y) xs) ys s) + pw_score2 (fold (\<lambda>y. fold (pw_init_cell y) xs) ys s)
     = pw_score1 s + pw_score2 s + int (length ys * length xs)"
  by (induction ys arbitrary: s) (simp_all add: pw_init_row_sum algebra_simps)

lemma pw_init_grid_sum:
  "pw_score1 (pw_init_grid s) + pw_score2 (pw_init_grid s) = int PW_NUM_CELLS"
  by (simp add: pw_init_grid_def pw_init_rows_sum PW_NUM_CELLS_def PW_GRID_W_def PW_GRID_H_def)

lemma pw_select_random_palette_fields [simp]:
  "pw_score1 (pw_select_random_palette s) = pw_score1 s"
  "pw_score2 (pw_select_random_palette s) = pw_score2 s"
  "pw_grid (pw_select_random_palette s) = pw_grid s"
  "pw_cell_objs (pw_select_random_palette s) = pw_cell_objs s"
  "pw_ball_objs (pw_select_random_palette s) = pw_ball_objs s"
  "pw_balls (pw_select_random_palette s) = pw_balls s"
  by (simp_all add: pw_select_random_palette_def Let_def split_beta pw_rand_snd)

lemma pw_init_ball_fields [simp]:
  "pw_score1 (pw_init_ball i s) = pw_score1 s"
  "pw_score2 (pw_init_ball i s) = pw_score2 s"
  "pw_grid (pw_init_ball i s) = pw_grid s"
  "pw_cell_objs (pw_init_ball i s) = pw_cell_objs s"
  "pw_ball_objs (pw_init_ball i s) = pw_ball_objs s"
  "pw_base_speed (pw_init_ball i s) = pw_base_speed s"
  "pw_color_team1 (pw_init_ball i s) = pw_color_team1 s"
  "pw_color_team2 (pw_init_ball i s) = pw_color_team2 s"
  "pw_color_ball1 (pw_init_ball i s) = pw_color_ball1 s"
  "pw_color_ball2 (pw_init_ball i s) = pw_color_ball2 s"
  "length (pw_balls (pw_init_ball i s)) = length (pw_balls s)"
  by (simp_all add: pw_init_ball_def Let_def split_beta pw_rand_snd)

lemma pw_init_balls_fields [simp]:
  "pw_score1 (pw_init_balls u s) = pw_score1 s"
  "pw_score2 (pw_init_balls u s) = pw_score2 s"
  "pw_grid (pw_init_balls u s) = pw_grid s"
  "pw_cell_objs (pw_init_balls u s) = pw_cell_objs s"
  "pw_ball_objs (pw_init_balls u s) = pw_ball_objs s"
  "length (pw_balls (pw_init_balls u s)) = length (pw_balls s)"
  by (simp_all add: pw_init_balls_def Let_def split_beta pw_rand_snd upt_balls)

lemma pw_step_sum:
  "pw_score1 (pw_step s) + pw_score2 (pw_step s) = pw_score1 s + pw_score2 s"
  by (simp add: pw_step_def upt_balls pw_step_ball_sum)

lemma pw_update_score_fields [simp]:
  "pw_score1 (pw_update_score s) = pw_score1 s"
  "pw_score2 (pw_update_score s) = pw_score2 s"
  "pw_grid (pw_update_score s) = pw_grid s"
  "pw_cell_objs (pw_update_score s) = pw_cell_objs s"
  "pw_ball_objs (pw_update_score s) = pw_ball_objs s"
  "pw_balls (pw_update_score s) = pw_balls s"
  "pw_base_speed (pw_update_score s) = pw_base_speed s"
  "pw_color_team1 (pw_update_score s) = pw_color_team1 s"
  "pw_color_team2 (pw_update_score s) = pw_color_team2 s"
  "pw_color_ball1 (pw_update_score s) = pw_color_ball1 s"
  "pw_color_ball2 (pw_update_score s) = pw_color_ball2 s"
  by (simp_all add: pw_update_score_def Let_def split: option.splits)

lemma pw_timer_cb_sum:
  "pw_score1 (pw_timer_cb s) + pw_score2 (pw_timer_cb s) = pw_score1 s + pw_score2 s"
proof -
  have "pw_score1 (pw_step (s\<lparr>pw_frame_count := c\<rparr>)) + pw_score2 (pw_step (s\<lparr>pw_frame_count := c\<rparr>))
      = pw_score1 s + pw_score2 s" for c
    using pw_step_sum [of "s\<lparr>pw_frame_count := c\<rparr>"] by simp
  then show ?thesis
    by (simp add: pw_timer_cb_def Let_def)
qed

lemma pw_reset_cell_fields [simp]:
  "pw_score1 (pw_reset_cell y x s) = pw_score1 s"
  "pw_score2 (pw_reset_cell y x s) = pw_score2 s"
  "pw_grid (pw_reset_cell y x s) = pw_grid s"
  "pw_ball_objs (pw_reset_cell y x s) = pw_ball_objs s"
  "pw_balls (pw_reset_cell y x s) = pw_balls s"
  "pw_base_speed (pw_reset_cell y x s) = pw_base_speed s"
  "pw_color_team1 (pw_reset_cell y x s) = pw_color_team1 s"
  "pw_color_team2 (pw_reset_cell y x s) = pw_color_team2 s"
  "pw_color_ball1 (pw_reset_cell y x s) = pw_color_ball1 s"
  "pw_color_ball2 (pw_reset_cell y x s) = pw_color_ball2 s"
  by (simp_all add: pw_reset_cell_def Let_def)

lemma pw_reset_ball_fields [simp]:
  "pw_score1 (pw_reset_ball i s) = pw_score1 s"
  "pw_score2 (pw_reset_ball i s) = pw_score2 s"
  "pw_grid (pw_reset_ball i s) = pw_grid s"
  "pw_cell_objs (pw_reset_ball i s) = pw_cell_objs s"
  "pw_balls (pw_reset_ball i s) = pw_balls s"
  "pw_base_speed (pw_reset_ball i s) = pw_base_speed s"
  "pw_color_team1 (pw_reset_ball i s) = pw_color_team1 s"
  "pw_color_team2 (pw_reset_ball i s) = pw_color_team2 s"
  "pw_color_ball1 (pw_reset_ball i s) = pw_color_ball1 s"
  "pw_color_ball2 (pw_reset_ball i s) = pw_color_ball2 s"
  by (simp_all add: pw_reset_ball_def pw_update_ball_display_def Let_def split: option.splits)

text \<open>The steps of the reset after the two initialisations, taken together.\<close>

lemma pw_reset_cells_fields [simp]:
  "pw_score1 (fold (\<lambda>y. fold (pw_reset_cell y) xs) ys s) = pw_score1 s"
  "pw_score2 (fold (\<lambda>y. fold (pw_reset_cell y) xs) ys s) = pw_score2 s"
  "pw_grid (fold (\<lambda>y. fold (pw_reset_cell y) xs) ys s) = pw_grid s"
  "pw_ball_objs (fold (\<lambda>y. fold (pw_reset_cell y) xs) ys s) = pw_ball_objs s"
  "pw_balls (fold (\<lambda>y. fold (pw_reset_cell y) xs) ys s) = pw_balls s"
  "pw_base_speed (fold (\<lambda>y. fold (pw_reset_cell y) xs) ys s) = pw_base_speed s"
  "pw_color_team1 (fold (\<lambda>y. fold (pw_reset_cell y) xs) ys s) = pw_color_team1 s"
  "pw_color_team2 (fold (\<lambda>y. fold (pw_reset_cell y) xs) ys s) = pw_color_team2 s"
  "pw_color_ball1 (fold (\<lambda>y. fold (pw_reset_cell y) xs) ys s) = pw_color_ball1 s"
  "pw_color_ball2 (fold (\<lambda>y. fold (pw_reset_cell y) xs) ys s) = pw_color_ball2 s"
  by (rule fold_preserve, rule fold_preserve, simp)+

lemma pw_reset_game_sum:
  "pw_score1 s + pw_score2 s = int PW_NUM_CELLS \<Longrightarrow>
   pw_score1 (pw_reset_game u s) + pw_score2 (pw_reset_game u s) = int PW_NUM_CELLS"
proof -
  have "pw_score1 (pw_init_grid t) + pw_score2 (pw_init_grid t) = int PW_NUM_CELLS" for t
    by (rule pw_init_grid_sum)
  then show "pw_score1 s + pw_score2 s = int PW_NUM_CELLS \<Longrightarrow> ?thesis"
    by (simp add: pw_reset_game_def Let_def upt_balls)
qed

text \<open>
  Claim C1. In every state of the simulation the two scores add up to the number of grid
  cells, 12 * 9 = 108: \<^verbatim>\<open>pw_init_grid\<close> establishes the sum from any state, and the
  ball initialisation, every ball's part of a tick with its cell conversion, the whole
  \<^verbatim>\<open>pw_step\<close>, the timer callback, \<^verbatim>\<open>pw_reset_game\<close>, the tap handler, the score
  display and the teardown keep it.
\<close>

theorem pw_score_sum_invariant:
  "pw_reachable s \<Longrightarrow> pw_score1 s + pw_score2 s = int PW_NUM_CELLS \<and> int PW_NUM_CELLS = 12 * 9"
proof (induction rule: pw_reachable.induct)
  case (pw_reach_init s)
  show ?case by (simp add: pw_init_grid_sum) (simp add: PW_NUM_CELLS_def PW_GRID_W_def PW_GRID_H_def)
next
  case (pw_reach_balls s uptime)
  then show ?case by simp
next
  case (pw_reach_ball s i)
  then show ?case by (simp add: pw_step_ball_sum)
next
  case (pw_reach_step s)
  then show ?case by (simp add: pw_step_sum)
next
  case (pw_reach_tick s)
  then show ?case by (simp add: pw_timer_cb_sum)
next
  case (pw_reach_reset s uptime)
  then show ?case by (simp add: pw_reset_game_sum)
next
  case (pw_reach_tap s uptime)
  then show ?case by (simp add: pw_tap_handler_def pw_reset_game_sum)
next
  case (pw_reach_score s)
  then show ?case by simp
next
  case (pw_reach_destroy s)
  then show ?case by (simp add: destroy_pong_wars_widgets_def)
qed

subsection \<open>Reset of the simulation\<close>

lemma pw_init_cell_fields [simp]:
  "pw_grid (pw_init_cell y x s) = (pw_grid s)[y * PW_GRID_W + x := (if x < PW_GRID_W div 2 then 0 else 1)]"
  "pw_balls (pw_init_cell y x s) = pw_balls s"
  "pw_ball_objs (pw_init_cell y x s) = pw_ball_objs s"
  "length (pw_cell_objs (pw_init_cell y x s)) = length (pw_cell_objs s)"
  "map (map_option obj_id) (pw_cell_objs (pw_init_cell y x s)) = map (map_option obj_id) (pw_cell_objs s)"
  by (simp_all add: pw_init_cell_def Let_def upd_obj_ids)

lemma pw_init_cell_scores:
  assumes "y * PW_GRID_W + x < length (pw_grid s)"
  shows "pw_score1 (pw_init_cell y x s) = pw_score1 s + (if x < PW_GRID_W div 2 then 1 else 0)"
    and "pw_score2 (pw_init_cell y x s) = pw_score2 s + (if x < PW_GRID_W div 2 then 0 else 1)"
  using assms by (simp_all add: pw_init_cell_def Let_def)

lemma pw_init_row_length [simp]:
  "length (pw_grid (fold (pw_init_cell y) xs s)) = length (pw_grid s)"
  by (induction xs arbitrary: s) simp_all

lemma pw_init_rows_length [simp]:
  "length (pw_grid (fold (\<lambda>y. fold (pw_init_cell y) xs) ys s)) = length (pw_grid s)"
  by (induction ys arbitrary: s) simp_all

lemma pw_init_row_scores:
  assumes "\<forall>x\<in>set xs. y * PW_GRID_W + x < length (pw_grid s)"
  shows "pw_score1 (fold (pw_init_cell y) xs s)
           = pw_score1 s + int (length (filter (\<lambda>x. x < PW_GRID_W div 2) xs)) \<and>
         pw_score2 (fold (pw_init_cell y) xs s)
           = pw_score2 s + int (length (filter (\<lambda>x. \<not> x < PW_GRID_W div 2) xs))"
  using assms by (induction xs arbitrary: s) (simp_all add: pw_init_cell_scores)

lemma pw_init_rows_scores:
  assumes "\<forall>y\<in>set ys. \<forall>x\<in>set xs. y * PW_GRID_W + x < length (pw_grid s)"
  shows "pw_score1 (fold (\<lambda>y. fold (pw_init_cell y) xs) ys s)
           = pw_score1 s + int (length ys * length (filter (\<lambda>x. x < PW_GRID_W div 2) xs)) \<and>
         pw_score2 (fold (\<lambda>y. fold (pw_init_cell y) xs) ys s)
           = pw_score2 s + int (length ys * length (filter (\<lambda>x. \<not> x < PW_GRID_W div 2) xs))"
  using assms
proof (induction ys arbitrary: s)
  case Nil
  then show ?case by simp
next
  case (Cons y ys)
  have "\<forall>x\<in>set xs. y * PW_GRID_W + x < length (pw_grid s)"
    using Cons.prems by simp
  from pw_init_row_scores [OF this] Cons.IH [of "fold (pw_init_cell y) xs s"] Cons.prems
  show ?case by (simp add: algebra_simps)
qed

lemma pw_init_row_nth:
  assumes "\<forall>x\<in>set xs. x < PW_GRID_W" and "j < length (pw_grid s)"
  shows "pw_grid (fold (pw_init_cell y) xs s) ! j
           = (if \<exists>x\<in>set xs. j = y * PW_GRID_W + x then pw_cell_value j else pw_grid s ! j)"
  using assms
proof (induction xs arbitrary: s)
  case Nil
  then show ?case by simp
next
  case (Cons x xs)
  then have x: "x < PW_GRID_W" by simp
  then have v: "pw_cell_value (y * PW_GRID_W + x) = (if x < PW_GRID_W div 2 then 0 else 1)"
    by (simp add: pw_cell_value_def)
  from Cons.prems have "pw_grid (fold (pw_init_cell y) xs (pw_init_cell y x s)) ! j
      = (if \<exists>x\<in>set xs. j = y * PW_GRID_W + x then pw_cell_value j else pw_grid (pw_init_cell y x s) ! j)"
    by (intro Cons.IH) simp_all
  with Cons.prems v show ?case
    by (auto simp: nth_list_update)
qed

lemma pw_init_rows_nth:
  assumes "\<forall>x\<in>set xs. x < PW_GRID_W" and "j < length (pw_grid s)"
  shows "pw_grid (fold (\<lambda>y. fold (pw_init_cell y) xs) ys s) ! j
           = (if \<exists>y\<in>set ys. \<exists>x\<in>set xs. j = y * PW_GRID_W + x then pw_cell_value j else pw_grid s ! j)"
  using assms
proof (induction ys arbitrary: s)
  case Nil
  then show ?case by simp
next
  case (Cons y ys)
  from Cons.prems have "pw_grid (fold (\<lambda>y. fold (pw_init_cell y) xs) ys (fold (pw_init_cell y) xs s)) ! j
      = (if \<exists>y\<in>set ys. \<exists>x\<in>set xs. j = y * PW_GRID_W + x then pw_cell_value j
         else pw_grid (fold (pw_init_cell y) xs s) ! j)"
    by (intro Cons.IH) simp_all
  with Cons.prems show ?case
    by (auto simp: pw_init_row_nth)
qed

lemma pw_init_grid_nth:
  assumes "length (pw_grid s) = PW_NUM_CELLS" and "j < PW_NUM_CELLS"
  shows "pw_grid (pw_init_grid s) ! j = pw_cell_value j"
proof -
  have "j = (j div PW_GRID_W) * PW_GRID_W + j mod PW_GRID_W"
    by simp
  moreover have "j div PW_GRID_W < PW_GRID_H" "j mod PW_GRID_W < PW_GRID_W"
    using assms(2) by (simp_all add: PW_NUM_CELLS_def PW_GRID_W_def PW_GRID_H_def less_mult_imp_div_less mult.commute)
  ultimately have "\<exists>y\<in>set [0..<PW_GRID_H]. \<exists>x\<in>set [0..<PW_GRID_W]. j = y * PW_GRID_W + x"
    by (metis atLeast0LessThan lessThan_iff set_upt)
  with assms show ?thesis
    by (simp add: pw_init_grid_def pw_init_rows_nth)
qed

lemma pw_init_grid_length [simp]: "length (pw_grid (pw_init_grid s)) = length (pw_grid s)"
  by (simp add: pw_init_grid_def)

lemma pw_init_grid_scores:
  assumes "length (pw_grid s) = PW_NUM_CELLS"
  shows "pw_score1 (pw_init_grid s) = 54 \<and> pw_score2 (pw_init_grid s) = 54"
proof -
  have "\<forall>y\<in>set [0..<PW_GRID_H]. \<forall>x\<in>set [0..<PW_GRID_W].
          y * PW_GRID_W + x < length (pw_grid (s\<lparr>pw_score1 := 0, pw_score2 := 0\<rparr>))"
  proof (intro ballI)
    fix y x assume "y \<in> set [0..<PW_GRID_H]" "x \<in> set [0..<PW_GRID_W]"
    then have "y \<le> 8" "x \<le> 11" by (simp_all add: PW_GRID_H_def PW_GRID_W_def)
    then have "y * 12 + x < 108" by linarith
    with assms show "y * PW_GRID_W + x < length (pw_grid (s\<lparr>pw_score1 := 0, pw_score2 := 0\<rparr>))"
      by (simp add: PW_NUM_CELLS_def PW_GRID_W_def PW_GRID_H_def)
  qed
  from pw_init_rows_scores [OF this]
  have "pw_score1 (pw_init_grid s) = int (length [0..<PW_GRID_H] * length (filter (\<lambda>x. x < PW_GRID_W div 2) [0..<PW_GRID_W]))"
    and "pw_score2 (pw_init_grid s) = int (length [0..<PW_GRID_H] * length (filter (\<lambda>x. \<not> x < PW_GRID_W div 2) [0..<PW_GRID_W]))"
    by (simp_all add: pw_init_grid_def)
  moreover have "[0..<PW_GRID_W] = [0,1,2,3,4,5,6,7,8,9,10,11]"
    by (simp add: PW_GRID_W_def upt_rec)
  ultimately show ?thesis
    by (simp add: PW_GRID_H_def PW_GRID_W_def)
qed

lemma pw_base_speed_range:
  "40 \<le> sint (ucast (40 + (r :: uint32_t) mod 21) :: int16_t) \<and>
   sint (ucast (40 + (r :: uint32_t) mod 21) :: int16_t) \<le> 60"
proof -
  have m: "uint (r mod 21) = uint r mod 21"
    by (simp add: uint_mod)
  have "0 \<le> uint r mod 21" "uint r mod 21 < 21" by simp_all
  with m have r: "0 \<le> uint (r mod 21)" "uint (r mod 21) < 21" by simp_all
  then have "uint (40 + r mod 21) = 40 + uint (r mod 21)"
    by (simp add: uint_word_ariths)
  with r have u: "40 \<le> uint (40 + r mod 21)" "uint (40 + r mod 21) \<le> 60" by simp_all
  have "sint (ucast (40 + r mod 21) :: int16_t) = signed_take_bit 15 (uint (40 + r mod 21))"
    by (simp add: signed_ucast_eq)
  also from u have "\<dots> = uint (40 + r mod 21)"
    by (intro signed_take_bit_int_eq_self) simp_all
  finally show ?thesis using u by simp
qed

lemma pw_palette_row:
  assumes "idx < PW_NUM_PALETTES"
  shows "[pw_color_palettes ! idx ! 0, pw_color_palettes ! idx ! 1,
          pw_color_palettes ! idx ! 2, pw_color_palettes ! idx ! 3] \<in> set pw_color_palettes"
proof -
  from assms have "idx = 0 \<or> idx = 1 \<or> idx = 2 \<or> idx = 3 \<or> idx = 4 \<or> idx = 5"
    by (simp add: PW_NUM_PALETTES_def pw_color_palettes_def) arith
  then show ?thesis
    by (elim disjE) (simp_all add: pw_color_palettes_def)
qed

lemma pw_select_random_palette_row:
  "[pw_color_team1 (pw_select_random_palette s), pw_color_team2 (pw_select_random_palette s),
    pw_color_ball1 (pw_select_random_palette s), pw_color_ball2 (pw_select_random_palette s)]
     \<in> set pw_color_palettes"
proof -
  have "unat (fst (pw_rand s)) mod PW_NUM_PALETTES < PW_NUM_PALETTES"
    by (simp add: PW_NUM_PALETTES_def pw_color_palettes_def)
  from pw_palette_row [OF this] show ?thesis
    by (simp add: pw_select_random_palette_def Let_def split_beta pw_rand_snd)
qed

lemma pw_init_balls_palette:
  "[pw_color_team1 (pw_init_balls u s), pw_color_team2 (pw_init_balls u s),
    pw_color_ball1 (pw_init_balls u s), pw_color_ball2 (pw_init_balls u s)]
     \<in> set pw_color_palettes"
  using pw_select_random_palette_row [of "s\<lparr>pw_rand_seed := u\<rparr>"]
  by (simp add: pw_init_balls_def Let_def split_beta pw_rand_snd upt_balls)

lemma pw_init_balls_speed:
  "40 \<le> sint (pw_base_speed (pw_init_balls u s)) \<and> sint (pw_base_speed (pw_init_balls u s)) \<le> 60"
  using pw_base_speed_range
  by (simp add: pw_init_balls_def Let_def split_beta pw_rand_snd upt_balls)

lemma pw_init_ball_start:
  assumes "i < length (pw_balls s)"
  shows "sint (ball_x (pw_balls (pw_init_ball i s) ! i)) = (if i = 0 then 60 else 180)"
    and "sint (ball_y (pw_balls (pw_init_ball i s) ! i)) = 90"
    and "ball_team (pw_balls (pw_init_ball i s) ! i) = of_nat i"
    and "j \<noteq> i \<Longrightarrow> pw_balls (pw_init_ball i s) ! j = pw_balls s ! j"
  using assms
  by (simp_all add: pw_init_ball_def Let_def split_beta pw_rand_snd PW_ARENA_W_def PW_ARENA_H_def
        sdiv_nonneg)

lemma pw_init_balls_start:
  assumes "length (pw_balls s) = PW_NUM_BALLS"
  shows "sint (ball_x (pw_balls (pw_init_balls u s) ! 0)) = 60 \<and>
         sint (ball_y (pw_balls (pw_init_balls u s) ! 0)) = 90 \<and>
         ball_team (pw_balls (pw_init_balls u s) ! 0) = 0 \<and>
         sint (ball_x (pw_balls (pw_init_balls u s) ! 1)) = 180 \<and>
         sint (ball_y (pw_balls (pw_init_balls u s) ! 1)) = 90 \<and>
         ball_team (pw_balls (pw_init_balls u s) ! 1) = 1"
proof -
  define t where "t = (snd (pw_rand (pw_select_random_palette (s\<lparr>pw_rand_seed := u\<rparr>))))
      \<lparr>pw_base_speed := ucast (40 + fst (pw_rand (pw_select_random_palette (s\<lparr>pw_rand_seed := u\<rparr>))) mod 21)\<rparr>"
  have eq: "pw_init_balls u s = pw_init_ball 1 (pw_init_ball 0 t)"
    by (simp add: pw_init_balls_def Let_def split_beta upt_balls t_def)
  have len: "length (pw_balls t) = 2"
    using assms by (simp add: t_def pw_rand_snd PW_NUM_BALLS_def)
  then have l0: "0 < length (pw_balls t)" and l1: "1 < length (pw_balls (pw_init_ball 0 t))"
    by simp_all
  from pw_init_ball_start [OF l0] pw_init_ball_start [OF l1] show ?thesis
    by (simp add: eq)
qed

lemma pw_init_grid_fields [simp]:
  "pw_balls (pw_init_grid s) = pw_balls s"
  "pw_ball_objs (pw_init_grid s) = pw_ball_objs s"
  "length (pw_cell_objs (pw_init_grid s)) = length (pw_cell_objs s)"
  "map (map_option obj_id) (pw_cell_objs (pw_init_grid s)) = map (map_option obj_id) (pw_cell_objs s)"
proof -
  let ?s0 = "s\<lparr>pw_score1 := 0, pw_score2 := 0\<rparr>"
  have "pw_balls (fold (\<lambda>y. fold (pw_init_cell y) [0..<PW_GRID_W]) [0..<PW_GRID_H] ?s0) = pw_balls ?s0"
    by (rule fold_preserve, rule fold_preserve, simp)
  then show "pw_balls (pw_init_grid s) = pw_balls s" by (simp add: pw_init_grid_def)
  have "pw_ball_objs (fold (\<lambda>y. fold (pw_init_cell y) [0..<PW_GRID_W]) [0..<PW_GRID_H] ?s0) = pw_ball_objs ?s0"
    by (rule fold_preserve, rule fold_preserve, simp)
  then show "pw_ball_objs (pw_init_grid s) = pw_ball_objs s" by (simp add: pw_init_grid_def)
  have "length (pw_cell_objs (fold (\<lambda>y. fold (pw_init_cell y) [0..<PW_GRID_W]) [0..<PW_GRID_H] ?s0))
      = length (pw_cell_objs ?s0)"
    by (rule fold_preserve, rule fold_preserve, simp)
  then show "length (pw_cell_objs (pw_init_grid s)) = length (pw_cell_objs s)" by (simp add: pw_init_grid_def)
  have "map (map_option obj_id) (pw_cell_objs (fold (\<lambda>y. fold (pw_init_cell y) [0..<PW_GRID_W]) [0..<PW_GRID_H] ?s0))
      = map (map_option obj_id) (pw_cell_objs ?s0)"
    by (rule fold_preserve, rule fold_preserve, simp)
  then show "map (map_option obj_id) (pw_cell_objs (pw_init_grid s)) = map (map_option obj_id) (pw_cell_objs s)"
    by (simp add: pw_init_grid_def)
qed

lemma pw_reset_cell_objs [simp]:
  "length (pw_cell_objs (pw_reset_cell y x s)) = length (pw_cell_objs s)"
  "map (map_option obj_id) (pw_cell_objs (pw_reset_cell y x s)) = map (map_option obj_id) (pw_cell_objs s)"
  by (simp_all add: pw_reset_cell_def Let_def upd_obj_ids)

lemma pw_reset_cells_objs [simp]:
  "length (pw_cell_objs (fold (\<lambda>y. fold (pw_reset_cell y) xs) ys s)) = length (pw_cell_objs s)"
  "map (map_option obj_id) (pw_cell_objs (fold (\<lambda>y. fold (pw_reset_cell y) xs) ys s))
     = map (map_option obj_id) (pw_cell_objs s)"
  by (rule fold_preserve, rule fold_preserve, simp)+

lemma pw_reset_ball_objs [simp]:
  "length (pw_ball_objs (pw_reset_ball i s)) = length (pw_ball_objs s)"
  "map (map_option obj_id) (pw_ball_objs (pw_reset_ball i s)) = map (map_option obj_id) (pw_ball_objs s)"
  by (simp_all add: pw_reset_ball_def pw_update_ball_display_def Let_def upd_obj_ids split: option.splits)

lemma pw_init_cell_same_objs:
  "same_objs recolored olds (pw_cell_objs s) \<Longrightarrow> same_objs recolored olds (pw_cell_objs (pw_init_cell y x s))"
  by (simp add: pw_init_cell_def Let_def same_objs_upd_obj)

lemma pw_init_grid_same_objs:
  assumes "same_objs recolored olds (pw_cell_objs s)"
  shows "same_objs recolored olds (pw_cell_objs (pw_init_grid s))"
  unfolding pw_init_grid_def
  by (rule fold_invariant [where P = "\<lambda>t. same_objs recolored olds (pw_cell_objs t)"],
      rule fold_invariant [where P = "\<lambda>t. same_objs recolored olds (pw_cell_objs t)"],
      erule pw_init_cell_same_objs, assumption) (simp add: assms)

lemma pw_reset_cells_same_objs:
  assumes "same_objs recolored olds (pw_cell_objs s)"
  shows "same_objs recolored olds (pw_cell_objs (fold (\<lambda>y. fold (pw_reset_cell y) xs) ys s))"
  by (rule fold_invariant [where P = "\<lambda>t. same_objs recolored olds (pw_cell_objs t)"],
      rule fold_invariant [where P = "\<lambda>t. same_objs recolored olds (pw_cell_objs t)"],
      simp add: pw_reset_cell_def Let_def same_objs_upd_obj, assumption) (rule assms)

lemma pw_reset_ball_same_objs:
  "same_objs recolored_moved olds (pw_ball_objs s) \<Longrightarrow>
   same_objs recolored_moved olds (pw_ball_objs (pw_reset_ball i s))"
  by (simp add: pw_reset_ball_def pw_update_ball_display_def Let_def same_objs_upd_obj split: option.splits)

lemma pw_reset_balls_same_objs:
  assumes "same_objs recolored_moved olds (pw_ball_objs s)"
  shows "same_objs recolored_moved olds (pw_ball_objs (fold pw_reset_ball is s))"
  by (rule fold_invariant [where P = "\<lambda>t. same_objs recolored_moved olds (pw_ball_objs t)"],
      erule pw_reset_ball_same_objs) (rule assms)

text \<open>
  Claim C7. In a running simulation whose arena exists (the tap handler that calls
  \<^verbatim>\<open>pw_reset_game\<close> is registered on the arena) and whose arrays have their declared
  sizes, the reset gives an initial state: in every row the six left cells belong to team
  0 and the six right cells to team 1, both scores are 54, the base speed lies between 40
  and 60, the four colours are one row of the palette table, ball 0 of team 0 starts at
  (60, 90) and ball 1 of team 1 at (180, 90), and the simulation runs again. The cell and
  ball pointers hold the same objects as before, as does the arena pointer: nothing is
  allocated or freed. A cell object differs from what it was in its background colour at
  most, a ball object in its background colour and position. The palette table has six rows.
\<close>

theorem pw_reset_game_valid:
  assumes "pw_initialized s" and "pw_arena_container s \<noteq> None" and "pw_wf s"
  shows "(\<forall>y<PW_GRID_H. \<forall>x<PW_GRID_W.
            pw_grid (pw_reset_game u s) ! (y * PW_GRID_W + x) = (if x < 6 then 0 else 1)) \<and>
         pw_score1 (pw_reset_game u s) = 54 \<and> pw_score2 (pw_reset_game u s) = 54 \<and>
         40 \<le> sint (pw_base_speed (pw_reset_game u s)) \<and> sint (pw_base_speed (pw_reset_game u s)) \<le> 60 \<and>
         [pw_color_team1 (pw_reset_game u s), pw_color_team2 (pw_reset_game u s),
          pw_color_ball1 (pw_reset_game u s), pw_color_ball2 (pw_reset_game u s)] \<in> set pw_color_palettes \<and>
         sint (ball_x (pw_balls (pw_reset_game u s) ! 0)) = 60 \<and>
         sint (ball_y (pw_balls (pw_reset_game u s) ! 0)) = 90 \<and>
         ball_team (pw_balls (pw_reset_game u s) ! 0) = 0 \<and>
         sint (ball_x (pw_balls (pw_reset_game u s) ! 1)) = 180 \<and>
         sint (ball_y (pw_balls (pw_reset_game u s) ! 1)) = 90 \<and>
         ball_team (pw_balls (pw_reset_game u s) ! 1) = 1 \<and>
         map (map_option obj_id) (pw_cell_objs (pw_reset_game u s)) = map (map_option obj_id) (pw_cell_objs s) \<and>
         map (map_option obj_id) (pw_ball_objs (pw_reset_game u s)) = map (map_option obj_id) (pw_ball_objs s) \<and>
         same_objs recolored (pw_cell_objs s) (pw_cell_objs (pw_reset_game u s)) \<and>
         same_objs recolored_moved (pw_ball_objs s) (pw_ball_objs (pw_reset_game u s)) \<and>
         pw_arena_container (pw_reset_game u s) = pw_arena_container s \<and>
         length pw_color_palettes = 6 \<and>
         pw_initialized (pw_reset_game u s) \<and> pw_wf (pw_reset_game u s)"
proof -
  define t where "t = (if pw_timer s \<noteq> None then s\<lparr>pw_initialized := False, pw_timer := None\<rparr>
                       else s\<lparr>pw_initialized := False\<rparr>)"
  define g where "g = pw_init_balls u (pw_init_grid t)"
  define c where "c = fold pw_reset_ball [0..<PW_NUM_BALLS]
                        (fold (\<lambda>y. fold (pw_reset_cell y) [0..<PW_GRID_W]) [0..<PW_GRID_H] g)"
  define l where "l = c\<lparr>pw_score_label1 :=
                       map_option (\<lambda>l. l\<lparr>obj_text_color := lv_color_hex (pw_color_ball1 c),
                                           obj_bg_color := lv_color_hex (pw_color_team1 c)\<rparr>)
                         (pw_score_label1 c)\<rparr>"
  define m where "m = l\<lparr>pw_score_label2 :=
                       map_option (\<lambda>k. k\<lparr>obj_text_color := lv_color_hex (pw_color_ball2 l),
                                           obj_bg_color := lv_color_hex (pw_color_team2 l)\<rparr>)
                         (pw_score_label2 l)\<rparr>"
  from assms(2) obtain a where a: "pw_arena_container s = Some a" by auto
  have r: "pw_reset_game u s = (pw_update_score m)\<lparr>pw_initialized := True, pw_timer := Some 33\<rparr>"
    using assms(1) a by (simp add: pw_reset_game_def Let_def t_def g_def c_def l_def m_def)
  have t: "pw_grid t = pw_grid s" "pw_cell_objs t = pw_cell_objs s" "pw_ball_objs t = pw_ball_objs s"
    "pw_balls t = pw_balls s" "pw_arena_container t = pw_arena_container s"
    by (simp_all add: t_def)
  from assms(3) have wf: "length (pw_grid s) = PW_NUM_CELLS" "length (pw_cell_objs s) = PW_NUM_CELLS"
    "length (pw_ball_objs s) = PW_NUM_BALLS" "length (pw_balls s) = PW_NUM_BALLS"
    by (simp_all add: pw_wf_def)
  have c_eq: "pw_grid c = pw_grid g" "pw_score1 c = pw_score1 g" "pw_score2 c = pw_score2 g"
    "pw_base_speed c = pw_base_speed g" "pw_balls c = pw_balls g"
    "pw_color_team1 c = pw_color_team1 g" "pw_color_team2 c = pw_color_team2 g"
    "pw_color_ball1 c = pw_color_ball1 g" "pw_color_ball2 c = pw_color_ball2 g"
    by (simp_all add: c_def upt_balls)
  have c_objs: "map (map_option obj_id) (pw_cell_objs c) = map (map_option obj_id) (pw_cell_objs g)"
    "map (map_option obj_id) (pw_ball_objs c) = map (map_option obj_id) (pw_ball_objs g)"
    by (simp_all add: c_def upt_balls)
  have cells_same: "same_objs recolored (pw_cell_objs s) (pw_cell_objs c)"
  proof -
    have "same_objs recolored (pw_cell_objs s) (pw_cell_objs t)"
      by (simp add: t same_objs_refl)
    then have "same_objs recolored (pw_cell_objs s) (pw_cell_objs (pw_init_grid t))"
      by (rule pw_init_grid_same_objs)
    then have "same_objs recolored (pw_cell_objs s) (pw_cell_objs g)"
      by (simp add: g_def)
    then have "same_objs recolored (pw_cell_objs s)
        (pw_cell_objs (fold (\<lambda>y. fold (pw_reset_cell y) [0..<PW_GRID_W]) [0..<PW_GRID_H] g))"
      by (rule pw_reset_cells_same_objs)
    then show ?thesis
      by (simp add: c_def upt_balls)
  qed
  have balls_same: "same_objs recolored_moved (pw_ball_objs s) (pw_ball_objs c)"
  proof -
    have "same_objs recolored_moved (pw_ball_objs s)
        (pw_ball_objs (fold (\<lambda>y. fold (pw_reset_cell y) [0..<PW_GRID_W]) [0..<PW_GRID_H] g))"
      by (simp add: g_def t same_objs_refl)
    then show ?thesis
      unfolding c_def by (rule pw_reset_balls_same_objs)
  qed
  have pal: "length pw_color_palettes = 6"
    by (simp add: pw_color_palettes_def)
  have c_arena: "pw_arena_container c = pw_arena_container s"
  proof -
    have "pw_arena_container (pw_init_grid t) = pw_arena_container t"
      unfolding pw_init_grid_def
      by (rule trans [OF fold_preserve [where g = pw_arena_container]])
         (rule fold_preserve, simp_all add: pw_init_cell_def Let_def)
    then have "pw_arena_container g = pw_arena_container s"
      by (simp add: g_def t pw_init_balls_def Let_def split_beta pw_rand_snd upt_balls
            pw_select_random_palette_def pw_init_ball_def)
    moreover have "pw_arena_container c = pw_arena_container g"
      unfolding c_def
      by (rule trans [OF fold_preserve [where g = pw_arena_container]])
         (simp add: pw_reset_ball_def pw_update_ball_display_def Let_def split: option.splits,
          rule fold_preserve, rule fold_preserve, simp add: pw_reset_cell_def Let_def)
    ultimately show ?thesis by simp
  qed
  have fin: "pw_grid (pw_reset_game u s) = pw_grid g" "pw_score1 (pw_reset_game u s) = pw_score1 g"
    "pw_score2 (pw_reset_game u s) = pw_score2 g" "pw_base_speed (pw_reset_game u s) = pw_base_speed g"
    "pw_balls (pw_reset_game u s) = pw_balls g"
    "pw_color_team1 (pw_reset_game u s) = pw_color_team1 g" "pw_color_team2 (pw_reset_game u s) = pw_color_team2 g"
    "pw_color_ball1 (pw_reset_game u s) = pw_color_ball1 g" "pw_color_ball2 (pw_reset_game u s) = pw_color_ball2 g"
    "pw_cell_objs (pw_reset_game u s) = pw_cell_objs c" "pw_ball_objs (pw_reset_game u s) = pw_ball_objs c"
    "pw_arena_container (pw_reset_game u s) = pw_arena_container s"
    "pw_initialized (pw_reset_game u s)"
    by (simp_all add: r m_def l_def c_eq c_arena pw_update_score_def Let_def split: option.splits)
  have grid: "pw_grid g ! (y * PW_GRID_W + x) = (if x < 6 then 0 else 1)"
    if "y < PW_GRID_H" "x < PW_GRID_W" for y x
  proof -
    from that have "y \<le> 8" "x \<le> 11" by (simp_all add: PW_GRID_H_def PW_GRID_W_def)
    then have "y * 12 + x < 108" by linarith
    then have "y * PW_GRID_W + x < PW_NUM_CELLS"
      by (simp add: PW_NUM_CELLS_def PW_GRID_W_def PW_GRID_H_def)
    with wf(1) have "pw_grid (pw_init_grid t) ! (y * PW_GRID_W + x) = pw_cell_value (y * PW_GRID_W + x)"
      by (intro pw_init_grid_nth) (simp_all add: t)
    with that(2) show ?thesis
      by (simp add: g_def pw_cell_value_def PW_GRID_W_def)
  qed
  have scores: "pw_score1 g = 54 \<and> pw_score2 g = 54"
    using pw_init_grid_scores [of t] wf(1) by (simp add: g_def t)
  have balls: "length (pw_balls (pw_init_grid t)) = PW_NUM_BALLS"
    using wf(4) by (simp add: t)
  have wf': "pw_wf (pw_reset_game u s)"
    using wf c_objs [THEN arg_cong, of length]
    by (simp add: pw_wf_def fin g_def t c_def upt_balls)
  from grid scores pw_init_balls_speed [of u "pw_init_grid t"] pw_init_balls_palette [of u "pw_init_grid t"]
    pw_init_balls_start [OF balls, of u] c_objs wf' cells_same balls_same pal
  show ?thesis
    by (simp add: fin g_def [symmetric]) (simp add: g_def t)
qed

text \<open>The reset of the running simulation on the boot values, at uptime 7.\<close>

theorem pw_reset_game_valid_witness:
  "pw_score1 (pw_reset_game 7 pw_running) = 54 \<and> pw_score2 (pw_reset_game 7 pw_running) = 54 \<and>
   map (map_option obj_id) (pw_cell_objs (pw_reset_game 7 pw_running))
     = map (map_option obj_id) (pw_cell_objs pw_running) \<and>
   [pw_color_team1 (pw_reset_game 7 pw_running), pw_color_team2 (pw_reset_game 7 pw_running),
    pw_color_ball1 (pw_reset_game 7 pw_running), pw_color_ball2 (pw_reset_game 7 pw_running)]
     \<in> set pw_color_palettes"
proof -
  have h: "pw_initialized pw_running" "pw_arena_container pw_running \<noteq> None" "pw_wf pw_running"
    by (simp_all add: pw_running_def pw_boot_def pw_wf_def)
  from pw_reset_game_valid [OF h, of 7] show ?thesis by blast
qed

subsection \<open>Scores and cells\<close>

text \<open>
  The scores count the cells of each team: the invariant \<open>pw_inv\<close> holds after
  \<^verbatim>\<open>pw_init_grid\<close> and is kept by every operation, so both scores stay between 0 and 108.
\<close>

lemma count_list_update:
  "i < length xs \<Longrightarrow>
   int (length (filter P (xs[i := v])))
     = int (length (filter P xs)) + (if P v then 1 else 0) - (if P (xs ! i) then 1 else 0)"
proof (induction xs arbitrary: i)
  case Nil
  then show ?case by simp
next
  case (Cons x xs)
  show ?case
  proof (cases i)
    case 0
    then show ?thesis by simp
  next
    case (Suc n)
    with Cons.prems have "n < length xs" by simp
    from Cons.IH [OF this] Suc show ?thesis by (simp split: if_splits)
  qed
qed

lemma pw_cell_value_cases: "pw_cell_value j = 0 \<or> pw_cell_value j = 1"
  by (simp add: pw_cell_value_def)

lemma pw_init_grid_eq:
  assumes "length (pw_grid s) = PW_NUM_CELLS"
  shows "pw_grid (pw_init_grid s) = map pw_cell_value [0..<PW_NUM_CELLS]"
  using assms by (intro nth_equalityI) (simp_all add: pw_init_grid_nth)

lemma pw_split_count:
  "length (filter ((\<lambda>c. c = 0) \<circ> pw_cell_value) [0..<PW_NUM_CELLS]) = 54"
  "length (filter ((\<lambda>c. c = 1) \<circ> pw_cell_value) [0..<PW_NUM_CELLS]) = 54"
  by (simp_all add: PW_NUM_CELLS_def PW_GRID_W_def PW_GRID_H_def pw_cell_value_def upt_rec)

lemma pw_inv_init_grid:
  assumes "pw_wf s" and "list_all (\<lambda>b. ball_team b = 0 \<or> ball_team b = 1) (pw_balls s)"
  shows "pw_inv (pw_init_grid s)"
proof -
  from assms(1) have len: "length (pw_grid s) = PW_NUM_CELLS" by (simp add: pw_wf_def)
  have "list_all (\<lambda>c. c = 0 \<or> c = 1) (map pw_cell_value [0..<PW_NUM_CELLS])"
    by (simp add: list_all_iff pw_cell_value_cases)
  with assms pw_init_grid_scores [OF len] show ?thesis
    by (simp add: pw_inv_def pw_wf_def pw_cells_of_def pw_init_grid_eq [OF len] pw_split_count)
qed

lemma pw_inv_bounds:
  assumes "pw_inv s"
  shows "0 \<le> pw_score1 s \<and> pw_score1 s \<le> 108 \<and> 0 \<le> pw_score2 s \<and> pw_score2 s \<le> 108"
proof -
  have "length (filter P (pw_grid s)) \<le> length (pw_grid s)" for P
    by (rule length_filter_le)
  with assms have "length (filter P (pw_grid s)) \<le> 108" for P
    by (simp add: pw_inv_def pw_wf_def PW_NUM_CELLS_def PW_GRID_W_def PW_GRID_H_def)
  from this [of "\<lambda>c. c = 0"] this [of "\<lambda>c. c = 1"] assms show ?thesis
    by (simp add: pw_inv_def pw_cells_of_def)
qed

lemma pw_convert_cell_state:
  "pw_grid (snd (pw_convert_cell gx gy b s)) = (pw_grid s)[nat (gy * int PW_GRID_W + gx) := ball_team b]"
  "pw_score1 (snd (pw_convert_cell gx gy b s)) = (if ball_team b = 0 then pw_score1 s + 1 else pw_score1 s - 1)"
  "pw_score2 (snd (pw_convert_cell gx gy b s)) = (if ball_team b = 0 then pw_score2 s - 1 else pw_score2 s + 1)"
  "length (pw_cell_objs (snd (pw_convert_cell gx gy b s))) = length (pw_cell_objs s)"
  "pw_ball_objs (snd (pw_convert_cell gx gy b s)) = pw_ball_objs s"
  by (simp_all add: pw_convert_cell_def Let_def split_beta pw_rand_snd pw_update_cell_color_def)

lemma pw_inv_convert_cell:
  assumes inv: "pw_inv s" and team: "ball_team b = 0 \<or> ball_team b = 1"
    and gx: "0 \<le> gx" "gx < int PW_GRID_W" and gy: "0 \<le> gy" "gy < int PW_GRID_H"
    and ne: "pw_grid s ! nat (gy * int PW_GRID_W + gx) \<noteq> ball_team b"
  shows "pw_inv (snd (pw_convert_cell gx gy b s))"
proof -
  define idx where "idx = nat (gy * int PW_GRID_W + gx)"
  from gx gy have "gy \<le> 8" "gx \<le> 11" by (simp_all add: PW_GRID_W_def PW_GRID_H_def)
  with gx(1) gy(1) have "gy * 12 + gx < 108" "0 \<le> gy * 12 + gx" by linarith+
  with inv have idx: "idx < length (pw_grid s)"
    by (simp add: idx_def pw_inv_def pw_wf_def PW_NUM_CELLS_def PW_GRID_W_def PW_GRID_H_def)
  from inv have cells: "list_all (\<lambda>c. c = 0 \<or> c = 1) (pw_grid s)" by (simp add: pw_inv_def)
  with idx have old: "pw_grid s ! idx = 0 \<or> pw_grid s ! idx = 1"
    by (simp add: list_all_length)
  from cells team have cells': "list_all (\<lambda>c. c = 0 \<or> c = 1) ((pw_grid s)[idx := ball_team b])"
    by (auto simp: list_all_iff dest!: set_update_subset_insert [THEN subsetD])
  have c0: "int (length (filter (\<lambda>c. c = 0) ((pw_grid s)[idx := ball_team b])))
      = int (length (filter (\<lambda>c. c = 0) (pw_grid s))) + (if ball_team b = 0 then 1 else 0)
          - (if pw_grid s ! idx = 0 then 1 else 0)"
    by (rule count_list_update [OF idx])
  have c1: "int (length (filter (\<lambda>c. c = 1) ((pw_grid s)[idx := ball_team b])))
      = int (length (filter (\<lambda>c. c = 1) (pw_grid s))) + (if ball_team b = 1 then 1 else 0)
          - (if pw_grid s ! idx = 1 then 1 else 0)"
    by (rule count_list_update [OF idx])
  from inv team old ne cells' c0 c1 show ?thesis
    unfolding idx_def [symmetric]
    by (auto simp: pw_inv_def pw_wf_def pw_cells_of_def pw_convert_cell_state idx_def [symmetric])
qed

lemma pw_inv_step_ball:
  assumes "pw_inv s" and "i < PW_NUM_BALLS"
  shows "pw_inv (pw_step_ball i s)"
proof -
  define b where "b = pw_balls s ! i"
  define bx where "bx = pw_bounce PW_ARENA_W (sint (ball_x b) + sint (ball_dx b) sdiv 10) (ball_dx b)"
  define by' where "by' = pw_bounce PW_ARENA_H (sint (ball_y b) + sint (ball_dy b) sdiv 10) (ball_dy b)"
  define b1 where "b1 = b\<lparr>ball_dx := snd bx, ball_dy := snd by'\<rparr>"
  define gx where "gx = fst bx sdiv PW_CELL_SIZE"
  define gy where "gy = fst by' sdiv PW_CELL_SIZE"
  define hit where "hit \<longleftrightarrow> gx \<ge> 0 \<and> gx < int PW_GRID_W \<and> gy \<ge> 0 \<and> gy < int PW_GRID_H
                       \<and> pw_grid s ! nat (gy * int PW_GRID_W + gx) \<noteq> ball_team b1"
  define r where "r = (if hit then pw_convert_cell gx gy b1 s else (b1, s))"
  define b2 where "b2 = (fst r)\<lparr>ball_x := word_of_int (fst bx), ball_y := word_of_int (fst by')\<rparr>"
  have step: "pw_step_ball i s = pw_update_ball_display i ((snd r)\<lparr>pw_balls := (pw_balls (snd r))[i := b2]\<rparr>)"
    by (simp add: pw_step_ball_def Let_def split_beta b_def bx_def by'_def b1_def gx_def gy_def
          hit_def r_def b2_def)
  from assms have i: "i < length (pw_balls s)" by (simp add: pw_inv_def pw_wf_def)
  from assms(1) have teams: "list_all (\<lambda>b. ball_team b = 0 \<or> ball_team b = 1) (pw_balls s)"
    by (simp add: pw_inv_def)
  with i have tb: "ball_team b = 0 \<or> ball_team b = 1"
    by (simp add: list_all_length b_def)
  then have tb1: "ball_team b1 = 0 \<or> ball_team b1 = 1" by (simp add: b1_def)
  have inv_r: "pw_inv (snd r)"
  proof (cases hit)
    case True
    with assms(1) tb1 show ?thesis
      unfolding r_def hit_def by (simp add: pw_inv_convert_cell)
  next
    case False
    with assms(1) show ?thesis by (simp add: r_def)
  qed
  have balls_r: "pw_balls (snd r) = pw_balls s" by (simp add: r_def)
  have tb2: "ball_team b2 = 0 \<or> ball_team b2 = 1"
    using tb1 by (simp add: b2_def r_def)
  from teams tb2 have "list_all (\<lambda>b. ball_team b = 0 \<or> ball_team b = 1) ((pw_balls s)[i := b2])"
    by (auto simp: list_all_iff dest!: set_update_subset_insert [THEN subsetD])
  with inv_r balls_r show ?thesis
    by (simp add: step pw_inv_def pw_wf_def pw_cells_of_def pw_update_ball_display_def)
qed

lemma pw_inv_step: "pw_inv s \<Longrightarrow> pw_inv (pw_step s)"
proof -
  have "0 < PW_NUM_BALLS" "1 < PW_NUM_BALLS" by (simp_all add: PW_NUM_BALLS_def)
  then show "pw_inv s \<Longrightarrow> ?thesis"
    by (simp add: pw_step_def upt_balls pw_inv_step_ball)
qed


lemma pw_inv_cong:
  assumes "pw_inv s" and "pw_grid t = pw_grid s" and "pw_score1 t = pw_score1 s"
    and "pw_score2 t = pw_score2 s" and "pw_balls t = pw_balls s"
    and "length (pw_cell_objs t) = length (pw_cell_objs s)"
    and "length (pw_ball_objs t) = length (pw_ball_objs s)"
  shows "pw_inv t"
  using assms by (simp add: pw_inv_def pw_wf_def pw_cells_of_def)

lemma pw_inv_update_score: "pw_inv s \<Longrightarrow> pw_inv (pw_update_score s)"
  by (erule pw_inv_cong) simp_all

lemma pw_inv_timer_cb: "pw_inv s \<Longrightarrow> pw_inv (pw_timer_cb s)"
proof -
  assume inv: "pw_inv s"
  then have "pw_inv (s\<lparr>pw_frame_count := pw_frame_count s + 1\<rparr>)"
    by (rule pw_inv_cong) simp_all
  then have "pw_inv (pw_step (s\<lparr>pw_frame_count := pw_frame_count s + 1\<rparr>))"
    by (rule pw_inv_step)
  with inv show ?thesis
    by (simp add: pw_timer_cb_def Let_def pw_inv_update_score)
qed

lemma pw_inv_init_balls:
  assumes "pw_inv s"
  shows "pw_inv (pw_init_balls u s)"
proof -
  from assms have len: "length (pw_balls s) = PW_NUM_BALLS" by (simp add: pw_inv_def pw_wf_def)
  have "ball_team (pw_balls (pw_init_balls u s) ! j) = 0 \<or> ball_team (pw_balls (pw_init_balls u s) ! j) = 1"
    if "j < 2" for j
  proof -
    from that have "j = 0 \<or> j = 1" by auto
    with pw_init_balls_start [OF len, of u] show ?thesis by auto
  qed
  with len have "list_all (\<lambda>b. ball_team b = 0 \<or> ball_team b = 1) (pw_balls (pw_init_balls u s))"
    by (simp add: list_all_length PW_NUM_BALLS_def)
  with assms show ?thesis
    by (simp add: pw_inv_def pw_wf_def pw_cells_of_def)
qed

lemma pw_reset_balls_fields [simp]:
  "pw_score1 (fold pw_reset_ball is s) = pw_score1 s"
  "pw_score2 (fold pw_reset_ball is s) = pw_score2 s"
  "pw_grid (fold pw_reset_ball is s) = pw_grid s"
  "pw_balls (fold pw_reset_ball is s) = pw_balls s"
  "length (pw_cell_objs (fold pw_reset_ball is s)) = length (pw_cell_objs s)"
  "length (pw_ball_objs (fold pw_reset_ball is s)) = length (pw_ball_objs s)"
  by (rule fold_preserve, simp)+

lemma pw_inv_reset_game:
  assumes "pw_inv s"
  shows "pw_inv (pw_reset_game u s)"
proof (cases "pw_initialized s \<and> pw_arena_container s \<noteq> None")
  case False
  with assms show ?thesis by (auto simp: pw_reset_game_def)
next
  case True
  define t where "t = (if pw_timer s \<noteq> None then s\<lparr>pw_initialized := False, pw_timer := None\<rparr>
                       else s\<lparr>pw_initialized := False\<rparr>)"
  define g where "g = pw_init_balls u (pw_init_grid t)"
  define c where "c = fold pw_reset_ball [0..<PW_NUM_BALLS]
                        (fold (\<lambda>y. fold (pw_reset_cell y) [0..<PW_GRID_W]) [0..<PW_GRID_H] g)"
  from assms have "pw_wf t" "list_all (\<lambda>b. ball_team b = 0 \<or> ball_team b = 1) (pw_balls t)"
    by (simp_all add: pw_inv_def pw_wf_def t_def)
  then have "pw_inv g"
    unfolding g_def by (intro pw_inv_init_balls pw_inv_init_grid)
  then have "pw_inv c"
    by (rule pw_inv_cong) (simp_all add: c_def)
  from True obtain a where a: "pw_initialized s" "pw_arena_container s = Some a" by auto
  from \<open>pw_inv c\<close> show ?thesis
    by (rule pw_inv_cong) (simp_all add: pw_reset_game_def Let_def a t_def g_def c_def)
qed

lemma pw_inv_destroy: "pw_inv s \<Longrightarrow> pw_inv (destroy_pong_wars_widgets s)"
  by (simp add: destroy_pong_wars_widgets_def pw_inv_def pw_wf_def pw_cells_of_def)

lemma pw_init_cell_flags:
  "pw_initialized (pw_init_cell y x t) = pw_initialized t"
  "pw_arena_container (pw_init_cell y x t) = pw_arena_container t"
  by (simp_all add: pw_init_cell_def Let_def)

lemma pw_init_grid_flags:
  "pw_initialized (pw_init_grid s) = pw_initialized s"
  "pw_arena_container (pw_init_grid s) = pw_arena_container s"
proof -
  let ?s0 = "s\<lparr>pw_score1 := 0, pw_score2 := 0\<rparr>"
  have "pw_initialized (fold (\<lambda>y. fold (pw_init_cell y) [0..<PW_GRID_W]) [0..<PW_GRID_H] ?s0) = pw_initialized ?s0"
    by (rule fold_preserve, rule fold_preserve, simp add: pw_init_cell_flags)
  then show "pw_initialized (pw_init_grid s) = pw_initialized s" by (simp add: pw_init_grid_def)
  have "pw_arena_container (fold (\<lambda>y. fold (pw_init_cell y) [0..<PW_GRID_W]) [0..<PW_GRID_H] ?s0) = pw_arena_container ?s0"
    by (rule fold_preserve, rule fold_preserve, simp add: pw_init_cell_flags)
  then show "pw_arena_container (pw_init_grid s) = pw_arena_container s" by (simp add: pw_init_grid_def)
qed

lemma pw_step_ball_flags:
  "pw_initialized (pw_step_ball i s) = pw_initialized s"
  "pw_arena_container (pw_step_ball i s) = pw_arena_container s"
  "pw_frame_count (pw_step_ball i s) = pw_frame_count s"
  by (simp_all add: pw_step_ball_def Let_def split_beta pw_update_ball_display_def
      pw_convert_cell_def pw_rand_snd pw_update_cell_color_def)

lemma pw_timer_cb_flags:
  "pw_initialized (pw_timer_cb s) = pw_initialized s"
  "pw_arena_container (pw_timer_cb s) = pw_arena_container s"
  by (simp_all add: pw_timer_cb_def pw_step_def upt_balls pw_step_ball_flags Let_def
      pw_update_score_def split: option.splits)

text \<open>
  One ball's part of a tick when the wall clamp does not act: the ball comes to
  \<open>(nx, ny)\<close> in cell \<open>(gx, gy)\<close> and takes the cell when another team owns it.
\<close>

lemma pw_step_ball_free:
  assumes "pw_balls s ! i = b"
    and "sint (ball_x b) + sint (ball_dx b) sdiv 10 = nx" and "6 \<le> nx" and "nx \<le> 234"
    and "sint (ball_y b) + sint (ball_dy b) sdiv 10 = ny" and "6 \<le> ny" and "ny \<le> 174"
    and "nx div 20 = gx" and "ny div 20 = gy"
  shows "pw_score1 (pw_step_ball i s) =
           (if pw_grid s ! nat (gy * 12 + gx) \<noteq> ball_team b
            then (if ball_team b = 0 then pw_score1 s + 1 else pw_score1 s - 1) else pw_score1 s)"
    and "pw_grid (pw_step_ball i s) =
           (if pw_grid s ! nat (gy * 12 + gx) \<noteq> ball_team b
            then (pw_grid s)[nat (gy * 12 + gx) := ball_team b] else pw_grid s)"
proof -
  from assms have g: "0 \<le> gx" "gx < 12" "0 \<le> gy" "gy < 9" by auto
  from assms(3,6) have d: "nx sdiv 20 = nx div 20" "ny sdiv 20 = ny div 20"
    by (simp_all add: sdiv_nonneg)
  show "pw_score1 (pw_step_ball i s) =
           (if pw_grid s ! nat (gy * 12 + gx) \<noteq> ball_team b
            then (if ball_team b = 0 then pw_score1 s + 1 else pw_score1 s - 1) else pw_score1 s)"
    using assms g d
    by (simp add: pw_step_ball_def Let_def split_beta pw_bounce_def pw_convert_cell_state
        PW_ARENA_W_def PW_ARENA_H_def PW_BALL_RADIUS_def PW_CELL_SIZE_def PW_GRID_W_def PW_GRID_H_def)
  show "pw_grid (pw_step_ball i s) =
           (if pw_grid s ! nat (gy * 12 + gx) \<noteq> ball_team b
            then (pw_grid s)[nat (gy * 12 + gx) := ball_team b] else pw_grid s)"
    using assms g d
    by (simp add: pw_step_ball_def Let_def split_beta pw_bounce_def pw_convert_cell_state
        PW_ARENA_W_def PW_ARENA_H_def PW_BALL_RADIUS_def PW_CELL_SIZE_def PW_GRID_W_def PW_GRID_H_def)
qed

text \<open>
  The tick of the simulation in play, after the grid is split: the simulation runs, ball 0
  comes to x = 123 in column 6 and takes cell 54 from team 1, ball 1 stays on its own
  cells, so team 0 has 55 cells; the arena is still there for the tap.
\<close>

lemma pw_contested_tick:
  "pw_initialized (pw_init_grid pw_contested)"
  "pw_initialized (pw_timer_cb (pw_init_grid pw_contested))"
  "pw_arena_container (pw_timer_cb (pw_init_grid pw_contested)) \<noteq> None"
  "pw_score1 (pw_timer_cb (pw_init_grid pw_contested)) = 55"
proof -
  define s0 where "s0 = pw_init_grid pw_contested"
  have len: "length (pw_grid pw_contested) = PW_NUM_CELLS"
    by (simp add: pw_contested_def pw_running_def pw_boot_def)
  have g: "pw_grid s0 ! 54 = 1" "pw_grid s0 ! 56 = 1"
    unfolding s0_def
    using pw_init_grid_nth [OF len, of 54] pw_init_grid_nth [OF len, of 56]
    by (simp_all add: PW_NUM_CELLS_def PW_GRID_W_def PW_GRID_H_def pw_cell_value_def)
  have gl: "length (pw_grid s0) = 108"
    using len by (simp add: s0_def PW_NUM_CELLS_def PW_GRID_W_def PW_GRID_H_def)
  have sc: "pw_score1 s0 = 54"
    unfolding s0_def using pw_init_grid_scores [OF len] by simp
  have b: "pw_balls s0 ! 0 = \<lparr>ball_x = 118, ball_y = 90, ball_dx = 50, ball_dy = 0, ball_team = 0\<rparr>"
      "pw_balls s0 ! 1 = \<lparr>ball_x = 180, ball_y = 90, ball_dx = - 50, ball_dy = 0, ball_team = 1\<rparr>"
    by (simp_all add: s0_def pw_contested_def)
  have i: "pw_initialized s0" "pw_arena_container s0 \<noteq> None"
    by (simp_all add: s0_def pw_init_grid_flags pw_contested_def pw_running_def)
  define s1 where "s1 = pw_step_ball 0 (s0\<lparr>pw_frame_count := pw_frame_count s0 + 1\<rparr>)"
  have s1: "pw_score1 s1 = 55" "pw_grid s1 = (pw_grid s0)[54 := 0]"
    unfolding s1_def
    using pw_step_ball_free [of "s0\<lparr>pw_frame_count := pw_frame_count s0 + 1\<rparr>" 0
        "\<lparr>ball_x = 118, ball_y = 90, ball_dx = 50, ball_dy = 0, ball_team = 0\<rparr>" 123 90 6 4] b g sc
    by (simp_all add: sdiv_nonneg)
  have b1: "pw_balls s1 ! 1 = \<lparr>ball_x = 180, ball_y = 90, ball_dx = - 50, ball_dy = 0, ball_team = 1\<rparr>"
    unfolding s1_def using b by (simp add: pw_step_ball_other)
  have m5: "sint (- 50 :: int16_t) sdiv 10 = - 5"
    by (simp add: signed_divide_int_def)
  have s2: "pw_score1 (pw_step_ball 1 s1) = 55"
    using pw_step_ball_free [of s1 1
        "\<lparr>ball_x = 180, ball_y = 90, ball_dx = - 50, ball_dy = 0, ball_team = 1\<rparr>" 175 90 8 4] b1 g s1 gl m5
    by simp
  show "pw_initialized (pw_init_grid pw_contested)"
    using i by (simp add: s0_def)
  show "pw_initialized (pw_timer_cb (pw_init_grid pw_contested))"
    using i by (simp add: s0_def pw_timer_cb_flags)
  show "pw_arena_container (pw_timer_cb (pw_init_grid pw_contested)) \<noteq> None"
    using i by (simp add: s0_def pw_timer_cb_flags)
  show "pw_score1 (pw_timer_cb (pw_init_grid pw_contested)) = 55"
    using s2 i
    by (simp add: pw_timer_cb_def pw_step_def upt_balls Let_def s1_def s0_def pw_step_ball_flags)
qed

text \<open>
  The score sum in a running simulation. After the split of the simulation in play, the
  tick moves both balls and ball 0 converts a cell of team 1: team 0 has 55 cells, and by
  the sum team 1 has 53. The tap on the arena then resets the still running simulation,
  and the scores of the fresh split add up to 108 again.
\<close>

theorem pw_score_sum_invariant_witness:
  "pw_initialized (pw_init_grid pw_contested) \<and>
   pw_score1 (pw_timer_cb (pw_init_grid pw_contested)) = 55 \<and>
   pw_score2 (pw_timer_cb (pw_init_grid pw_contested)) = 53 \<and>
   pw_initialized (pw_timer_cb (pw_init_grid pw_contested)) \<and>
   pw_arena_container (pw_timer_cb (pw_init_grid pw_contested)) \<noteq> None \<and>
   pw_score1 (pw_reset_game 7 (pw_timer_cb (pw_init_grid pw_contested))) +
   pw_score2 (pw_reset_game 7 (pw_timer_cb (pw_init_grid pw_contested))) = 108"
  using pw_score_sum_invariant [OF pw_reach_tick [OF pw_reach_init], of pw_contested]
    pw_score_sum_invariant [OF pw_reach_reset [OF pw_reach_tick [OF pw_reach_init]], of 7 pw_contested]
    pw_contested_tick
  by simp

subsection \<open>Layer dial window\<close>

lemma update_layer_slide_slot_eq:
  "update_layer_slide_slot layer animate ws mx =
     (\<lambda>i. upd_obj i (\<lambda>obj. slide_slot_style i (ws + int i) (ws + int i = layer \<and> ws + int i \<ge> 0) animate mx
                        (obj\<lparr>obj_text := slide_slot_text 8 (ws + int i)\<rparr>)))"
  by (intro ext) (simp add: update_layer_slide_slot_def Let_def)

lemma slide_scroll_slot_eq:
  "slide_scroll_slot off =
     (\<lambda>i. upd_obj i (\<lambda>obj. obj\<lparr>obj_anims := filter (\<lambda>a. a = Pulse_anim) (obj_anims obj) @ [Scroll_anim off]\<rparr>))"
  by (intro ext) (simp add: slide_scroll_slot_def)

lemma slide_slot_style_text [simp]:
  "obj_text (slide_slot_style i n a an mx obj) = obj_text obj"
  by (simp add: slide_slot_style_def Let_def start_pulse_anim_def)

lemma slide_slot_style_negative:
  "n < 0 \<Longrightarrow> obj_text_opa (slide_slot_style i n a an mx obj) = LV_OPA_TRANSP"
  by (simp add: slide_slot_style_def)

lemma update_layer_slide_display_window:
  "layer_slide_window_start (update_layer_slide_display layer animate s)
     = slide_window layer (layer_slide_window_start s)"
  by (simp add: update_layer_slide_display_def Let_def slide_window_def slide_reset_positions_def)

lemma update_layer_slide_display_nth:
  assumes len: "length (layer_slide_labels s) = SLIDE_VISIBLE_COUNT" and i: "i < SLIDE_VISIBLE_COUNT"
  shows "\<exists>f. layer_slide_labels (update_layer_slide_display layer animate s) ! i
               = map_option f (layer_slide_labels s ! i) \<and>
             (\<forall>obj. obj_id (f obj) = obj_id obj \<and>
                obj_text (f obj) = slide_slot_text 8 (slide_window layer (layer_slide_window_start s) + int i) \<and>
                (slide_window layer (layer_slide_window_start s) + int i < 0 \<longrightarrow>
                   obj_text_opa (f obj) = LV_OPA_TRANSP))"
proof -
  define ws where "ws = slide_window layer (layer_slide_window_start s)"
  define mx where "mx = (if layer \<ge> uint (ds_layer_slide_max s) then word_of_int (layer + 1)
                         else ds_layer_slide_max s)"
  define G where "G = (\<lambda>i obj. slide_slot_style i (ws + int i) (ws + int i = layer \<and> ws + int i \<ge> 0) animate mx
                        (obj\<lparr>obj_text := slide_slot_text 8 (ws + int i)\<rparr>))"
  define P where "P = (\<lambda>i (obj::lv_obj). obj\<lparr>obj_x := slide_slot_x_pos i, obj_y := 105 + get_slide_slot_y_adj i\<rparr>)"
  define S where "S = (\<lambda>off (i::nat) (obj::lv_obj).
      obj\<lparr>obj_anims := filter (\<lambda>a. a = Pulse_anim) (obj_anims obj) @ [Scroll_anim off]\<rparr>)"
  define L1 where "L1 = fold (\<lambda>i. upd_obj i (G i)) [0..<SLIDE_VISIBLE_COUNT] (layer_slide_labels s)"
  define L2 where "L2 = fold (\<lambda>i. upd_obj i (P i)) [0..<SLIDE_VISIBLE_COUNT] L1"
  define off where "off = (ws - layer_slide_window_start s) * SLIDE_SLOT_SPACING"
  have "layer_slide_labels (update_layer_slide_display layer animate s)
      = (if (layer - layer_slide_window_start s < SLIDE_LARGE_ZONE_START \<or>
             layer - layer_slide_window_start s > SLIDE_LARGE_ZONE_END) \<and> animate \<and>
            ws - layer_slide_window_start s \<noteq> 0
         then fold (\<lambda>i. upd_obj i (S off i)) [0..<SLIDE_VISIBLE_COUNT] L2 else L2)"
    by (simp add: update_layer_slide_display_def Let_def slide_reset_positions_def
          update_layer_slide_slot_eq slide_scroll_slot_eq L2_def L1_def G_def P_def S_def ws_def mx_def
          slide_window_def off_def)
  then have cases: "layer_slide_labels (update_layer_slide_display layer animate s) = L2 \<or>
     layer_slide_labels (update_layer_slide_display layer animate s)
       = fold (\<lambda>i. upd_obj i (S off i)) [0..<SLIDE_VISIBLE_COUNT] L2"
    by (simp split: if_splits)
  from len i have n1: "L1 ! i = map_option (G i) (layer_slide_labels s ! i)"
    by (simp add: L1_def nth_fold_upd_obj_upt)
  from len i have n2: "L2 ! i = map_option (P i) (L1 ! i)"
    by (simp add: L2_def L1_def nth_fold_upd_obj_upt)
  from len i have n3: "fold (\<lambda>i. upd_obj i (S off i)) [0..<SLIDE_VISIBLE_COUNT] L2 ! i = map_option (S off i) (L2 ! i)"
    by (simp add: L2_def L1_def nth_fold_upd_obj_upt)
  have idG: "obj_id (G i obj) = obj_id obj" for obj
    by (simp add: G_def slide_slot_style_def Let_def start_pulse_anim_def)
  have textG: "obj_text (G i obj) = slide_slot_text 8 (ws + int i)" for obj
    by (simp add: G_def)
  have opaG: "ws + int i < 0 \<Longrightarrow> obj_text_opa (G i obj) = LV_OPA_TRANSP" for obj
    by (simp add: G_def slide_slot_style_negative)
  from cases show ?thesis
  proof
    assume "layer_slide_labels (update_layer_slide_display layer animate s) = L2"
    with n1 n2 have "layer_slide_labels (update_layer_slide_display layer animate s) ! i
        = map_option (P i \<circ> G i) (layer_slide_labels s ! i)"
      by (simp add: option.map_comp)
    moreover have "\<forall>obj. obj_id ((P i \<circ> G i) obj) = obj_id obj \<and>
        obj_text ((P i \<circ> G i) obj) = slide_slot_text 8 (ws + int i) \<and>
        (ws + int i < 0 \<longrightarrow> obj_text_opa ((P i \<circ> G i) obj) = LV_OPA_TRANSP)"
      using idG textG opaG by (simp add: P_def)
    ultimately show ?thesis unfolding ws_def by blast
  next
    assume "layer_slide_labels (update_layer_slide_display layer animate s)
       = fold (\<lambda>i. upd_obj i (S off i)) [0..<SLIDE_VISIBLE_COUNT] L2"
    with n1 n2 n3 have "layer_slide_labels (update_layer_slide_display layer animate s) ! i
        = map_option (S off i \<circ> P i \<circ> G i) (layer_slide_labels s ! i)"
      by (simp add: option.map_comp comp_assoc)
    moreover have "\<forall>obj. obj_id ((S off i \<circ> P i \<circ> G i) obj) = obj_id obj \<and>
        obj_text ((S off i \<circ> P i \<circ> G i) obj) = slide_slot_text 8 (ws + int i) \<and>
        (ws + int i < 0 \<longrightarrow> obj_text_opa ((S off i \<circ> P i \<circ> G i) obj) = LV_OPA_TRANSP)"
      using idG textG opaG by (simp add: P_def S_def)
    ultimately show ?thesis unfolding ws_def by blast
  qed
qed

text \<open>
  Claim C2. After \<^verbatim>\<open>update_layer_slide_display\<close> for a layer, from any window start and
  with the nine slot pointers of the dial, the slot of the active layer, layer minus
  window start, lies in the large zone 2..6. The window start is unchanged when that slot
  was in the zone before; otherwise the layer lands on the boundary slot it crossed, 2
  from below and 6 from above, and no window start that puts the layer in the zone is
  nearer to the old one. Every existing label whose layer number, window start plus slot,
  is negative shows the empty text at opacity \<^verbatim>\<open>LV_OPA_TRANSP\<close>.
\<close>

theorem layer_dial_window:
  assumes "length (layer_slide_labels s) = SLIDE_VISIBLE_COUNT"
  shows "SLIDE_LARGE_ZONE_START = 2 \<and> SLIDE_LARGE_ZONE_END = 6 \<and>
    SLIDE_LARGE_ZONE_START \<le> layer - layer_slide_window_start (update_layer_slide_display layer animate s) \<and>
    layer - layer_slide_window_start (update_layer_slide_display layer animate s) \<le> SLIDE_LARGE_ZONE_END \<and>
    (SLIDE_LARGE_ZONE_START \<le> layer - layer_slide_window_start s \<and>
     layer - layer_slide_window_start s \<le> SLIDE_LARGE_ZONE_END \<longrightarrow>
       layer_slide_window_start (update_layer_slide_display layer animate s) = layer_slide_window_start s) \<and>
    (layer - layer_slide_window_start s < SLIDE_LARGE_ZONE_START \<longrightarrow>
       layer - layer_slide_window_start (update_layer_slide_display layer animate s) = SLIDE_LARGE_ZONE_START) \<and>
    (layer - layer_slide_window_start s > SLIDE_LARGE_ZONE_END \<longrightarrow>
       layer - layer_slide_window_start (update_layer_slide_display layer animate s) = SLIDE_LARGE_ZONE_END) \<and>
    (\<forall>w. SLIDE_LARGE_ZONE_START \<le> layer - w \<and> layer - w \<le> SLIDE_LARGE_ZONE_END \<longrightarrow>
       \<bar>layer_slide_window_start (update_layer_slide_display layer animate s) - layer_slide_window_start s\<bar>
         \<le> \<bar>w - layer_slide_window_start s\<bar>) \<and>
    (\<forall>i<SLIDE_VISIBLE_COUNT. \<forall>obj.
       layer_slide_labels (update_layer_slide_display layer animate s) ! i = Some obj \<longrightarrow>
       layer_slide_window_start (update_layer_slide_display layer animate s) + int i < 0 \<longrightarrow>
       obj_text obj = [] \<and> obj_text_opa obj = LV_OPA_TRANSP)"
proof -
  let ?ws = "layer_slide_window_start s"
  let ?ws' = "layer_slide_window_start (update_layer_slide_display layer animate s)"
  have w: "?ws' = slide_window layer ?ws"
    by (rule update_layer_slide_display_window)
  have zone: "SLIDE_LARGE_ZONE_START = 2 \<and> SLIDE_LARGE_ZONE_END = 6"
    by (simp add: SLIDE_LARGE_ZONE_START_def SLIDE_LARGE_ZONE_END_def)
  have arith: "SLIDE_LARGE_ZONE_START \<le> layer - ?ws' \<and> layer - ?ws' \<le> SLIDE_LARGE_ZONE_END \<and>
    (SLIDE_LARGE_ZONE_START \<le> layer - ?ws \<and> layer - ?ws \<le> SLIDE_LARGE_ZONE_END \<longrightarrow> ?ws' = ?ws) \<and>
    (layer - ?ws < SLIDE_LARGE_ZONE_START \<longrightarrow> layer - ?ws' = SLIDE_LARGE_ZONE_START) \<and>
    (layer - ?ws > SLIDE_LARGE_ZONE_END \<longrightarrow> layer - ?ws' = SLIDE_LARGE_ZONE_END)"
    unfolding w by (simp add: slide_window_def SLIDE_LARGE_ZONE_START_def SLIDE_LARGE_ZONE_END_def)
  have least: "\<bar>?ws' - ?ws\<bar> \<le> \<bar>w - ?ws\<bar>"
    if "SLIDE_LARGE_ZONE_START \<le> layer - w \<and> layer - w \<le> SLIDE_LARGE_ZONE_END" for w
    using that unfolding w
    by (simp add: slide_window_def SLIDE_LARGE_ZONE_START_def SLIDE_LARGE_ZONE_END_def)
  have empty: "obj_text obj = [] \<and> obj_text_opa obj = LV_OPA_TRANSP"
    if i: "i < SLIDE_VISIBLE_COUNT"
      and obj: "layer_slide_labels (update_layer_slide_display layer animate s) ! i = Some obj"
      and neg: "?ws' + int i < 0" for i obj
  proof -
    from update_layer_slide_display_nth [OF assms i, of layer animate]
    obtain f where f: "layer_slide_labels (update_layer_slide_display layer animate s) ! i
               = map_option f (layer_slide_labels s ! i)"
      and p: "\<And>obj. obj_text (f obj) = slide_slot_text 8 (slide_window layer ?ws + int i) \<and>
                (slide_window layer ?ws + int i < 0 \<longrightarrow> obj_text_opa (f obj) = LV_OPA_TRANSP)"
      by blast
    from f obj obtain old where "obj = f old" by (cases "layer_slide_labels s ! i") auto
    with p [of old] neg show ?thesis
      by (simp add: w slide_slot_text_def)
  qed
  from zone arith least empty show ?thesis by blast
qed

text \<open>
  On the dial with window start -2: layer 9 moves the window start to 3, and for layer 0
  the label of slot 0, layer number -2, is empty and transparent.
\<close>

theorem layer_dial_window_witness:
  "layer_slide_window_start (update_layer_slide_display 9 True main_dial) = 3 \<and>
   (\<exists>obj. layer_slide_labels (update_layer_slide_display 0 False main_dial) ! 0 = Some obj \<and>
      obj_text obj = [] \<and> obj_text_opa obj = LV_OPA_TRANSP)"
proof -
  have len: "length (layer_slide_labels main_dial) = SLIDE_VISIBLE_COUNT"
    by (simp add: main_dial_def)
  have ws: "layer_slide_window_start main_dial = - 2"
    by (simp add: main_dial_def)
  have a: "layer_slide_window_start (update_layer_slide_display 9 True main_dial) = 3"
    using layer_dial_window [OF len, of 9 True] by (elim conjE) (simp add: ws)
  have b: "layer_slide_window_start (update_layer_slide_display 0 False main_dial) = - 2"
    using layer_dial_window [OF len, of 0 False] by (elim conjE) (simp add: ws)
  have pos: "0 < SLIDE_VISIBLE_COUNT" by (simp add: SLIDE_VISIBLE_COUNT_def)
  have "layer_slide_labels main_dial ! 0 = Some (lv_obj_new 0)"
    by (simp add: main_dial_def SLIDE_VISIBLE_COUNT_def)
  with update_layer_slide_display_nth [OF len pos, of 0 False]
  obtain obj where lab: "layer_slide_labels (update_layer_slide_display 0 False main_dial) ! 0 = Some obj"
    by auto
  have "\<forall>i<SLIDE_VISIBLE_COUNT. \<forall>obj.
       layer_slide_labels (update_layer_slide_display 0 False main_dial) ! i = Some obj \<longrightarrow>
       layer_slide_window_start (update_layer_slide_display 0 False main_dial) + int i < 0 \<longrightarrow>
       obj_text obj = [] \<and> obj_text_opa obj = LV_OPA_TRANSP"
    using layer_dial_window [OF len, of 0 False] by (elim conjE) assumption
  from this [rule_format, OF pos lab] b lab
  have "\<exists>obj. layer_slide_labels (update_layer_slide_display 0 False main_dial) ! 0 = Some obj \<and>
      obj_text obj = [] \<and> obj_text_opa obj = LV_OPA_TRANSP"
    by simp
  with a show ?thesis by blast
qed

lemma create_layer_slide_slot_fields [simp]:
  "layer_slide_window_start (create_layer_slide_slot y i s) = layer_slide_window_start s"
  "active_layer (create_layer_slide_slot y i s) = active_layer s"
  "ds_layer_slide_max (create_layer_slide_slot y i s) = ds_layer_slide_max s"
  "length (layer_slide_labels (create_layer_slide_slot y i s)) = length (layer_slide_labels s)"
  by (simp_all add: create_layer_slide_slot_def lv_label_create_def Let_def)

lemma create_layer_slide_slot_nth:
  assumes "j < length (layer_slide_labels s)"
  shows "layer_slide_labels (create_layer_slide_slot y i s) ! j =
           (if j = i
            then Some ((slide_slot_style i (layer_slide_window_start s + int i)
                          (layer_slide_window_start s + int i = active_layer s \<and>
                           layer_slide_window_start s + int i \<ge> 0) False (ds_layer_slide_max s)
                          ((lv_obj_new (lv_next_id s))\<lparr>obj_text := ''Text'', obj_font := get_slide_slot_font i,
                             obj_width := get_slide_label_width i\<rparr>))
                       \<lparr>obj_text := slide_slot_text 12 (layer_slide_window_start s + int i),
                         obj_x := slide_slot_x_pos i, obj_y := y + get_slide_slot_y_adj i\<rparr>)
            else layer_slide_labels s ! j)"
  using assms by (simp add: create_layer_slide_slot_def lv_label_create_def Let_def)

lemma create_layer_slide_slots_fields [simp]:
  "layer_slide_window_start (fold (create_layer_slide_slot y) is s) = layer_slide_window_start s"
  "active_layer (fold (create_layer_slide_slot y) is s) = active_layer s"
  "ds_layer_slide_max (fold (create_layer_slide_slot y) is s) = ds_layer_slide_max s"
  "length (layer_slide_labels (fold (create_layer_slide_slot y) is s)) = length (layer_slide_labels s)"
  by (rule fold_preserve, simp)+

lemma create_layer_slide_slots_nth:
  assumes "j < length (layer_slide_labels s)" and "j \<in> set is"
  shows "\<exists>obj. layer_slide_labels (fold (create_layer_slide_slot y) is s) ! j = Some obj \<and>
           obj_text obj = slide_slot_text 12 (layer_slide_window_start s + int j) \<and>
           (layer_slide_window_start s + int j < 0 \<longrightarrow> obj_text_opa obj = LV_OPA_TRANSP)"
  using assms
proof (induction "is" arbitrary: s rule: rev_induct)
  case Nil
  then show ?case by simp
next
  case (snoc i "is")
  let ?t = "fold (create_layer_slide_slot y) is s"
  have len: "j < length (layer_slide_labels ?t)" using snoc.prems(1) by simp
  show ?case
  proof (cases "j = i")
    case True
    with len show ?thesis
      by (simp add: create_layer_slide_slot_nth slide_slot_style_negative)
  next
    case False
    with snoc.prems have "j \<in> set is" by simp
    from snoc.IH [OF snoc.prems(1) this] False len show ?thesis
      by (simp add: create_layer_slide_slot_nth)
  qed
qed

text \<open>
  \<^verbatim>\<open>create_layer_slide_widgets\<close> puts the active layer on slot 2 and leaves the labels of
  negative layer numbers empty and transparent, as the update does.
\<close>

lemma create_layer_slide_widgets_slots:
  assumes "length (layer_slide_labels s) = SLIDE_VISIBLE_COUNT" and "i < SLIDE_VISIBLE_COUNT"
  shows "active_layer s - layer_slide_window_start (create_layer_slide_widgets y s) = SLIDE_LARGE_ZONE_START \<and>
         (\<exists>obj. layer_slide_labels (create_layer_slide_widgets y s) ! i = Some obj \<and>
            (layer_slide_window_start (create_layer_slide_widgets y s) + int i < 0 \<longrightarrow>
               obj_text obj = [] \<and> obj_text_opa obj = LV_OPA_TRANSP))"
proof -
  let ?s0 = "s\<lparr>layer_slide_window_start := active_layer s - SLIDE_LARGE_ZONE_START\<rparr>"
  from assms have "i < length (layer_slide_labels ?s0)" "i \<in> set [0..<SLIDE_VISIBLE_COUNT]"
    by simp_all
  from create_layer_slide_slots_nth [OF this, of y] show ?thesis
    by (auto simp: create_layer_slide_widgets_def slide_slot_text_def)
qed

subsection \<open>Battery layout\<close>

lemma upt_batteries: "[0..<MAX_KB_BATTERIES] = [0, 1, 2, 3]"
  by (simp add: MAX_KB_BATTERIES_def upt_rec)

lemma reposition_battery_slot_fields [simp]:
  "log_battery_reposition (reposition_battery_slot c i s) = log_battery_reposition s"
  "active_battery_count (reposition_battery_slot c i s) = active_battery_count s"
  "battery_values (reposition_battery_slot c i s) = battery_values s"
  "kb_bat_bar (reposition_battery_slot c i s)
     = upd_obj i (\<lambda>obj. lv_obj_align LV_ALIGN_BOTTOM_MID (kb_x_offsets c ! i) KB_BAR_Y_OFFSET_R
                          (obj\<lparr>obj_width := kb_bar_width c\<rparr>)) (kb_bat_bar s)"
  "kb_bat_name (reposition_battery_slot c i s)
     = upd_obj i (\<lambda>obj.
          (lv_obj_align LV_ALIGN_BOTTOM_MID
             (kb_x_offsets c ! i - kb_bar_width c sdiv 2 + KB_NAME_X_OFFSET_R) KB_PCT_Y_OFFSET_R obj)
          \<lparr>obj_text := (case kb_names c of
                          None \<Rightarrow> []
                        | Some ns \<Rightarrow>
                            (case ns ! i of
                               None \<Rightarrow> []
                             | Some name \<Rightarrow> if int i < c then name else []))\<rparr>)
        (kb_bat_name s)"
  by (simp_all add: reposition_battery_slot_def Let_def)

lemma reposition_battery_slots_fields [simp]:
  "log_battery_reposition (fold (reposition_battery_slot c) is s) = log_battery_reposition s"
  "active_battery_count (fold (reposition_battery_slot c) is s) = active_battery_count s"
  "battery_values (fold (reposition_battery_slot c) is s) = battery_values s"
  by (rule fold_preserve, simp)+

lemma reposition_battery_slots_bar:
  "kb_bat_bar (fold (reposition_battery_slot c) is s)
     = fold (\<lambda>i. upd_obj i (\<lambda>obj. lv_obj_align LV_ALIGN_BOTTOM_MID (kb_x_offsets c ! i) KB_BAR_Y_OFFSET_R
                          (obj\<lparr>obj_width := kb_bar_width c\<rparr>))) is (kb_bat_bar s)"
  by (induction "is" arbitrary: s) simp_all

lemma reposition_battery_slots_name:
  "kb_bat_name (fold (reposition_battery_slot c) is s)
     = fold (\<lambda>i. upd_obj i (\<lambda>obj.
          (lv_obj_align LV_ALIGN_BOTTOM_MID
             (kb_x_offsets c ! i - kb_bar_width c sdiv 2 + KB_NAME_X_OFFSET_R) KB_PCT_Y_OFFSET_R obj)
          \<lparr>obj_text := (case kb_names c of
                          None \<Rightarrow> []
                        | Some ns \<Rightarrow>
                            (case ns ! i of
                               None \<Rightarrow> []
                             | Some name \<Rightarrow> if int i < c then name else []))\<rparr>)) is (kb_bat_name s)"
  by (induction "is" arbitrary: s) simp_all

lemma reposition_battery_widgets_log:
  "log_battery_reposition (reposition_battery_widgets c s)
     = log_battery_reposition s @ [if c < 1 then 1 else if c > 4 then 4 else c]"
  by (simp add: reposition_battery_widgets_def Let_def MAX_KB_BATTERIES_def)

lemma update_battery_slot_fields [simp]:
  "log_battery_reposition (update_battery_slot vs c i s) = log_battery_reposition s"
  "active_battery_count (update_battery_slot vs c i s) = active_battery_count s"
  "battery_values (update_battery_slot vs c i s) = battery_values s"
  by (simp_all add: update_battery_slot_def Let_def)

lemma update_battery_slots_fields [simp]:
  "log_battery_reposition (fold (update_battery_slot vs c) is s) = log_battery_reposition s"
  "active_battery_count (fold (update_battery_slot vs c) is s) = active_battery_count s"
  "battery_values (fold (update_battery_slot vs c) is s) = battery_values s"
  by (rule fold_preserve, simp)+

lemma count_active_batteries_range:
  "0 \<le> count_active_batteries [a, b, c, d] \<and> count_active_batteries [a, b, c, d] \<le> 4"
  by (simp add: count_active_batteries_def)

text \<open>The layout of \<^verbatim>\<open>reposition_battery_widgets\<close> on the bars and on the name labels.\<close>

lemma reposition_battery_widgets_layout:
  assumes "1 \<le> c" and "c \<le> 4" and "i < MAX_KB_BATTERIES"
    and "length (kb_bat_bar s) = MAX_KB_BATTERIES" and "length (kb_bat_name s) = MAX_KB_BATTERIES"
  shows "kb_bat_bar (reposition_battery_widgets c s) ! i
           = map_option (\<lambda>obj. lv_obj_align LV_ALIGN_BOTTOM_MID (kb_x_offsets c ! i) KB_BAR_Y_OFFSET_R
                          (obj\<lparr>obj_width := kb_bar_width c\<rparr>)) (kb_bat_bar s ! i)"
    and "kb_bat_name (reposition_battery_widgets c s) ! i
           = map_option (\<lambda>obj.
          (lv_obj_align LV_ALIGN_BOTTOM_MID
             (kb_x_offsets c ! i - kb_bar_width c sdiv 2 + KB_NAME_X_OFFSET_R) KB_PCT_Y_OFFSET_R obj)
          \<lparr>obj_text := (case kb_names c of
                          None \<Rightarrow> []
                        | Some ns \<Rightarrow>
                            (case ns ! i of
                               None \<Rightarrow> []
                             | Some name \<Rightarrow> if int i < c then name else []))\<rparr>) (kb_bat_name s ! i)"
  using assms
  by (simp_all add: reposition_battery_widgets_def Let_def reposition_battery_slots_bar
        reposition_battery_slots_name nth_fold_upd_obj_upt MAX_KB_BATTERIES_def)

lemma display_update_keyboard_battery_4_log:
  "log_battery_reposition (display_update_keyboard_battery_4 b0 b1 b2 b3 s)
     = log_battery_reposition s @
       (if count_active_batteries [b0, b1, b2, b3] \<noteq> active_battery_count s \<and>
           0 < count_active_batteries [b0, b1, b2, b3]
        then [count_active_batteries [b0, b1, b2, b3]] else [])"
  using count_active_batteries_range [of b0 b1 b2 b3]
  by (simp add: display_update_keyboard_battery_4_def Let_def reposition_battery_widgets_log)

lemma display_update_keyboard_battery_4_count:
  "active_battery_count (display_update_keyboard_battery_4 b0 b1 b2 b3 s)
     = count_active_batteries [b0, b1, b2, b3]"
  by (simp add: display_update_keyboard_battery_4_def Let_def reposition_battery_widgets_def)

lemma battery_layout_tables:
  assumes "1 \<le> c" and "c \<le> 4" and "i < MAX_KB_BATTERIES"
  shows "kb_bar_width c = spec_battery_widths ! nat (c - 1)"
    and "kb_x_offsets c ! i = spec_battery_x_offsets ! nat (c - 1) ! i"
    and "(case kb_names c of None \<Rightarrow> [] | Some ns \<Rightarrow>
            (case ns ! i of None \<Rightarrow> [] | Some name \<Rightarrow> if int i < c then name else []))
         = (if i < length (spec_battery_names ! nat (c - 1)) then spec_battery_names ! nat (c - 1) ! i else [])"
proof -
  from assms have c: "c = 1 \<or> c = 2 \<or> c = 3 \<or> c = 4" by arith
  from assms have i: "i = 0 \<or> i = 1 \<or> i = 2 \<or> i = 3" by (simp add: MAX_KB_BATTERIES_def) arith
  from c show "kb_bar_width c = spec_battery_widths ! nat (c - 1)"
    by (elim disjE) (simp_all add: kb_bar_width_def spec_battery_widths_def)
  from c i show "kb_x_offsets c ! i = spec_battery_x_offsets ! nat (c - 1) ! i"
    by (elim disjE) (simp_all add: kb_x_offsets_def spec_battery_x_offsets_def)
  from c i show "(case kb_names c of None \<Rightarrow> [] | Some ns \<Rightarrow>
            (case ns ! i of None \<Rightarrow> [] | Some name \<Rightarrow> if int i < c then name else []))
         = (if i < length (spec_battery_names ! nat (c - 1)) then spec_battery_names ! nat (c - 1) ! i else [])"
    by (elim disjE)
       (simp_all add: kb_names_def spec_battery_names_def battery_names_2_def battery_names_3_def
          battery_names_4_def)
qed

text \<open>With no value above 0 the second loop hides every widget of every slot.\<close>

lemma update_battery_slot_hide:
  "c \<le> 0 \<Longrightarrow> update_battery_slot vs c i s =
     s\<lparr>kb_bat_bar := upd_obj i (\<lambda>obj. obj\<lparr>obj_opa := 0, obj_ind_opa := 0\<rparr>) (kb_bat_bar s),
       kb_bat_pct := upd_obj i (\<lambda>obj. obj\<lparr>obj_opa := 0\<rparr>) (kb_bat_pct s),
       kb_bat_name := upd_obj i (\<lambda>obj. obj\<lparr>obj_opa := 0\<rparr>) (kb_bat_name s),
       kb_bat_nc_bar := upd_obj i (\<lambda>obj. obj\<lparr>obj_opa := 0\<rparr>) (kb_bat_nc_bar s),
       kb_bat_nc_label := upd_obj i (\<lambda>obj. obj\<lparr>obj_opa := 0\<rparr>) (kb_bat_nc_label s)\<rparr>"
  by (simp add: update_battery_slot_def Let_def)

lemma update_battery_slots_hide:
  assumes "c \<le> 0"
  shows "kb_bat_bar (fold (update_battery_slot vs c) is s)
           = fold (\<lambda>i. upd_obj i (\<lambda>obj. obj\<lparr>obj_opa := 0, obj_ind_opa := 0\<rparr>)) is (kb_bat_bar s)"
    and "kb_bat_pct (fold (update_battery_slot vs c) is s)
           = fold (\<lambda>i. upd_obj i (\<lambda>obj. obj\<lparr>obj_opa := 0\<rparr>)) is (kb_bat_pct s)"
    and "kb_bat_name (fold (update_battery_slot vs c) is s)
           = fold (\<lambda>i. upd_obj i (\<lambda>obj. obj\<lparr>obj_opa := 0\<rparr>)) is (kb_bat_name s)"
    and "kb_bat_nc_bar (fold (update_battery_slot vs c) is s)
           = fold (\<lambda>i. upd_obj i (\<lambda>obj. obj\<lparr>obj_opa := 0\<rparr>)) is (kb_bat_nc_bar s)"
    and "kb_bat_nc_label (fold (update_battery_slot vs c) is s)
           = fold (\<lambda>i. upd_obj i (\<lambda>obj. obj\<lparr>obj_opa := 0\<rparr>)) is (kb_bat_nc_label s)"
  using assms by (induction "is" arbitrary: s; simp add: update_battery_slot_hide)+

lemma display_update_keyboard_battery_4_hidden:
  assumes "count_active_batteries [b0, b1, b2, b3] = 0" and "i < MAX_KB_BATTERIES"
    and "length (kb_bat_bar s) = MAX_KB_BATTERIES" and "length (kb_bat_pct s) = MAX_KB_BATTERIES"
    and "length (kb_bat_name s) = MAX_KB_BATTERIES" and "length (kb_bat_nc_bar s) = MAX_KB_BATTERIES"
    and "length (kb_bat_nc_label s) = MAX_KB_BATTERIES"
  shows "kb_bat_bar (display_update_keyboard_battery_4 b0 b1 b2 b3 s) ! i
           = map_option (\<lambda>obj. obj\<lparr>obj_opa := 0, obj_ind_opa := 0\<rparr>) (kb_bat_bar s ! i)"
    and "kb_bat_pct (display_update_keyboard_battery_4 b0 b1 b2 b3 s) ! i
           = map_option (\<lambda>obj. obj\<lparr>obj_opa := 0\<rparr>) (kb_bat_pct s ! i)"
    and "kb_bat_name (display_update_keyboard_battery_4 b0 b1 b2 b3 s) ! i
           = map_option (\<lambda>obj. obj\<lparr>obj_opa := 0\<rparr>) (kb_bat_name s ! i)"
    and "kb_bat_nc_bar (display_update_keyboard_battery_4 b0 b1 b2 b3 s) ! i
           = map_option (\<lambda>obj. obj\<lparr>obj_opa := 0\<rparr>) (kb_bat_nc_bar s ! i)"
    and "kb_bat_nc_label (display_update_keyboard_battery_4 b0 b1 b2 b3 s) ! i
           = map_option (\<lambda>obj. obj\<lparr>obj_opa := 0\<rparr>) (kb_bat_nc_label s ! i)"
  using assms
  by (simp_all add: display_update_keyboard_battery_4_def Let_def update_battery_slots_hide
        nth_fold_upd_obj_upt)

lemma hidden_opa:
  "map_option (\<lambda>obj. obj\<lparr>obj_opa := 0, obj_ind_opa := 0\<rparr>) x = Some obj \<Longrightarrow> obj_opa obj = 0"
  "map_option (\<lambda>obj. obj\<lparr>obj_opa := 0\<rparr>) x = Some obj \<Longrightarrow> obj_opa obj = 0"
  by (cases x; auto)+

text \<open>
  Claim C5, as amended. \<^verbatim>\<open>reposition_battery_widgets\<close> lays out the existing bars and
  name labels by the table: for the counts 1, 2, 3, 4 the bar widths 165, 110, 70, 52, the
  x offsets of the table row, and the names none; L, R; L, R, Aux; L, R, A1, A2, with the
  empty text on every other name label. \<^verbatim>\<open>display_update_keyboard_battery_4\<close> calls it
  exactly when the number of values above 0 differs from the stored count and is above 0;
  when the count changes to 0 the stored count is updated and no layout is computed. The
  stored count is the new count after every call. When no value is above 0, every
  existing widget of every slot (bar, percentage, name, and the two placeholders shown
  for a missing battery) ends with opacity 0: all slots are hidden. The five widget
  arrays have their declared size, \<^verbatim>\<open>MAX_KB_BATTERIES\<close>.
\<close>

theorem battery_layout_recomputed:
  assumes bar_len: "length (kb_bat_bar s) = MAX_KB_BATTERIES"
    and name_len: "length (kb_bat_name s) = MAX_KB_BATTERIES"
    and other_len: "length (kb_bat_pct s) = MAX_KB_BATTERIES"
      "length (kb_bat_nc_bar s) = MAX_KB_BATTERIES" "length (kb_bat_nc_label s) = MAX_KB_BATTERIES"
  shows "(\<forall>c i bar. 1 \<le> c \<and> c \<le> 4 \<and> i < MAX_KB_BATTERIES \<and>
            kb_bat_bar (reposition_battery_widgets c s) ! i = Some bar \<longrightarrow>
            obj_width bar = spec_battery_widths ! nat (c - 1) \<and>
            obj_x bar = spec_battery_x_offsets ! nat (c - 1) ! i) \<and>
         (\<forall>c i name. 1 \<le> c \<and> c \<le> 4 \<and> i < MAX_KB_BATTERIES \<and>
            kb_bat_name (reposition_battery_widgets c s) ! i = Some name \<longrightarrow>
            obj_text name = (if i < length (spec_battery_names ! nat (c - 1))
                             then spec_battery_names ! nat (c - 1) ! i else [])) \<and>
         log_battery_reposition (display_update_keyboard_battery_4 b0 b1 b2 b3 s)
           = log_battery_reposition s @
             (if count_active_batteries [b0, b1, b2, b3] \<noteq> active_battery_count s \<and>
                 0 < count_active_batteries [b0, b1, b2, b3]
              then [count_active_batteries [b0, b1, b2, b3]] else []) \<and>
         active_battery_count (display_update_keyboard_battery_4 b0 b1 b2 b3 s)
           = count_active_batteries [b0, b1, b2, b3] \<and>
         (count_active_batteries [b0, b1, b2, b3] = 0 \<longrightarrow>
            (\<forall>i obj. i < MAX_KB_BATTERIES \<and>
               (kb_bat_bar (display_update_keyboard_battery_4 b0 b1 b2 b3 s) ! i = Some obj \<or>
                kb_bat_pct (display_update_keyboard_battery_4 b0 b1 b2 b3 s) ! i = Some obj \<or>
                kb_bat_name (display_update_keyboard_battery_4 b0 b1 b2 b3 s) ! i = Some obj \<or>
                kb_bat_nc_bar (display_update_keyboard_battery_4 b0 b1 b2 b3 s) ! i = Some obj \<or>
                kb_bat_nc_label (display_update_keyboard_battery_4 b0 b1 b2 b3 s) ! i = Some obj) \<longrightarrow>
               obj_opa obj = 0))"
proof -
  have bars: "obj_width bar = spec_battery_widths ! nat (c - 1) \<and>
            obj_x bar = spec_battery_x_offsets ! nat (c - 1) ! i"
    if "1 \<le> c \<and> c \<le> 4 \<and> i < MAX_KB_BATTERIES \<and>
            kb_bat_bar (reposition_battery_widgets c s) ! i = Some bar" for c i bar
  proof -
    from that have c: "1 \<le> c" "c \<le> 4" and i: "i < MAX_KB_BATTERIES"
      and bar: "kb_bat_bar (reposition_battery_widgets c s) ! i = Some bar" by simp_all
    from reposition_battery_widgets_layout(1) [OF c i bar_len name_len] bar
    obtain old where "bar = lv_obj_align LV_ALIGN_BOTTOM_MID (kb_x_offsets c ! i) KB_BAR_Y_OFFSET_R
                          (old\<lparr>obj_width := kb_bar_width c\<rparr>)"
      by (cases "kb_bat_bar s ! i") auto
    with battery_layout_tables(1,2) [OF c i] show ?thesis
      by (simp add: lv_obj_align_def)
  qed
  have names: "obj_text name = (if i < length (spec_battery_names ! nat (c - 1))
                             then spec_battery_names ! nat (c - 1) ! i else [])"
    if "1 \<le> c \<and> c \<le> 4 \<and> i < MAX_KB_BATTERIES \<and>
            kb_bat_name (reposition_battery_widgets c s) ! i = Some name" for c i name
  proof -
    from that have c: "1 \<le> c" "c \<le> 4" and i: "i < MAX_KB_BATTERIES"
      and name: "kb_bat_name (reposition_battery_widgets c s) ! i = Some name" by simp_all
    from reposition_battery_widgets_layout(2) [OF c i bar_len name_len] name
    obtain old where "name = (lv_obj_align LV_ALIGN_BOTTOM_MID
             (kb_x_offsets c ! i - kb_bar_width c sdiv 2 + KB_NAME_X_OFFSET_R) KB_PCT_Y_OFFSET_R old)
          \<lparr>obj_text := (case kb_names c of
                          None \<Rightarrow> []
                        | Some ns \<Rightarrow>
                            (case ns ! i of
                               None \<Rightarrow> []
                             | Some name \<Rightarrow> if int i < c then name else []))\<rparr>"
      by (cases "kb_bat_name s ! i") auto
    with battery_layout_tables(3) [OF c i] show ?thesis
      by simp
  qed
  have hidden: "obj_opa obj = 0"
    if zero: "count_active_batteries [b0, b1, b2, b3] = 0" and i: "i < MAX_KB_BATTERIES"
      and obj: "kb_bat_bar (display_update_keyboard_battery_4 b0 b1 b2 b3 s) ! i = Some obj \<or>
                kb_bat_pct (display_update_keyboard_battery_4 b0 b1 b2 b3 s) ! i = Some obj \<or>
                kb_bat_name (display_update_keyboard_battery_4 b0 b1 b2 b3 s) ! i = Some obj \<or>
                kb_bat_nc_bar (display_update_keyboard_battery_4 b0 b1 b2 b3 s) ! i = Some obj \<or>
                kb_bat_nc_label (display_update_keyboard_battery_4 b0 b1 b2 b3 s) ! i = Some obj"
    for i obj
    using obj
    unfolding display_update_keyboard_battery_4_hidden
                [OF zero i bar_len other_len(1) name_len other_len(2) other_len(3)]
    by (elim disjE) (simp_all add: hidden_opa)
  have layout: "(\<forall>c i bar. 1 \<le> c \<and> c \<le> 4 \<and> i < MAX_KB_BATTERIES \<and>
            kb_bat_bar (reposition_battery_widgets c s) ! i = Some bar \<longrightarrow>
            obj_width bar = spec_battery_widths ! nat (c - 1) \<and>
            obj_x bar = spec_battery_x_offsets ! nat (c - 1) ! i) \<and>
         (\<forall>c i name. 1 \<le> c \<and> c \<le> 4 \<and> i < MAX_KB_BATTERIES \<and>
            kb_bat_name (reposition_battery_widgets c s) ! i = Some name \<longrightarrow>
            obj_text name = (if i < length (spec_battery_names ! nat (c - 1))
                             then spec_battery_names ! nat (c - 1) ! i else []))"
    using bars names by blast
  have hide: "count_active_batteries [b0, b1, b2, b3] = 0 \<longrightarrow>
            (\<forall>i obj. i < MAX_KB_BATTERIES \<and>
               (kb_bat_bar (display_update_keyboard_battery_4 b0 b1 b2 b3 s) ! i = Some obj \<or>
                kb_bat_pct (display_update_keyboard_battery_4 b0 b1 b2 b3 s) ! i = Some obj \<or>
                kb_bat_name (display_update_keyboard_battery_4 b0 b1 b2 b3 s) ! i = Some obj \<or>
                kb_bat_nc_bar (display_update_keyboard_battery_4 b0 b1 b2 b3 s) ! i = Some obj \<or>
                kb_bat_nc_label (display_update_keyboard_battery_4 b0 b1 b2 b3 s) ! i = Some obj) \<longrightarrow>
               obj_opa obj = 0)"
    using hidden by blast
  note log = display_update_keyboard_battery_4_log [of b0 b1 b2 b3 s]
  note cnt = display_update_keyboard_battery_4_count [of b0 b1 b2 b3 s]
  from conjI [OF conjunct1 [OF layout] conjI [OF conjunct2 [OF layout] conjI [OF log conjI [OF cnt hide]]]]
  show ?thesis .
qed

text \<open>
  On the main screen with two batteries stored: a third value above 0 computes the
  layout for 3, and the first bar then is 70 wide at x offset -90; new values for the same
  two batteries compute none; and after four zeros the first bar and the first name label
  are hidden.
\<close>

theorem battery_layout_recomputed_witness:
  "log_battery_reposition (display_update_keyboard_battery_4 80 75 60 0 main_dial) = [3] \<and>
   log_battery_reposition (display_update_keyboard_battery_4 50 40 0 0 main_dial) = [] \<and>
   (\<exists>bar. kb_bat_bar (reposition_battery_widgets 3 main_dial) ! 0 = Some bar \<and>
      obj_width bar = 70 \<and> obj_x bar = - 90) \<and>
   (\<exists>bar. kb_bat_bar (display_update_keyboard_battery_4 0 0 0 0 main_dial) ! 0 = Some bar \<and>
      obj_opa bar = 0) \<and>
   (\<exists>name. kb_bat_name (display_update_keyboard_battery_4 0 0 0 0 main_dial) ! 0 = Some name \<and>
      obj_opa name = 0)"
proof -
  have len: "length (kb_bat_bar main_dial) = MAX_KB_BATTERIES" "length (kb_bat_name main_dial) = MAX_KB_BATTERIES"
    "length (kb_bat_pct main_dial) = MAX_KB_BATTERIES" "length (kb_bat_nc_bar main_dial) = MAX_KB_BATTERIES"
    "length (kb_bat_nc_label main_dial) = MAX_KB_BATTERIES"
    by (simp_all add: main_dial_def)
  have zero: "count_active_batteries [0, 0, 0, 0] = 0"
    by (simp add: count_active_batteries_def)
  have i: "0 < MAX_KB_BATTERIES" by (simp add: MAX_KB_BATTERIES_def)
  have old: "kb_bat_bar main_dial ! 0 = Some (lv_obj_new 10)" "kb_bat_name main_dial ! 0 = Some (lv_obj_new 30)"
    by (simp_all add: main_dial_def upt_batteries)
  from reposition_battery_widgets_layout(1) [OF _ _ i len(1,2), of 3] old
  obtain b3 where b3: "kb_bat_bar (reposition_battery_widgets 3 main_dial) ! 0 = Some b3"
    by simp
  from display_update_keyboard_battery_4_hidden(1,3) [OF zero i len(1) len(3) len(2) len(4) len(5)] old
  obtain b0 n0 where h: "kb_bat_bar (display_update_keyboard_battery_4 0 0 0 0 main_dial) ! 0 = Some b0"
      "kb_bat_name (display_update_keyboard_battery_4 0 0 0 0 main_dial) ! 0 = Some n0"
    by simp
  from battery_layout_recomputed [OF len, of 80 75 60 0] battery_layout_recomputed [OF len, of 50 40 0 0]
  have logs: "log_battery_reposition (display_update_keyboard_battery_4 80 75 60 0 main_dial) = [3]"
    "log_battery_reposition (display_update_keyboard_battery_4 50 40 0 0 main_dial) = []"
    by (simp_all add: count_active_batteries_def main_dial_def main_boot_def)
  from battery_layout_recomputed [OF len, of 0 0 0 0]
  have "1 \<le> (3::int) \<and> (3::int) \<le> 4 \<and> 0 < MAX_KB_BATTERIES \<and>
          kb_bat_bar (reposition_battery_widgets 3 main_dial) ! 0 = Some b3 \<longrightarrow>
        obj_width b3 = spec_battery_widths ! nat (3 - 1) \<and>
        obj_x b3 = spec_battery_x_offsets ! nat (3 - 1) ! 0"
    by blast
  with b3 i have "obj_width b3 = 70 \<and> obj_x b3 = - 90"
    by (simp add: spec_battery_widths_def spec_battery_x_offsets_def)
  moreover from battery_layout_recomputed [OF len, of 0 0 0 0] zero h i
  have "obj_opa b0 = 0" "obj_opa n0 = 0"
    by blast+
  ultimately show ?thesis
    using logs b3 h by simp
qed

text \<open>
  Claim C5 as the specification states it fails: with two batteries stored, the update
  with four zeros changes the count to 0 and computes no layout.
\<close>

theorem battery_reposition_on_every_change_counterexample:
  "count_active_batteries [0, 0, 0, 0] \<noteq> active_battery_count main_dial \<and>
   log_battery_reposition (display_update_keyboard_battery_4 0 0 0 0 main_dial)
     = log_battery_reposition main_dial"
  by (simp add: display_update_keyboard_battery_4_log count_active_batteries_def main_dial_def main_boot_def)

subsection \<open>Invalid input\<close>

text \<open>A rate in range is shown with one decimal: 12.34 Hz as \<open>12.3Hz\<close>, here without rounding error.\<close>

lemma rate_float_text_valid_example:
  "rate_float_text (\<lambda>r. r) (F_fin (1234 / 100)) = ''12.3Hz''"
  by (simp add: rate_float_text_def F_999_9_def c_trunc_def Let_def dec_eval sdiv_nonneg smod_nonneg)

text \<open>
  Claim C9, as amended. A layer number outside 0..255 makes \<^verbatim>\<open>display_update_layer\<close>
  return with the whole state as it was: the cached layer and the display keep the last
  valid layer. A rate passed to \<^verbatim>\<open>display_update_signal\<close> that is negative, above
  \<^verbatim>\<open>999.9f\<close> or not a number is shown as \<open>-.--Hz\<close> on the rate label when the label
  exists. Both functions are total: every widget access is guarded by the test of its
  pointer, and the cast of the rate to \<^verbatim>\<open>int\<close> is reached for rates from 0 to 999.9 only.
\<close>

theorem invalid_input_handling:
  "(layer < 0 \<or> layer > 255 \<longrightarrow> display_update_layer fixed_mode layer s = s) \<and>
   (f_less rate 0 \<or> f_greater rate F_999_9 \<or> f_is_nan rate \<longrightarrow>
      rate_float_text fl rate = ''-.--Hz'' \<and>
      rate_label (display_update_signal fl rssi_val rate s)
        = map_option (\<lambda>l. l\<lparr>obj_text := ''-.--Hz''\<rparr>) (rate_label s))"
proof -
  have t: "rate_float_text fl rate = ''-.--Hz''"
    if "f_less rate 0 \<or> f_greater rate F_999_9 \<or> f_is_nan rate"
    using that by (auto simp: rate_float_text_def snprintf_def)
  then show ?thesis
    by (auto simp: display_update_layer_def display_update_signal_def Let_def)
qed

text \<open>
  On the main screen in dial mode: layer 300 changes nothing, a NaN rate shows the
  placeholder on the rate label, and so does the rate 1000.
\<close>

theorem invalid_input_handling_witness:
  "display_update_layer fixed_mode_none 300 main_dial = main_dial \<and>
   rate_label (display_update_signal (\<lambda>r. r) (- 60) F_nan main_dial)
     = Some ((lv_obj_new 62)\<lparr>obj_text := ''-.--Hz''\<rparr>) \<and>
   rate_float_text (\<lambda>r. r) (F_fin 1000) = ''-.--Hz''"
  using invalid_input_handling [of 300 fixed_mode_none main_dial F_nan "\<lambda>r. r" "- 60"]
    invalid_input_handling [of 0 fixed_mode_none main_dial "F_fin 1000" "\<lambda>r. r" "- 60"]
  by (simp add: main_dial_def F_999_9_def)

text \<open>
  Claim C9 as the specification states it fails for the layer: with layer 3 cached, the
  update with 300 leaves the state as it is, so the layer is neither clamped to 255 nor
  replaced by a placeholder.
\<close>

theorem invalid_layer_clamped_counterexample:
  "display_update_layer fixed_mode_none 300 (main_dial\<lparr>active_layer := 3\<rparr>) = main_dial\<lparr>active_layer := 3\<rparr> \<and>
   active_layer (display_update_layer fixed_mode_none 300 (main_dial\<lparr>active_layer := 3\<rparr>)) \<noteq> 255"
  by (simp add: display_update_layer_def)

end
